theory Spec2Isabelle
  imports Complex_Main
begin

section \<open>Data model of the predictor\<close>

text \<open>
  The script computes with JavaScript numbers. They are modelled as real numbers, so
  rounding of IEEE doubles is idealised away; \<open>Infinity\<close> appears only as the
  absent segment limit. Objects used as dictionaries are maps from property names to
  numbers. Where the script would go on computing with \<open>undefined\<close> (which yields NaN),
  the model stops with the outcome \<open>NotANumber\<close>; where the script throws, the model
  stops with \<open>TypeError\<close>.
\<close>

datatype error = TypeError | NotANumber

type_synonym stats = "string \<rightharpoonup> real"
type_synonym skills = "string \<rightharpoonup> real"
type_synonym resources = "string \<rightharpoonup> real"

text \<open>An effect mutates the resources and the skills it is handed.\<close>

type_synonym effect = "resources \<Rightarrow> skills \<Rightarrow> resources \<times> skills"

record progression =
  progress :: real
  completed :: int
  total :: real

record action =
  expMult :: real
  townNum :: nat
  varName :: string
  segments :: int
  astats :: "string \<rightharpoonup> real"
  loopStats :: "string list"
  manaCost :: real

text \<open>
  The \<open>cost\<close> and \<open>tick\<close> members of a loop return closures over the progression,
  stats, skills and resources objects; every rule of the catalogue reads those objects
  inside the inner closure, that is, when the closure is called. The model therefore
  hands the current objects to \<open>l_cost\<close> and \<open>l_tick\<close> at each call.
\<close>

record loop =
  l_max :: "(action \<Rightarrow> int) option"
  l_cost :: "progression \<Rightarrow> action \<Rightarrow> int \<Rightarrow> real"
  l_tick :: "progression \<Rightarrow> action \<Rightarrow> stats \<Rightarrow> skills \<Rightarrow> resources \<Rightarrow> int \<Rightarrow> real"
  e_segment :: "effect option"
  e_loop :: "effect option"
  e_end :: "effect option"

datatype can_start = CSTrue | CSFun "resources \<Rightarrow> bool"

record prediction =
  name :: string
  action :: action
  p_ticks :: int
  affected :: "string list"
  effect :: "effect option"
  loop :: "loop option"
  canStart :: can_start

record state =
  resources :: resources
  stats :: stats
  skills :: skills
  progressions :: "string \<rightharpoonup> progression"

text \<open>
  The host page's globals that the engine reads. The levels that the host computes are
  not negative, so the engine never divides by 0; the infinities that a division by 0
  produces in the script are not represented. \<open>host_skills\<close> lists the entries of the
  host's \<open>skills\<close> object with their experience, and \<open>towns_total\<close> reads
  \<open>towns[townNum]['total' + varName]\<close>.
\<close>

record globals =
  statList :: "string list"
  translateClassNames :: "string \<Rightarrow> action"
  getLevelFromExp :: "real \<Rightarrow> real"
  getTotalBonusXP :: "string \<Rightarrow> real"
  host_skills :: "(string \<times> real) list"
  towns_total :: "nat \<Rightarrow> string \<Rightarrow> real"
  getSkillLevel :: "string \<Rightarrow> real"
  getBuffLevel :: "string \<Rightarrow> real"

section \<open>Prediction\<close>

text \<open>
  The parameter object of one rule of the catalogue; a member that is left out is
  \<open>None\<close>. The constructor fills in the defaults, so that \<open>canStart\<close> is either the
  given function or \<open>true\<close>.
\<close>

record params =
  pa_affected :: "string list option"
  pa_effect :: "effect option"
  pa_loop :: "loop option"
  pa_canStart :: "(resources \<Rightarrow> bool) option"

definition Prediction :: "globals \<Rightarrow> string \<Rightarrow> params \<Rightarrow> prediction" where
  "Prediction g nm pa =
     \<lparr>name = nm,
      action = translateClassNames g nm,
      p_ticks = 0,
      affected = (case pa_affected pa of None \<Rightarrow> [] | Some xs \<Rightarrow> xs),
      effect = pa_effect pa,
      loop = pa_loop pa,
      canStart = (case pa_canStart pa of None \<Rightarrow> CSTrue | Some f \<Rightarrow> CSFun f)\<rparr>"

text \<open>\<open>initPredictions\<close> creates one prediction for each name of the catalogue.\<close>

definition initPredictions :: "globals \<Rightarrow> (string \<rightharpoonup> params) \<Rightarrow> (string \<rightharpoonup> prediction)" where
  "initPredictions g catalogue = (\<lambda>nm. map_option (Prediction g nm) (catalogue nm))"

text \<open>The callback of the \<open>reduce\<close> in \<open>updateTicks\<close>.\<close>

definition cost_step :: "globals \<Rightarrow> action \<Rightarrow> stats \<Rightarrow> real \<Rightarrow> string \<Rightarrow> real" where
  "cost_step g a s cost i =
     cost + (case astats a i of
               None \<Rightarrow> 0
             | Some w \<Rightarrow> (case s i of
                           None \<Rightarrow> 0
                         | Some e \<Rightarrow> w / (1 + getLevelFromExp g e / 100)))"

definition updateTicks :: "globals \<Rightarrow> action \<Rightarrow> stats \<Rightarrow> int" where
  "updateTicks g a s =
     (let cost = foldl (cost_step g a s) 0 (statList g)
      in \<lceil>manaCost a * cost - 1 / 1000000\<rceil>)"

text \<open>
  \<open>ticks()\<close> returns the cached count when it is truthy. Otherwise it calls
  \<open>updateTicks()\<close> without arguments, which dereferences \<open>undefined\<close> and throws.
\<close>

definition ticks :: "prediction \<Rightarrow> error + int" where
  "ticks pr = (if p_ticks pr \<noteq> 0 then Inr (p_ticks pr) else Inl TypeError)"

definition exp_step :: "globals \<Rightarrow> prediction \<Rightarrow> action \<Rightarrow> stats \<Rightarrow> string \<Rightarrow> error + stats" where
  "exp_step g pr a s i =
     (case astats a i of
        None \<Rightarrow> Inr s
      | Some w \<Rightarrow> (case s i of
                    None \<Rightarrow> Inr s
                  | Some e \<Rightarrow> (case ticks pr of
                                Inl err \<Rightarrow> Inl err
                              | Inr t \<Rightarrow> Inr (s(i \<mapsto> e + w * expMult a * (manaCost a / real_of_int t)
                                                         * getTotalBonusXP g i)))))"

fun exp_each :: "globals \<Rightarrow> prediction \<Rightarrow> action \<Rightarrow> string list \<Rightarrow> stats \<Rightarrow> error + stats" where
  "exp_each g pr a [] s = Inr s"
| "exp_each g pr a (i # is) s =
     (case exp_step g pr a s i of Inl err \<Rightarrow> Inl err | Inr s' \<Rightarrow> exp_each g pr a is s')"

definition exp_gain :: "globals \<Rightarrow> prediction \<Rightarrow> action \<Rightarrow> stats \<Rightarrow> error + stats" where
  "exp_gain g pr a s = exp_each g pr a (statList g) s"

section \<open>Snapshot\<close>

text \<open>
  A comparison holds the last value and the difference to the value before it. The
  difference is \<open>null\<close> after \<open>init\<close>; subtracting with a missing property gives NaN.
\<close>

datatype delta = Null | NaN | Delta real

record comparison =
  c_value :: "real option"
  c_delta :: delta

record snapshot =
  attributes :: "string \<rightharpoonup> comparison"
  isInitialized :: bool

definition init :: "snapshot \<Rightarrow> (string \<rightharpoonup> real) \<Rightarrow> snapshot" where
  "init this attrs =
     this\<lparr>attributes := (\<lambda>i. case attrs i of
                                None \<Rightarrow> attributes this i
                              | Some v \<Rightarrow> Some \<lparr>c_value = Some v, c_delta = Null\<rparr>),
          isInitialized := True\<rparr>"

definition Snapshot :: "(string \<rightharpoonup> real) option \<Rightarrow> snapshot" where
  "Snapshot attrs =
     (let this = \<lparr>attributes = Map.empty, isInitialized = False\<rparr>
      in case attrs of None \<Rightarrow> this | Some a \<Rightarrow> init this a)"

definition compare :: "(string \<rightharpoonup> real) \<Rightarrow> comparison \<Rightarrow> string \<Rightarrow> comparison" where
  "compare attrs c i =
     \<lparr>c_value = attrs i,
      c_delta = (case attrs i of
                   None \<Rightarrow> NaN
                 | Some v \<Rightarrow> (case c_value c of None \<Rightarrow> NaN | Some w \<Rightarrow> Delta (v - w)))\<rparr>"

definition snap :: "snapshot \<Rightarrow> (string \<rightharpoonup> real) \<Rightarrow> snapshot" where
  "snap this attrs =
     (let this1 = (if \<not> isInitialized this then init this attrs else this)
      in this1\<lparr>attributes := (\<lambda>i. case attributes this1 i of
                                      None \<Rightarrow> None
                                    | Some c \<Rightarrow> Some (compare attrs c i))\<rparr>)"

section \<open>Loop progression: one tick\<close>

text \<open>
  \<open>tick\<close> returns \<open>additionalProgress && segment < maxSegments\<close>: the number itself
  when it is falsy, the comparison otherwise. The caller tests the result with \<open>!\<close>.
\<close>

datatype jsval = JNum real | JBool bool

fun truthy :: "jsval \<Rightarrow> bool" where
  "truthy (JNum x) = (x \<noteq> 0)"
| "truthy (JBool b) = b"

text \<open>\<open>segment < maxSegments\<close>, where no limit stands for \<open>Infinity\<close>.\<close>

definition below :: "int \<Rightarrow> int option \<Rightarrow> bool" where
  "below segment maxSegments = (case maxSegments of None \<Rightarrow> True | Some m \<Rightarrow> segment < m)"

definition apply_effect :: "effect option \<Rightarrow> resources \<times> skills \<Rightarrow> resources \<times> skills" where
  "apply_effect e rk = (case e of None \<Rightarrow> rk | Some f \<Rightarrow> f (fst rk) (snd rk))"

text \<open>The loop that finds the segment and the progress within it before the tick.\<close>

partial_function (option) before_tick :: "(int \<Rightarrow> real) \<Rightarrow> real \<Rightarrow> int \<Rightarrow> (real \<times> int) option" where
  "before_tick loopCost prog segment =
     (if prog \<ge> loopCost segment
      then before_tick loopCost (prog - loopCost segment) (segment + 1)
      else Some (prog, segment))"

text \<open>The variables of the second loop: two locals, and the objects it mutates.\<close>

record walk =
  w_progress :: real
  w_segment :: int
  w_progression :: progression
  w_resources :: resources
  w_skills :: skills

definition walk_cond :: "loop \<Rightarrow> action \<Rightarrow> int option \<Rightarrow> walk \<Rightarrow> bool" where
  "walk_cond lp a maxSegments w =
     (w_progress w \<ge> l_cost lp (w_progression w) a (w_segment w) \<and> below (w_segment w) maxSegments)"

definition complete_loop :: "loop \<Rightarrow> action \<Rightarrow> walk \<Rightarrow> walk" where
  "complete_loop lp a w =
     (let p = w_progression w;
          rk = apply_effect (e_loop lp) (w_resources w, w_skills w)
      in w\<lparr>w_progression := p\<lparr>progress := 0, completed := completed p + segments a, total := total p + 1\<rparr>,
           w_segment := w_segment w - segments a,
           w_resources := fst rk, w_skills := snd rk\<rparr>)"

definition walk_body :: "loop \<Rightarrow> action \<Rightarrow> walk \<Rightarrow> walk" where
  "walk_body lp a w =
     (let w1 = (if w_segment w \<ge> segments a - 1 then complete_loop lp a w else w);
          rk = apply_effect (e_segment lp) (w_resources w1, w_skills w1)
      in w1\<lparr>w_resources := fst rk, w_skills := snd rk\<rparr>)"

text \<open>The update expression \<open>progress -= loopCost(segment++)\<close>.\<close>

definition walk_next :: "loop \<Rightarrow> action \<Rightarrow> walk \<Rightarrow> walk" where
  "walk_next lp a w =
     w\<lparr>w_progress := w_progress w - l_cost lp (w_progression w) a (w_segment w),
       w_segment := w_segment w + 1\<rparr>"

partial_function (option) after_tick :: "loop \<Rightarrow> action \<Rightarrow> int option \<Rightarrow> walk \<Rightarrow> walk option" where
  "after_tick lp a maxSegments w =
     (if walk_cond lp a maxSegments w
      then after_tick lp a maxSegments (walk_next lp a (walk_body lp a w))
      else Some w)"

definition max_segments :: "loop \<Rightarrow> action \<Rightarrow> int option" where
  "max_segments lp a = (case l_max lp of None \<Rightarrow> None | Some f \<Rightarrow> Some (f a * segments a))"

text \<open>
  The loop part of \<open>tick\<close> up to its \<open>return\<close>: the progress of the tick
  (\<open>additionalProgress\<close>) and the variables after the second loop.
\<close>

definition tick_run :: "prediction \<Rightarrow> loop \<Rightarrow> state \<Rightarrow> (error + real \<times> walk) option" where
  "tick_run pr lp st =
     (case progressions st (name pr) of
        None \<Rightarrow> Some (Inl TypeError)
      | Some progression \<Rightarrow>
          (case before_tick (l_cost lp progression (action pr)) (progress progression) 0 of
             None \<Rightarrow> None
           | Some (progress0, segment0) \<Rightarrow>
               (case ticks pr of
                  Inl err \<Rightarrow> Some (Inl err)
                | Inr t \<Rightarrow>
                    (let additionalProgress =
                           l_tick lp progression (action pr) (stats st) (skills st) (resources st) segment0
                             * (manaCost (action pr) / real_of_int t);
                         w = \<lparr>w_progress = progress0 + additionalProgress,
                              w_segment = segment0,
                              w_progression = progression\<lparr>progress := progress progression + additionalProgress\<rparr>,
                              w_resources = resources st,
                              w_skills = skills st\<rparr>
                     in case after_tick lp (action pr) (max_segments lp (action pr)) w of
                          None \<Rightarrow> None
                        | Some w' \<Rightarrow> Some (Inr (additionalProgress, w'))))))"

text \<open>\<open>return additionalProgress && segment < maxSegments\<close>.\<close>

definition tick_result :: "real \<Rightarrow> int \<Rightarrow> int option \<Rightarrow> jsval" where
  "tick_result additionalProgress segment maxSegments =
     (if additionalProgress = 0 then JNum additionalProgress else JBool (below segment maxSegments))"

definition tick_loop :: "prediction \<Rightarrow> loop \<Rightarrow> state \<Rightarrow> (error + state \<times> jsval) option" where
  "tick_loop pr lp st =
     (case tick_run pr lp st of
        None \<Rightarrow> None
      | Some (Inl err) \<Rightarrow> Some (Inl err)
      | Some (Inr (additionalProgress, w)) \<Rightarrow>
          Some (Inr (st\<lparr>resources := w_resources w,
                       skills := w_skills w,
                       progressions := (progressions st)(name pr \<mapsto> w_progression w)\<rparr>,
                     tick_result additionalProgress (w_segment w) (max_segments lp (action pr)))))"

definition tick :: "globals \<Rightarrow> prediction \<Rightarrow> state \<Rightarrow> (error + state \<times> jsval) option" where
  "tick g pr st =
     (case exp_gain g pr (action pr) (stats st) of
        Inl err \<Rightarrow> Some (Inl err)
      | Inr s \<Rightarrow>
          (case loop pr of
             None \<Rightarrow> Some (Inr (st\<lparr>stats := s\<rparr>, JBool True))
           | Some lp \<Rightarrow> tick_loop pr lp (st\<lparr>stats := s\<rparr>)))"

section \<open>All ticks of one repetition\<close>

fun predict_ticks :: "globals \<Rightarrow> prediction \<Rightarrow> nat \<Rightarrow> state \<Rightarrow> (error + state) option" where
  "predict_ticks g pr 0 st = Some (Inr st)"
| "predict_ticks g pr (Suc n) st =
     (case resources st ''mana'' of
        None \<Rightarrow> Some (Inl NotANumber)
      | Some mana \<Rightarrow>
          (case tick g pr (st\<lparr>resources := (resources st)(''mana'' \<mapsto> mana - 1)\<rparr>) of
             None \<Rightarrow> None
           | Some (Inl err) \<Rightarrow> Some (Inl err)
           | Some (Inr (st', continue)) \<Rightarrow>
               if \<not> truthy continue then Some (Inr st') else predict_ticks g pr n st'))"

text \<open>
  \<open>predict\<close> stores the tick count in the prediction and then loops while
  \<open>ticks < prediction.ticks()\<close>; with a stored count of 0 that test throws.
\<close>

definition predict :: "globals \<Rightarrow> prediction \<Rightarrow> state \<Rightarrow> (error + prediction \<times> state) option" where
  "predict g pr st =
     (let pr' = pr\<lparr>p_ticks := updateTicks g (action pr) (stats st)\<rparr>
      in case ticks pr' of
           Inl err \<Rightarrow> Some (Inl err)
         | Inr n \<Rightarrow>
             (case predict_ticks g pr' (nat n) st of
                None \<Rightarrow> None
              | Some (Inl err) \<Rightarrow> Some (Inl err)
              | Some (Inr st') \<Rightarrow> Some (Inr (pr', st'))))"

section \<open>The action list\<close>

record listed_action =
  la_name :: string
  la_loops :: nat

text \<open>
  What \<open>update\<close> hands to \<open>template\<close> for one entry of the list: the resources, the
  comparisons of the two snapshots and the validity flag. The markup built from them is
  not modelled.
\<close>

record report =
  rp_name :: string
  rp_resources :: resources
  rp_stats :: "string \<rightharpoonup> comparison"
  rp_skills :: "string \<rightharpoonup> comparison"
  rp_isValid :: bool

text \<open>The variables of \<open>update\<close> that one repetition reads and writes.\<close>

record run =
  r_state :: state
  r_total :: real
  r_totalTicks :: real
  r_isValid :: bool

definition can_start :: "prediction \<Rightarrow> resources \<Rightarrow> bool" where
  "can_start pr r = (case canStart pr of CSTrue \<Rightarrow> True | CSFun f \<Rightarrow> f r)"

text \<open>\<open>state.resources.mana >= 0\<close>; a missing property compares false.\<close>

definition mana_ok :: "resources \<Rightarrow> bool" where
  "mana_ok r = (case r ''mana'' of None \<Rightarrow> False | Some m \<Rightarrow> m \<ge> 0)"

text \<open>
  The two statements marked "Only for Adventure Guild":
  \<open>mana -= adventures * 200\<close> before the total is updated and
  \<open>mana += adventures * 200\<close> after it.
\<close>

definition guild_minus :: "string \<Rightarrow> resources \<Rightarrow> error + resources" where
  "guild_minus lname r =
     (if lname = ''Adventure Guild''
      then (case r ''mana'' of
              None \<Rightarrow> Inl NotANumber
            | Some m \<Rightarrow> (case r ''adventures'' of
                          None \<Rightarrow> Inl NotANumber
                        | Some adv \<Rightarrow> Inr (r(''mana'' \<mapsto> m - adv * 200))))
      else Inr r)"

definition guild_plus :: "string \<Rightarrow> resources \<Rightarrow> error + resources" where
  "guild_plus lname r =
     (if lname = ''Adventure Guild''
      then (case r ''mana'' of
              None \<Rightarrow> Inl NotANumber
            | Some m \<Rightarrow> (case r ''adventures'' of
                          None \<Rightarrow> Inl NotANumber
                        | Some adv \<Rightarrow> Inr (r(''mana'' \<mapsto> m + adv * 200))))
      else Inr r)"

text \<open>\<open>currentMana - state.resources.mana\<close>.\<close>

definition mana_used :: "real option \<Rightarrow> resources \<Rightarrow> error + real" where
  "mana_used currentMana r =
     (case currentMana of
        None \<Rightarrow> Inl NotANumber
      | Some c \<Rightarrow> (case r ''mana'' of None \<Rightarrow> Inl NotANumber | Some m \<Rightarrow> Inr (c - m)))"

definition time_spent :: "globals \<Rightarrow> resources \<Rightarrow> real \<Rightarrow> real" where
  "time_spent g r used =
     (let temp = used / ((1 + getSkillLevel g ''Chronomancy'' / 60) powr (1 / 4));
          ritual = getBuffLevel g ''Ritual''
      in if r ''town'' = Some 0 \<and> ritual > 0 then temp / (1 + min ritual 20 / 10)
         else if r ''town'' = Some 1 \<and> ritual > 20 then temp / (1 + min (ritual - 20) 20 / 20)
         else if r ''town'' = Some 2 \<and> ritual > 40 then temp / (1 + min (ritual - 40) 20 / 40)
         else temp)"

definition run_effects :: "prediction \<Rightarrow> resources \<times> skills \<Rightarrow> resources \<times> skills" where
  "run_effects pr rk =
     (let rk1 = apply_effect (effect pr) rk
      in case loop pr of None \<Rightarrow> rk1 | Some lp \<Rightarrow> apply_effect (e_end lp) rk1)"

text \<open>The body of the repetition loop after \<open>this.predict\<close> has returned.\<close>

definition account :: "globals \<Rightarrow> string \<Rightarrow> prediction \<Rightarrow> real option \<Rightarrow> run \<Rightarrow> state \<Rightarrow> error + run" where
  "account g lname pr currentMana rn st =
     (let isValid = (r_isValid rn \<and> mana_ok (resources st))
      in case guild_minus lname (resources st) of
           Inl err \<Rightarrow> Inl err
         | Inr r1 \<Rightarrow>
             (case mana_used currentMana r1 of
                Inl err \<Rightarrow> Inl err
              | Inr used1 \<Rightarrow>
                  (case guild_plus lname r1 of
                     Inl err \<Rightarrow> Inl err
                   | Inr r2 \<Rightarrow>
                       (case mana_used currentMana r2 of
                          Inl err \<Rightarrow> Inl err
                        | Inr used2 \<Rightarrow>
                            (let rk = run_effects pr (r2, skills st)
                             in Inr \<lparr>r_state = st\<lparr>resources := fst rk, skills := snd rk\<rparr>,
                                     r_total = r_total rn + used1,
                                     r_totalTicks = r_totalTicks rn + time_spent g r2 used2,
                                     r_isValid = isValid\<rparr>)))))"

definition repetition :: "globals \<Rightarrow> string \<Rightarrow> prediction \<Rightarrow> run \<Rightarrow> (error + prediction \<times> run) option" where
  "repetition g lname pr rn =
     (let currentMana = resources (r_state rn) ''mana''
      in case predict g pr (r_state rn) of
           None \<Rightarrow> None
         | Some (Inl err) \<Rightarrow> Some (Inl err)
         | Some (Inr (pr', st)) \<Rightarrow>
             (case account g lname pr' currentMana rn st of
                Inl err \<Rightarrow> Some (Inl err)
              | Inr rn' \<Rightarrow> Some (Inr (pr', rn'))))"

text \<open>\<open>for (let loop = 0; loop < listedAction.loops; loop++)\<close>, counted down.\<close>

fun repetitions :: "globals \<Rightarrow> string \<Rightarrow> nat \<Rightarrow> prediction \<Rightarrow> run \<Rightarrow> (error + prediction \<times> run) option" where
  "repetitions g lname 0 pr rn = Some (Inr (pr, rn))"
| "repetitions g lname (Suc n) pr rn =
     (if \<not> can_start pr (resources (r_state rn)) then Some (Inr (pr, rn))
      else case repetition g lname pr rn of
             None \<Rightarrow> None
           | Some (Inl err) \<Rightarrow> Some (Inl err)
           | Some (Inr (pr', rn')) \<Rightarrow> repetitions g lname n pr' rn')"

record update_vars =
  u_predictions :: "string \<rightharpoonup> prediction"
  u_state :: state
  u_snap_stats :: snapshot
  u_snap_skills :: snapshot
  u_total :: real
  u_totalTicks :: real
  u_reports :: "report list"

text \<open>Make sure that the loop is represented in \<open>state.progress\<close>.\<close>

definition seed_progress :: "globals \<Rightarrow> prediction \<Rightarrow> state \<Rightarrow> state" where
  "seed_progress g pr st =
     (if loop pr \<noteq> None \<and> progressions st (name pr) = None
      then st\<lparr>progressions := (progressions st)(name pr \<mapsto>
                \<lparr>progress = 0, completed = 0,
                 total = towns_total g (townNum (action pr)) (varName (action pr))\<rparr>)\<rparr>
      else st)"

text \<open>The callback of \<open>actions.forEach\<close>.\<close>

definition entry :: "globals \<Rightarrow> update_vars \<Rightarrow> listed_action \<Rightarrow> (error + update_vars) option" where
  "entry g u listedAction =
     (case u_predictions u (la_name listedAction) of
        None \<Rightarrow> Some (Inr u)
      | Some pr \<Rightarrow>
          (let rn = \<lparr>r_state = seed_progress g pr (u_state u), r_total = u_total u,
                     r_totalTicks = u_totalTicks u, r_isValid = True\<rparr>
           in case repetitions g (la_name listedAction) (la_loops listedAction) pr rn of
                None \<Rightarrow> None
              | Some (Inl err) \<Rightarrow> Some (Inl err)
              | Some (Inr (pr', rn')) \<Rightarrow>
                  (let st = r_state rn';
                       s1 = snap (u_snap_stats u) (stats st);
                       s2 = snap (u_snap_skills u) (skills st)
                   in Some (Inr \<lparr>u_predictions = (u_predictions u)(la_name listedAction \<mapsto> pr'),
                                  u_state = st,
                                  u_snap_stats = s1,
                                  u_snap_skills = s2,
                                  u_total = r_total rn',
                                  u_totalTicks = r_totalTicks rn',
                                  u_reports = u_reports u @
                                    [\<lparr>rp_name = la_name listedAction,
                                      rp_resources = resources st,
                                      rp_stats = attributes s1,
                                      rp_skills = attributes s2,
                                      rp_isValid = r_isValid rn'\<rparr>]\<rparr>))))"

fun entries :: "globals \<Rightarrow> listed_action list \<Rightarrow> update_vars \<Rightarrow> (error + update_vars) option" where
  "entries g [] u = Some (Inr u)"
| "entries g (x # xs) u =
     (case entry g u x of
        None \<Rightarrow> None
      | Some (Inl err) \<Rightarrow> Some (Inl err)
      | Some (Inr u') \<Rightarrow> entries g xs u')"

text \<open>ASCII letters only, which is what the skill names of the game consist of.\<close>

definition toLowerCase :: "string \<Rightarrow> string" where
  "toLowerCase =
     map (\<lambda>c. case map_of (zip ''ABCDEFGHIJKLMNOPQRSTUVWXYZ'' ''abcdefghijklmnopqrstuvwxyz'') c of
                 None \<Rightarrow> c
               | Some l \<Rightarrow> l)"

definition initial_state :: "globals \<Rightarrow> state" where
  "initial_state g =
     \<lparr>resources = [''mana'' \<mapsto> 250, ''town'' \<mapsto> 0],
      stats = foldl (\<lambda>s n. s(n \<mapsto> 0)) Map.empty (statList g),
      skills = foldl (\<lambda>k x. k(toLowerCase (fst x) \<mapsto> snd x)) Map.empty (host_skills g),
      progressions = Map.empty\<rparr>"

definition all_affected :: "(string \<rightharpoonup> prediction) \<Rightarrow> listed_action list \<Rightarrow> string list" where
  "all_affected ps actions =
     remdups (concat (map (\<lambda>x. case ps (la_name x) of None \<Rightarrow> [] | Some pr \<Rightarrow> affected pr) actions))"

text \<open>\<open>state.resources[x] || (state.resources[x] = 0)\<close>.\<close>

definition init_resource :: "resources \<Rightarrow> string \<Rightarrow> resources" where
  "init_resource r x = (case r x of None \<Rightarrow> r(x \<mapsto> 0) | Some v \<Rightarrow> if v \<noteq> 0 then r else r(x \<mapsto> 0))"

definition update :: "globals \<Rightarrow> (string \<rightharpoonup> prediction) \<Rightarrow> listed_action list \<Rightarrow> (error + update_vars) option" where
  "update g ps actions =
     (let st = initial_state g;
          u = \<lparr>u_predictions = ps,
               u_state = st\<lparr>resources := foldl init_resource (resources st) (all_affected ps actions)\<rparr>,
               u_snap_stats = Snapshot (Some (stats st)),
               u_snap_skills = Snapshot (Some (skills st)),
               u_total = 0,
               u_totalTicks = 0,
               u_reports = []\<rparr>
      in case entries g actions u of
           None \<Rightarrow> None
         | Some (Inl err) \<Rightarrow> Some (Inl err)
         | Some (Inr u') \<Rightarrow> Some (Inr (u'\<lparr>u_totalTicks := u_totalTicks u' / 50\<rparr>)))"

section \<open>Example rules\<close>

text \<open>
  A small host and catalogue on which the theorems below are instantiated. The level
  curve rises by one level every 1000 experience points, and no stat has a bonus.
\<close>

definition bump :: "string \<Rightarrow> real \<Rightarrow> resources \<Rightarrow> resources" where
  "bump x d r = r(x := map_option (\<lambda>v. v + d) (r x))"

definition example_level :: "real \<Rightarrow> real" where
  "example_level e = real_of_int \<lfloor>e / 1000\<rfloor>"

definition plain_action :: "real \<Rightarrow> real \<Rightarrow> action" where
  "plain_action w c =
     \<lparr>expMult = 1, townNum = 0, varName = [], segments = 0,
      astats = [''strength'' \<mapsto> w], loopStats = [], manaCost = c\<rparr>"

definition loop_action :: "int \<Rightarrow> real \<Rightarrow> real \<Rightarrow> action" where
  "loop_action n w c =
     \<lparr>expMult = 1, townNum = 0, varName = [], segments = n,
      astats = [''strength'' \<mapsto> w], loopStats = replicate (nat n) ''strength'', manaCost = c\<rparr>"

definition example_actions :: "string \<Rightarrow> action" where
  "example_actions nm =
     (if nm = ''Wander'' then plain_action 124 2
      else if nm = ''Two Segments'' then loop_action 2 1 4
      else if nm = ''Backslide'' then loop_action 2 1 4
      else if nm = ''Imbue Mind'' then loop_action 3 1 4
      else if nm = ''Adventure Guild'' then loop_action 3 4 1
      else plain_action 10 1)"

text \<open>
  Two rules without a loop, with the start conditions and effects they have in the
  catalogue of the script.
\<close>

definition haggle :: params where
  "haggle =
     \<lparr>pa_affected = Some [''rep''],
      pa_effect = Some (\<lambda>r k.
        ((bump ''rep'' (- 1) r)
           (''supplyDiscount'' \<mapsto> (case r ''supplyDiscount'' of
                                     None \<Rightarrow> 1
                                   | Some d \<Rightarrow> if d \<ge> 15 then 15 else d + 1)), k)),
      pa_loop = None,
      pa_canStart = Some (\<lambda>input. case input ''rep'' of None \<Rightarrow> False | Some v \<Rightarrow> v > 0)\<rparr>"

definition get_drunk :: params where
  "get_drunk =
     \<lparr>pa_affected = Some [''rep''],
      pa_effect = Some (\<lambda>r k. (bump ''rep'' (- 1) r, k)),
      pa_loop = None,
      pa_canStart = Some (\<lambda>input. case input ''rep'' of None \<Rightarrow> False | Some v \<Rightarrow> v \<ge> - 3)\<rparr>"

text \<open>
  The loop of the second scenario of the specification: two segments of cost 100 and a
  tick progress of 50. Its effects count the completed loops (3 \<open>rep\<close> each) and
  segments (20 \<open>gold\<close> each).
\<close>

definition two_loop :: loop where
  "two_loop =
     \<lparr>l_max = None,
      l_cost = (\<lambda>p a segment. 100),
      l_tick = (\<lambda>p a s k r offset. 50),
      e_segment = Some (\<lambda>r k. (bump ''gold'' 20 r, k)),
      e_loop = Some (\<lambda>r k. (bump ''rep'' 3 r, k)),
      e_end = None\<rparr>"

definition two_segments :: params where
  "two_segments =
     \<lparr>pa_affected = Some [''gold'', ''rep''], pa_effect = None,
      pa_loop = Some two_loop, pa_canStart = None\<rparr>"

text \<open>The same loop with a tick progress of \<open>-50\<close>.\<close>

definition backslide_loop :: loop where
  "backslide_loop =
     \<lparr>l_max = None,
      l_cost = (\<lambda>p a segment. 100),
      l_tick = (\<lambda>p a s k r offset. - 50),
      e_segment = None,
      e_loop = None,
      e_end = None\<rparr>"

definition backslide :: params where
  "backslide =
     \<lparr>pa_affected = None, pa_effect = None, pa_loop = Some backslide_loop, pa_canStart = None\<rparr>"

text \<open>
  A loop that can be completed once and progresses by the level of the magic skill, which
  is 0 for the example host.
\<close>

definition imbue_loop :: loop where
  "imbue_loop =
     \<lparr>l_max = Some (\<lambda>a. 1),
      l_cost = (\<lambda>p a segment. 100000000 * (real_of_int segment * 5 + 1)),
      l_tick = (\<lambda>p a s k r offset.
                 if completed p < segments a
                 then example_level (case k ''magic'' of None \<Rightarrow> 0 | Some x \<Rightarrow> x)
                 else 0),
      e_segment = None,
      e_loop = Some (\<lambda>r k. (bump ''mind'' 1 r, k)),
      e_end = None\<rparr>"

definition imbue_mind :: params where
  "imbue_mind =
     \<lparr>pa_affected = Some [''mind''], pa_effect = None, pa_loop = Some imbue_loop, pa_canStart = None\<rparr>"

text \<open>
  The guild, with the segment effect it has in the catalogue (200 mana and one adventure
  for each segment) and constant cost and progress.
\<close>

definition guild_loop :: loop where
  "guild_loop =
     \<lparr>l_max = None,
      l_cost = (\<lambda>p a segment. 25),
      l_tick = (\<lambda>p a s k r offset. 25),
      e_segment = Some (\<lambda>r k. (bump ''adventures'' 1 (bump ''mana'' 200 r), k)),
      e_loop = None,
      e_end = None\<rparr>"

definition adventure_guild :: params where
  "adventure_guild =
     \<lparr>pa_affected = Some [''gold'', ''adventures''], pa_effect = None,
      pa_loop = Some guild_loop, pa_canStart = None\<rparr>"

definition no_params :: params where
  "no_params = \<lparr>pa_affected = None, pa_effect = None, pa_loop = None, pa_canStart = None\<rparr>"

definition catalogue :: "string \<rightharpoonup> params" where
  "catalogue =
     [''Wander'' \<mapsto> no_params,
      ''Train Strength'' \<mapsto> no_params,
      ''Haggle'' \<mapsto> haggle,
      ''Get Drunk'' \<mapsto> get_drunk,
      ''Two Segments'' \<mapsto> two_segments,
      ''Backslide'' \<mapsto> backslide,
      ''Imbue Mind'' \<mapsto> imbue_mind,
      ''Adventure Guild'' \<mapsto> adventure_guild]"

definition g0 :: globals where
  "g0 = \<lparr>statList = [''dexterity'', ''strength''],
          translateClassNames = example_actions,
          getLevelFromExp = example_level,
          getTotalBonusXP = (\<lambda>_. 1),
          host_skills = [(''Magic'', 0)],
          towns_total = (\<lambda>_ _. 0),
          getSkillLevel = (\<lambda>_. 0),
          getBuffLevel = (\<lambda>_. 0)\<rparr>"

definition ps0 :: "string \<rightharpoonup> prediction" where
  "ps0 = initPredictions g0 catalogue"

text \<open>The state with which \<open>update\<close> starts when the list affects the resources \<open>xs\<close>.\<close>

definition start_state :: "string list \<Rightarrow> state" where
  "start_state xs =
     (initial_state g0)\<lparr>resources := foldl init_resource (resources (initial_state g0)) xs\<rparr>"

text \<open>A progression that has not advanced yet.\<close>

definition fresh :: progression where
  "fresh = \<lparr>progress = 0, completed = 0, total = 0\<rparr>"

section \<open>Predicates of the properties\<close>

text \<open>
  Every stored progression has completed a multiple of \<open>f k\<close> segments, where \<open>f k\<close> is
  the number of segments in a loop of the action named \<open>k\<close>.
\<close>

definition completed_ok :: "(string \<Rightarrow> int) \<Rightarrow> state \<Rightarrow> bool" where
  "completed_ok f st = (\<forall>k p. progressions st k = Some p \<longrightarrow> f k dvd completed p)"

text \<open>
  A table of predictions as \<open>initPredictions\<close> builds it: each prediction is stored under
  its own name and holds the action of that name.
\<close>

definition table_ok :: "globals \<Rightarrow> (string \<rightharpoonup> prediction) \<Rightarrow> bool" where
  "table_ok g ps = (\<forall>k pr. ps k = Some pr \<longrightarrow> name pr = k \<and> action pr = translateClassNames g k)"

text \<open>An effect that leaves the mana as it is.\<close>

definition keeps_mana :: "effect option \<Rightarrow> bool" where
  "keeps_mana e = (\<forall>r k. fst (apply_effect e (r, k)) ''mana'' = r ''mana'')"

text \<open>The outcome of a run of repetitions, with the validity flag cleared.\<close>

definition erase_flag :: "(error + prediction \<times> run) option \<Rightarrow> (error + prediction \<times> run) option" where
  "erase_flag x = map_option (map_sum id (\<lambda>y. (fst y, (snd y)\<lparr>r_isValid := False\<rparr>))) x"

section \<open>The tick count\<close>

text \<open>The contribution of one stat name to the cost, as the specification words it.\<close>

definition stat_term :: "globals \<Rightarrow> action \<Rightarrow> stats \<Rightarrow> string \<Rightarrow> real" where
  "stat_term g a s i =
     (case astats a i of
        None \<Rightarrow> 0
      | Some w \<Rightarrow> (case s i of None \<Rightarrow> 0 | Some e \<Rightarrow> w / (1 + getLevelFromExp g e / 100)))"

lemma foldl_cost_step: "foldl (cost_step g a s) c xs = c + sum_list (map (stat_term g a s) xs)"
  by (induction xs arbitrary: c) (simp_all add: cost_step_def stat_term_def)

lemma stat_term_outside: "i \<notin> dom (astats a) \<inter> dom s \<Longrightarrow> stat_term g a s i = 0"
  by (auto simp: stat_term_def split: option.splits)

lemma stat_term_inside:
  "i \<in> dom (astats a) \<inter> dom s \<Longrightarrow>
   stat_term g a s i = the (astats a i) / (1 + getLevelFromExp g (the (s i)) / 100)"
  by (auto simp: stat_term_def split: option.splits)

lemma cost_as_sum:
  assumes "distinct (statList g)" and "dom (astats a) \<inter> dom s \<subseteq> set (statList g)"
  shows "foldl (cost_step g a s) 0 (statList g) =
         (\<Sum>i \<in> dom (astats a) \<inter> dom s. the (astats a i) / (1 + getLevelFromExp g (the (s i)) / 100))"
proof -
  have "foldl (cost_step g a s) 0 (statList g) = sum (stat_term g a s) (set (statList g))"
    using assms(1) by (simp add: foldl_cost_step sum_list_distinct_conv_sum_set)
  also have "\<dots> = sum (stat_term g a s) (dom (astats a) \<inter> dom s)"
    using assms(2) by (intro sum.mono_neutral_right) (auto simp: stat_term_outside)
  also have "\<dots> = (\<Sum>i \<in> dom (astats a) \<inter> dom s. the (astats a i) / (1 + getLevelFromExp g (the (s i)) / 100))"
    by (intro sum.cong) (auto simp: stat_term_inside)
  finally show ?thesis .
qed

text \<open>
  C1. \<open>updateTicks\<close> walks the list of stat names of the host. When that list has no
  duplicates and holds every stat name shared by the action and the experience map (the
  experience map of a run is built from that list), the result is
  \<open>ceil(manaCost() * cost - 1e-6)\<close> with \<open>cost\<close> the sum, over the stat names present in
  both \<open>a.stats\<close> and \<open>s\<close>, of \<open>a.stats[stat] / (1 + level(s[stat]) / 100)\<close>. For the
  weights \<open>{strength: 10}\<close>, a mana cost of 1 and strength experience 0 at level 0 the
  result is 10.
\<close>

theorem updateTicks_formula:
  assumes "distinct (statList g)" and "dom (astats a) \<inter> dom s \<subseteq> set (statList g)"
  shows "updateTicks g a s =
           \<lceil>manaCost a * (\<Sum>i \<in> dom (astats a) \<inter> dom s.
                the (astats a i) / (1 + getLevelFromExp g (the (s i)) / 100)) - 1 / 1000000\<rceil>
         \<and> (astats a = [''strength'' \<mapsto> 10] \<and> manaCost a = 1 \<and> s ''strength'' = Some 0
              \<and> getLevelFromExp g 0 = 0 \<longrightarrow> updateTicks g a s = 10)"
proof (intro conjI impI)
  show f: "updateTicks g a s =
           \<lceil>manaCost a * (\<Sum>i \<in> dom (astats a) \<inter> dom s.
                the (astats a i) / (1 + getLevelFromExp g (the (s i)) / 100)) - 1 / 1000000\<rceil>"
    by (simp add: updateTicks_def cost_as_sum[OF assms])
  assume h: "astats a = [''strength'' \<mapsto> 10] \<and> manaCost a = 1 \<and> s ''strength'' = Some 0
              \<and> getLevelFromExp g 0 = 0"
  then have "dom (astats a) \<inter> dom s = {''strength''}" by auto
  with h f have "updateTicks g a s = \<lceil>(10::real) - 1 / 1000000\<rceil>" by simp
  also have "\<dots> = 10" by (simp add: ceiling_eq_iff)
  finally show "updateTicks g a s = 10" .
qed

theorem updateTicks_formula_witness:
  "distinct (statList g0)
   \<and> dom (astats (plain_action 10 1)) \<inter> dom (stats (initial_state g0)) \<subseteq> set (statList g0)
   \<and> astats (plain_action 10 1) = [''strength'' \<mapsto> 10] \<and> manaCost (plain_action 10 1) = 1
   \<and> stats (initial_state g0) ''strength'' = Some 0 \<and> getLevelFromExp g0 0 = 0
   \<and> updateTicks g0 (plain_action 10 1) (stats (initial_state g0)) = 10"
proof -
  have d: "distinct (statList g0)"
    by (simp add: g0_def)
  have s: "dom (astats (plain_action 10 1)) \<inter> dom (stats (initial_state g0)) \<subseteq> set (statList g0)"
    by (simp add: g0_def plain_action_def initial_state_def)
  have h: "astats (plain_action 10 1) = [''strength'' \<mapsto> 10] \<and> manaCost (plain_action 10 1) = 1
           \<and> stats (initial_state g0) ''strength'' = Some 0 \<and> getLevelFromExp g0 0 = 0"
    by (simp add: g0_def plain_action_def initial_state_def example_level_def)
  from updateTicks_formula[OF d s] h d s show ?thesis
    by blast
qed

section \<open>Snapshots\<close>

lemma snap_tracked:
  assumes "\<not> isInitialized this \<or> (\<exists>c w. attributes this i = Some c \<and> c_value c = Some w)"
    and "a i = Some v"
  shows "isInitialized (snap this a)
         \<and> (\<exists>c. attributes (snap this a) i = Some c \<and> c_value c = Some v)"
  using assms by (auto simp: snap_def init_def compare_def Let_def split: option.splits)

lemma snaps_tracked:
  assumes "\<not> isInitialized this \<or> (\<exists>c w. attributes this i = Some c \<and> c_value c = Some w)"
    and "\<forall>x\<in>set xs. x i \<noteq> None"
  shows "\<not> isInitialized (foldl snap this xs)
         \<or> (\<exists>c w. attributes (foldl snap this xs) i = Some c \<and> c_value c = Some w)"
  using assms
proof (induction xs arbitrary: this)
  case Nil
  then show ?case by simp
next
  case (Cons x xs)
  from Cons.prems(2) obtain v where v: "x i = Some v" by auto
  from snap_tracked[of this i x v, OF Cons.prems(1) v]
  have "\<not> isInitialized (snap this x) \<or> (\<exists>c w. attributes (snap this x) i = Some c \<and> c_value c = Some w)"
    by blast
  from Cons.IH[OF this] Cons.prems(2) show ?case by simp
qed

lemma snap_initialized: "isInitialized (snap this attrs)"
  by (simp add: snap_def init_def Let_def)

lemma snap_difference:
  assumes "isInitialized this" and "attributes this i = Some c" and "c_value c = Some w" and "attrs i = Some v"
  shows "attributes (snap this attrs) i = Some \<lparr>c_value = Some v, c_delta = Delta (v - w)\<rparr>"
  using assms by (simp add: snap_def compare_def Let_def)

lemma snaps_difference:
  assumes "\<not> isInitialized this \<or> (\<exists>c w. attributes this i = Some c \<and> c_value c = Some w)"
    and "\<forall>x\<in>set xs. x i \<noteq> None" and "a1 i = Some v1" and "a2 i = Some v2"
  shows "attributes (foldl snap this (xs @ [a1, a2])) i = Some \<lparr>c_value = Some v2, c_delta = Delta (v2 - v1)\<rparr>"
proof -
  let ?s = "foldl snap this xs"
  from snap_tracked[of ?s i a1 v1, OF snaps_tracked[OF assms(1,2)] assms(3)]
  obtain c where c: "isInitialized (snap ?s a1)" "attributes (snap ?s a1) i = Some c" "c_value c = Some v1"
    by blast
  from snap_difference[of "snap ?s a1" i c v1 a2 v2, OF c assms(4)] show ?thesis by simp
qed

text \<open>
  C9, as amended. \<open>init\<close> (also when the constructor calls it) stores each provided value
  with a \<open>null\<close> difference and marks the snapshot initialised. A \<open>snap\<close> of an
  initialised snapshot stores, for each tracked key that is provided, the provided value
  and its difference to the value stored before, and keeps the set of tracked keys. A
  snapshot constructed without attributes is initialised by its first \<open>snap\<close>, which
  stores the provided values and compares them with themselves in the same call: its
  difference is 0 after the first observation, and never \<open>null\<close>. After any \<open>snap\<close> the
  snapshot is initialised, no tracked key has a \<open>null\<close> difference, and the stored value
  is the provided one; so after any further sequence of observations that provide the
  key, the last one leaves the last value and its difference to the value before it.
\<close>

theorem snapshot_delta:
  "(attrs i = Some v \<longrightarrow>
      attributes (Snapshot (Some attrs)) i = Some \<lparr>c_value = Some v, c_delta = Null\<rparr>
      \<and> attributes (init this attrs) i = Some \<lparr>c_value = Some v, c_delta = Null\<rparr>)
   \<and> isInitialized (Snapshot (Some attrs)) \<and> isInitialized (init this attrs)
   \<and> isInitialized (snap this attrs)
   \<and> \<not> isInitialized (Snapshot None) \<and> attributes (Snapshot None) = Map.empty
   \<and> (isInitialized this \<and> attributes this i = Some c \<and> c_value c = Some w \<and> attrs i = Some v \<longrightarrow>
      attributes (snap this attrs) i = Some \<lparr>c_value = Some v, c_delta = Delta (v - w)\<rparr>)
   \<and> (isInitialized this \<longrightarrow> dom (attributes (snap this attrs)) = dom (attributes this))
   \<and> (\<not> isInitialized this \<and> attrs i = Some v \<longrightarrow>
      attributes (snap this attrs) i = Some \<lparr>c_value = Some v, c_delta = Delta 0\<rparr>)
   \<and> (attributes (snap this attrs) i = Some c' \<longrightarrow> c_delta c' \<noteq> Null \<and> c_value c' = attrs i)
   \<and> ((\<not> isInitialized this \<or> (\<exists>c w. attributes this i = Some c \<and> c_value c = Some w))
        \<and> (\<forall>x\<in>set xs. x i \<noteq> None) \<and> a1 i = Some v1 \<and> a2 i = Some v2 \<longrightarrow>
      attributes (foldl snap this (xs @ [a1, a2])) i = Some \<lparr>c_value = Some v2, c_delta = Delta (v2 - v1)\<rparr>)"
proof (intro conjI impI)
  assume "(\<not> isInitialized this \<or> (\<exists>c w. attributes this i = Some c \<and> c_value c = Some w))
        \<and> (\<forall>x\<in>set xs. x i \<noteq> None) \<and> a1 i = Some v1 \<and> a2 i = Some v2"
  then show "attributes (foldl snap this (xs @ [a1, a2])) i = Some \<lparr>c_value = Some v2, c_delta = Delta (v2 - v1)\<rparr>"
    using snaps_difference[of this i xs a1 v1 a2 v2] by blast
qed (auto simp: Snapshot_def init_def snap_def compare_def Let_def split: option.splits)

text \<open>
  A snapshot created with strength 5 and then shown 8, 6 and 10; and a snapshot created
  without attributes and then shown 7 and 4.
\<close>

theorem snapshot_delta_witness:
  "attributes (Snapshot (Some [''strength'' \<mapsto> 5])) ''strength''
     = Some \<lparr>c_value = Some 5, c_delta = Null\<rparr>
   \<and> isInitialized (Snapshot (Some [''strength'' \<mapsto> 5]))
   \<and> attributes (snap (Snapshot (Some [''strength'' \<mapsto> 5])) [''strength'' \<mapsto> 8]) ''strength''
     = Some \<lparr>c_value = Some 8, c_delta = Delta 3\<rparr>
   \<and> attributes (foldl snap (Snapshot (Some [''strength'' \<mapsto> 5]))
        [[''strength'' \<mapsto> 8], [''strength'' \<mapsto> 6], [''strength'' \<mapsto> 10]]) ''strength''
     = Some \<lparr>c_value = Some 10, c_delta = Delta 4\<rparr>
   \<and> \<not> isInitialized (Snapshot None)
   \<and> attributes (snap (Snapshot None) [''strength'' \<mapsto> 7]) ''strength''
     = Some \<lparr>c_value = Some 7, c_delta = Delta 0\<rparr>
   \<and> attributes (foldl snap (Snapshot None) [[''strength'' \<mapsto> 7], [''strength'' \<mapsto> 4]]) ''strength''
     = Some \<lparr>c_value = Some 4, c_delta = Delta (- 3)\<rparr>"
proof -
  let ?s = "Snapshot (Some [''strength'' \<mapsto> 5])"
  have v: "[''strength'' \<mapsto> 5::real] ''strength'' = Some 5" "[''strength'' \<mapsto> 8::real] ''strength'' = Some 8"
    "[''strength'' \<mapsto> 6::real] ''strength'' = Some 6" "[''strength'' \<mapsto> 10::real] ''strength'' = Some 10"
    "[''strength'' \<mapsto> 7::real] ''strength'' = Some 7" "[''strength'' \<mapsto> 4::real] ''strength'' = Some 4"
    by simp_all
  from snapshot_delta[where attrs = "[''strength'' \<mapsto> 5]" and i = "''strength''" and v = 5, THEN conjunct1] v(1)
  have first: "attributes ?s ''strength'' = Some \<lparr>c_value = Some 5, c_delta = Null\<rparr>"
    by simp
  from snapshot_delta[where attrs = "[''strength'' \<mapsto> 5]", THEN conjunct2, THEN conjunct1]
  have i: "isInitialized ?s" .
  from snapshot_delta[THEN conjunct2, THEN conjunct2, THEN conjunct2, THEN conjunct2, THEN conjunct1]
  have n: "\<not> isInitialized (Snapshot None)" .
  from snapshot_delta[where attrs = "[''strength'' \<mapsto> 8]" and i = "''strength''" and v = 8 and this = ?s
      and c = "\<lparr>c_value = Some 5, c_delta = Null\<rparr>" and w = 5,
      THEN conjunct2, THEN conjunct2, THEN conjunct2, THEN conjunct2, THEN conjunct2, THEN conjunct2,
      THEN conjunct1] first i v(2)
  have second: "attributes (snap ?s [''strength'' \<mapsto> 8]) ''strength''
                  = Some \<lparr>c_value = Some 8, c_delta = Delta 3\<rparr>"
    by simp
  have tracked: "\<exists>c w. attributes ?s ''strength'' = Some c \<and> c_value c = Some w"
    using first by simp
  have all: "\<forall>x\<in>set [[''strength'' \<mapsto> 8::real]]. x ''strength'' \<noteq> None"
    by simp
  from snapshot_delta[where this = ?s and i = "''strength''" and xs = "[[''strength'' \<mapsto> 8]]"
      and ?a1.0 = "[''strength'' \<mapsto> 6]" and ?v1.0 = 6 and ?a2.0 = "[''strength'' \<mapsto> 10]" and ?v2.0 = 10,
      THEN conjunct2, THEN conjunct2, THEN conjunct2, THEN conjunct2, THEN conjunct2, THEN conjunct2,
      THEN conjunct2, THEN conjunct2, THEN conjunct2, THEN conjunct2, rule_format]
    tracked all v(3,4)
  have later: "attributes (foldl snap ?s ([[''strength'' \<mapsto> 8]] @ [[''strength'' \<mapsto> 6], [''strength'' \<mapsto> 10]])) ''strength''
                 = Some \<lparr>c_value = Some 10, c_delta = Delta (10 - 6)\<rparr>"
    by blast
  from snapshot_delta[where attrs = "[''strength'' \<mapsto> 7]" and i = "''strength''" and v = 7
      and this = "Snapshot None",
      THEN conjunct2, THEN conjunct2, THEN conjunct2, THEN conjunct2, THEN conjunct2, THEN conjunct2,
      THEN conjunct2, THEN conjunct2, THEN conjunct1] n v(5)
  have lazy: "attributes (snap (Snapshot None) [''strength'' \<mapsto> 7]) ''strength''
                = Some \<lparr>c_value = Some 7, c_delta = Delta 0\<rparr>"
    by blast
  have none: "\<forall>x\<in>set ([] :: (string \<rightharpoonup> real) list). x ''strength'' \<noteq> None"
    by simp
  from snapshot_delta[where this = "Snapshot None" and i = "''strength''" and xs = "[]"
      and ?a1.0 = "[''strength'' \<mapsto> 7]" and ?v1.0 = 7 and ?a2.0 = "[''strength'' \<mapsto> 4]" and ?v2.0 = 4,
      THEN conjunct2, THEN conjunct2, THEN conjunct2, THEN conjunct2, THEN conjunct2, THEN conjunct2,
      THEN conjunct2, THEN conjunct2, THEN conjunct2, THEN conjunct2, rule_format]
    n none v(5,6)
  have lazy2: "attributes (foldl snap (Snapshot None) ([] @ [[''strength'' \<mapsto> 7], [''strength'' \<mapsto> 4]])) ''strength''
                 = Some \<lparr>c_value = Some 4, c_delta = Delta (4 - 7)\<rparr>"
    by blast
  have app: "[[''strength'' \<mapsto> 8::real]] @ [[''strength'' \<mapsto> 6], [''strength'' \<mapsto> 10]]
               = [[''strength'' \<mapsto> 8], [''strength'' \<mapsto> 6], [''strength'' \<mapsto> 10]]"
    "[] @ [[''strength'' \<mapsto> 7::real], [''strength'' \<mapsto> 4]] = [[''strength'' \<mapsto> 7], [''strength'' \<mapsto> 4]]"
    "(10::real) - 6 = 4" "(4::real) - 7 = - 3"
    by simp_all
  from first i second later[unfolded app] n lazy lazy2[unfolded app] show ?thesis
    by (intro conjI)
qed

text \<open>
  C9 as stated fails for a snapshot constructed without attributes: before its first
  observation it tracks no key, and after its first observation the difference is 0,
  not \<open>null\<close>.
\<close>

theorem first_snap_delta_is_zero:
  "attributes (Snapshot None) ''strength'' = None
   \<and> attributes (snap (Snapshot None) [''strength'' \<mapsto> 8]) ''strength''
       = Some \<lparr>c_value = Some 8, c_delta = Delta 0\<rparr>
   \<and> Delta 0 \<noteq> Null"
  by (simp add: Snapshot_def snap_def init_def compare_def)

section \<open>Invariants of the second loop of a tick, and the shape of successful runs\<close>

lemma after_tick_invariant:
  assumes "after_tick lp a m w = Some w'"
    and "I w"
    and "\<And>v. I v \<Longrightarrow> walk_cond lp a m v \<Longrightarrow> I (walk_next lp a (walk_body lp a v))"
  shows "I w' \<and> \<not> walk_cond lp a m w'"
proof -
  define step where "step = (\<lambda>lp a (m :: int option). \<forall>v. I v \<and> walk_cond lp a m v \<longrightarrow> I (walk_next lp a (walk_body lp a v)))"
  have "I w \<longrightarrow> step lp a m \<longrightarrow> I w' \<and> \<not> walk_cond lp a m w'"
  proof (rule after_tick.raw_induct[where P = "\<lambda>lp a m w y. I w \<longrightarrow> step lp a m \<longrightarrow> I y \<and> \<not> walk_cond lp a m y",
          OF _ assms(1)])
    fix f :: "loop \<Rightarrow> action \<Rightarrow> int option \<Rightarrow> walk \<Rightarrow> walk option" and lp a maxSegments w y
    assume ih: "\<And>lp a maxSegments w y. f lp a maxSegments w = Some y \<Longrightarrow>
                  I w \<longrightarrow> step lp a maxSegments \<longrightarrow> I y \<and> \<not> walk_cond lp a maxSegments y"
      and unfold: "(if walk_cond lp a maxSegments w
                    then f lp a maxSegments (walk_next lp a (walk_body lp a w)) else Some w) = Some y"
    show "I w \<longrightarrow> step lp a maxSegments \<longrightarrow> I y \<and> \<not> walk_cond lp a maxSegments y"
    proof (intro impI)
      assume i: "I w" and s: "step lp a maxSegments"
      show "I y \<and> \<not> walk_cond lp a maxSegments y"
      proof (cases "walk_cond lp a maxSegments w")
        case True
        with unfold have "f lp a maxSegments (walk_next lp a (walk_body lp a w)) = Some y"
          by simp
        from ih[OF this] have "I (walk_next lp a (walk_body lp a w)) \<longrightarrow> step lp a maxSegments
            \<longrightarrow> I y \<and> \<not> walk_cond lp a maxSegments y" .
        moreover from s i True have "I (walk_next lp a (walk_body lp a w))"
          unfolding step_def by simp
        ultimately show ?thesis using s by simp
      next
        case False
        with unfold have "y = w" by simp
        with i False show ?thesis by simp
      qed
    qed
  qed
  moreover have "step lp a m"
    unfolding step_def using assms(3) by simp
  ultimately show ?thesis
    using assms(2) by simp
qed

lemma walk_step_completed:
  "completed (w_progression (walk_next lp a (walk_body lp a w))) = completed (w_progression w)
   \<or> completed (w_progression (walk_next lp a (walk_body lp a w))) = completed (w_progression w) + segments a"
  by (simp add: walk_next_def walk_body_def complete_loop_def Let_def)

lemma after_tick_completed:
  assumes "after_tick lp a m w = Some w'"
  shows "\<exists>n::nat. completed (w_progression w') = completed (w_progression w) + int n * segments a"
proof -
  let ?I = "\<lambda>v. \<exists>n::nat. completed (w_progression v) = completed (w_progression w) + int n * segments a"
  have "?I w" by (rule exI[of _ 0]) simp
  moreover have "?I (walk_next lp a (walk_body lp a v))" if "?I v" for v
  proof -
    from that obtain n :: nat where n: "completed (w_progression v) = completed (w_progression w) + int n * segments a"
      by blast
    from walk_step_completed[of lp a v] show ?thesis
    proof
      assume "completed (w_progression (walk_next lp a (walk_body lp a v))) = completed (w_progression v)"
      with n show ?thesis by auto
    next
      assume "completed (w_progression (walk_next lp a (walk_body lp a v))) = completed (w_progression v) + segments a"
      with n have "completed (w_progression (walk_next lp a (walk_body lp a v)))
                     = completed (w_progression w) + int (Suc n) * segments a"
        by (simp add: algebra_simps)
      then show ?thesis by blast
    qed
  qed
  ultimately show ?thesis
    using after_tick_invariant[OF assms, of ?I] by blast
qed

lemma tick_runE:
  assumes "tick_run pr lp st = Some (Inr (d, w))"
  obtains p x0 s0 t where "progressions st (name pr) = Some p"
    and "before_tick (l_cost lp p (action pr)) (progress p) 0 = Some (x0, s0)"
    and "ticks pr = Inr t"
    and "d = l_tick lp p (action pr) (stats st) (skills st) (resources st) s0
               * (manaCost (action pr) / real_of_int t)"
    and "after_tick lp (action pr) (max_segments lp (action pr))
           \<lparr>w_progress = x0 + d, w_segment = s0, w_progression = p\<lparr>progress := progress p + d\<rparr>,
            w_resources = resources st, w_skills = skills st\<rparr> = Some w"
proof (cases "progressions st (name pr)")
  case None
  with assms show ?thesis by (simp add: tick_run_def)
next
  case p: (Some p)
  show ?thesis
  proof (cases "before_tick (l_cost lp p (action pr)) (progress p) 0")
    case None
    with assms p show ?thesis by (simp add: tick_run_def)
  next
    case (Some b)
    obtain x0 s0 where b: "b = (x0, s0)" by (cases b)
    show ?thesis
    proof (cases "ticks pr")
      case (Inl e)
      with assms p Some b show ?thesis by (simp add: tick_run_def)
    next
      case (Inr t)
      with assms p Some b that[of p x0 s0 t] show ?thesis
        by (simp add: tick_run_def Let_def split: option.splits)
    qed
  qed
qed

lemma tick_run_completed:
  assumes "tick_run pr lp st = Some (Inr (d, w))" and "progressions st (name pr) = Some p"
  shows "\<exists>n::nat. completed (w_progression w) = completed p + int n * segments (action pr)"
proof -
  from assms(1) obtain q x0 s0 where q: "progressions st (name pr) = Some q"
    and a: "after_tick lp (action pr) (max_segments lp (action pr))
           \<lparr>w_progress = x0 + d, w_segment = s0, w_progression = q\<lparr>progress := progress q + d\<rparr>,
            w_resources = resources st, w_skills = skills st\<rparr> = Some w"
    by (rule tick_runE)
  from after_tick_completed[OF a] q assms(2) show ?thesis by simp
qed

lemma tick_loop_progressions:
  assumes "tick_loop pr lp st = Some (Inr (st', v))"
  shows "\<exists>p p' (n::nat). progressions st (name pr) = Some p
           \<and> progressions st' = (progressions st)(name pr \<mapsto> p')
           \<and> completed p' = completed p + int n * segments (action pr)"
proof -
  from assms obtain d w where r: "tick_run pr lp st = Some (Inr (d, w))"
    and st': "st' = st\<lparr>resources := w_resources w, skills := w_skills w,
                       progressions := (progressions st)(name pr \<mapsto> w_progression w)\<rparr>"
    by (auto simp: tick_loop_def split: option.splits sum.splits prod.splits)
  from r obtain p where p: "progressions st (name pr) = Some p"
    by (auto simp: tick_run_def split: option.splits)
  from tick_run_completed[OF r p] st' p show ?thesis by auto
qed

lemma tick_progressions:
  assumes "tick g pr st = Some (Inr (st', v))"
  shows "progressions st' = progressions st
         \<or> (\<exists>p p' (n::nat). progressions st (name pr) = Some p
               \<and> progressions st' = (progressions st)(name pr \<mapsto> p')
               \<and> completed p' = completed p + int n * segments (action pr))"
proof (cases "loop pr")
  case None
  with assms show ?thesis
    by (auto simp: tick_def split: sum.splits)
next
  case (Some lp)
  with assms obtain s where "tick_loop pr lp (st\<lparr>stats := s\<rparr>) = Some (Inr (st', v))"
    by (auto simp: tick_def split: sum.splits)
  from tick_loop_progressions[OF this] show ?thesis by simp
qed

lemma tick_completed_ok:
  assumes "tick g pr st = Some (Inr (st', v))" and "completed_ok f st" and "f (name pr) = segments (action pr)"
  shows "completed_ok f st'"
  using tick_progressions[OF assms(1)]
proof (elim disjE exE conjE)
  assume "progressions st' = progressions st"
  with assms(2) show ?thesis by (simp add: completed_ok_def)
next
  fix p p' and n :: nat
  assume p: "progressions st (name pr) = Some p"
    and st': "progressions st' = (progressions st)(name pr \<mapsto> p')"
    and c: "completed p' = completed p + int n * segments (action pr)"
  from assms(2) p have "f (name pr) dvd completed p"
    by (simp add: completed_ok_def)
  with c assms(3) have "f (name pr) dvd completed p'"
    by simp
  with assms(2) st' show ?thesis
    by (simp add: completed_ok_def)
qed


lemma predict_ticks_SucE:
  assumes "predict_ticks g pr (Suc n) st = Some (Inr st')"
  obtains m st1 v where "resources st ''mana'' = Some m"
    and "tick g pr (st\<lparr>resources := (resources st)(''mana'' \<mapsto> m - 1)\<rparr>) = Some (Inr (st1, v))"
    and "if truthy v then predict_ticks g pr n st1 = Some (Inr st') else st' = st1"
proof (cases "resources st ''mana''")
  case None
  with assms show ?thesis by simp
next
  case (Some m)
  show ?thesis
  proof (cases "tick g pr (st\<lparr>resources := (resources st)(''mana'' \<mapsto> m - 1)\<rparr>)")
    case None
    with assms Some show ?thesis by simp
  next
    case t: (Some x)
    show ?thesis
    proof (cases x)
      case (Inl e)
      with assms Some t show ?thesis by simp
    next
      case (Inr y)
      obtain st1 v where y: "y = (st1, v)" by (cases y)
      with assms Some t Inr that[of m st1 v] show ?thesis
        by (simp split: if_splits)
    qed
  qed
qed

lemma predictE:
  assumes "predict g pr st = Some (Inr (pr', st'))"
  obtains n where "pr' = pr\<lparr>p_ticks := updateTicks g (action pr) (stats st)\<rparr>"
    and "ticks pr' = Inr n"
    and "predict_ticks g pr' (nat n) st = Some (Inr st')"
  using assms
  by (auto simp: predict_def Let_def split: sum.splits option.splits)

lemma accountE:
  assumes "account g lname pr currentMana rn st = Inr rn'"
  obtains r1 used1 r2 used2 where "guild_minus lname (resources st) = Inr r1"
    and "mana_used currentMana r1 = Inr used1"
    and "guild_plus lname r1 = Inr r2"
    and "mana_used currentMana r2 = Inr used2"
    and "rn' = \<lparr>r_state = st\<lparr>resources := fst (run_effects pr (r2, skills st)),
                                 skills := snd (run_effects pr (r2, skills st))\<rparr>,
                 r_total = r_total rn + used1,
                 r_totalTicks = r_totalTicks rn + time_spent g r2 used2,
                 r_isValid = (r_isValid rn \<and> mana_ok (resources st))\<rparr>"
  using assms
  by (auto simp: account_def Let_def split: sum.splits)

lemma repetitionE:
  assumes "repetition g lname pr rn = Some (Inr (pr', rn'))"
  obtains st where "predict g pr (r_state rn) = Some (Inr (pr', st))"
    and "account g lname pr' (resources (r_state rn) ''mana'') rn st = Inr rn'"
  using assms
  by (auto simp: repetition_def Let_def split: sum.splits option.splits)

lemma repetitions_SucE:
  assumes "repetitions g lname (Suc n) pr rn = Some (Inr (pr', rn'))"
  obtains (stop) "\<not> can_start pr (resources (r_state rn))" and "pr' = pr" and "rn' = rn"
  | (go) pr1 rn1 where "can_start pr (resources (r_state rn))"
      and "repetition g lname pr rn = Some (Inr (pr1, rn1))"
      and "repetitions g lname n pr1 rn1 = Some (Inr (pr', rn'))"
  using assms
  by (auto split: if_splits sum.splits option.splits)

lemma entryE:
  assumes "entry g u x = Some (Inr u')"
  obtains (skip) "u_predictions u (la_name x) = None" and "u' = u"
  | (run) pr pr' rn' where "u_predictions u (la_name x) = Some pr"
      and "repetitions g (la_name x) (la_loops x) pr
             \<lparr>r_state = seed_progress g pr (u_state u), r_total = u_total u,
              r_totalTicks = u_totalTicks u, r_isValid = True\<rparr> = Some (Inr (pr', rn'))"
      and "u' = \<lparr>u_predictions = (u_predictions u)(la_name x \<mapsto> pr'),
                 u_state = r_state rn',
                 u_snap_stats = snap (u_snap_stats u) (stats (r_state rn')),
                 u_snap_skills = snap (u_snap_skills u) (skills (r_state rn')),
                 u_total = r_total rn',
                 u_totalTicks = r_totalTicks rn',
                 u_reports = u_reports u @
                   [\<lparr>rp_name = la_name x,
                     rp_resources = resources (r_state rn'),
                     rp_stats = attributes (snap (u_snap_stats u) (stats (r_state rn'))),
                     rp_skills = attributes (snap (u_snap_skills u) (skills (r_state rn'))),
                     rp_isValid = r_isValid rn'\<rparr>]\<rparr>"
  using assms
  by (auto simp: entry_def Let_def split: sum.splits option.splits)

lemma predict_ticks_completed_ok:
  assumes "predict_ticks g pr n st = Some (Inr st')" and "completed_ok f st"
    and "f (name pr) = segments (action pr)"
  shows "completed_ok f st'"
  using assms(1,2)
proof (induction n arbitrary: st)
  case 0
  then show ?case by simp
next
  case (Suc n)
  from Suc.prems(1) obtain m st1 v where
    t: "tick g pr (st\<lparr>resources := (resources st)(''mana'' \<mapsto> m - 1)\<rparr>) = Some (Inr (st1, v))"
    and rest: "if truthy v then predict_ticks g pr n st1 = Some (Inr st') else st' = st1"
    by (rule predict_ticks_SucE)
  from Suc.prems(2) have "completed_ok f (st\<lparr>resources := (resources st)(''mana'' \<mapsto> m - 1)\<rparr>)"
    by (simp add: completed_ok_def)
  from tick_completed_ok[OF t this assms(3)] have ok1: "completed_ok f st1" .
  show ?case
  proof (cases "truthy v")
    case True
    with rest have "predict_ticks g pr n st1 = Some (Inr st')" by simp
    from Suc.IH[OF this ok1] show ?thesis .
  next
    case False
    with rest ok1 show ?thesis by simp
  qed
qed

lemma predict_completed_ok:
  assumes "predict g pr st = Some (Inr (pr', st'))" and "completed_ok f st"
    and "f (name pr) = segments (action pr)"
  shows "completed_ok f st' \<and> name pr' = name pr \<and> action pr' = action pr \<and> loop pr' = loop pr"
proof -
  from assms(1) obtain n where pr': "pr' = pr\<lparr>p_ticks := updateTicks g (action pr) (stats st)\<rparr>"
    and t: "predict_ticks g pr' (nat n) st = Some (Inr st')"
    by (rule predictE)
  from pr' assms(3) have "f (name pr') = segments (action pr')" by simp
  from predict_ticks_completed_ok[OF t assms(2) this] pr' show ?thesis by simp
qed

lemma repetition_completed_ok:
  assumes "repetition g lname pr rn = Some (Inr (pr', rn'))" and "completed_ok f (r_state rn)"
    and "f (name pr) = segments (action pr)"
  shows "completed_ok f (r_state rn') \<and> name pr' = name pr \<and> action pr' = action pr \<and> loop pr' = loop pr"
proof -
  from assms(1) obtain st where p: "predict g pr (r_state rn) = Some (Inr (pr', st))"
    and a: "account g lname pr' (resources (r_state rn) ''mana'') rn st = Inr rn'"
    by (rule repetitionE)
  from predict_completed_ok[OF p assms(2,3)]
  have ok: "completed_ok f st" and same: "name pr' = name pr \<and> action pr' = action pr \<and> loop pr' = loop pr"
    by simp_all
  from a have "progressions (r_state rn') = progressions st"
    by (rule accountE) simp
  with ok same show ?thesis by (simp add: completed_ok_def)
qed

lemma repetitions_completed_ok:
  assumes "repetitions g lname n pr rn = Some (Inr (pr', rn'))" and "completed_ok f (r_state rn)"
    and "f (name pr) = segments (action pr)"
  shows "completed_ok f (r_state rn') \<and> name pr' = name pr \<and> action pr' = action pr \<and> loop pr' = loop pr"
  using assms
proof (induction n arbitrary: pr rn)
  case 0
  then show ?case by simp
next
  case (Suc n)
  from Suc.prems(1) show ?case
  proof (cases rule: repetitions_SucE)
    case stop
    with Suc.prems show ?thesis by simp
  next
    case (go pr1 rn1)
    from repetition_completed_ok[OF go(2) Suc.prems(2,3)]
    have ok1: "completed_ok f (r_state rn1)"
      and same: "name pr1 = name pr \<and> action pr1 = action pr \<and> loop pr1 = loop pr"
      by simp_all
    from same Suc.prems(3) have "f (name pr1) = segments (action pr1)" by simp
    from Suc.IH[OF go(3) ok1 this] same show ?thesis by simp
  qed
qed

lemma seed_progress_completed_ok:
  "completed_ok f st \<Longrightarrow> completed_ok f (seed_progress g pr st)"
  by (simp add: completed_ok_def seed_progress_def)

lemma entry_completed_ok:
  assumes "entry g u x = Some (Inr u')" and "table_ok g (u_predictions u)"
    and "completed_ok (\<lambda>k. segments (translateClassNames g k)) (u_state u)"
  shows "table_ok g (u_predictions u') \<and> completed_ok (\<lambda>k. segments (translateClassNames g k)) (u_state u')"
  using assms(1)
proof (cases rule: entryE)
  case skip
  with assms show ?thesis by simp
next
  case (run pr pr' rn')
  let ?f = "\<lambda>k. segments (translateClassNames g k)"
  from assms(2) run(1) have wf: "name pr = la_name x \<and> action pr = translateClassNames g (la_name x)"
    by (simp add: table_ok_def)
  then have f: "?f (name pr) = segments (action pr)" by simp
  have "completed_ok ?f (r_state \<lparr>r_state = seed_progress g pr (u_state u), r_total = u_total u,
              r_totalTicks = u_totalTicks u, r_isValid = True\<rparr>)"
    using assms(3) by (simp add: seed_progress_completed_ok)
  from repetitions_completed_ok[OF run(2) this f]
  have ok: "completed_ok ?f (r_state rn')" and same: "name pr' = name pr \<and> action pr' = action pr"
    by simp_all
  from assms(2) wf same have "table_ok g ((u_predictions u)(la_name x \<mapsto> pr'))"
    by (simp add: table_ok_def)
  with ok run(3) show ?thesis by simp
qed

lemma entries_completed_ok:
  assumes "entries g xs u = Some (Inr u')" and "table_ok g (u_predictions u)"
    and "completed_ok (\<lambda>k. segments (translateClassNames g k)) (u_state u)"
  shows "completed_ok (\<lambda>k. segments (translateClassNames g k)) (u_state u')"
  using assms
proof (induction xs arbitrary: u)
  case Nil
  then show ?case by simp
next
  case (Cons x xs)
  from Cons.prems(1) obtain u1 where e: "entry g u x = Some (Inr u1)"
    and r: "entries g xs u1 = Some (Inr u')"
    by (auto split: option.splits sum.splits)
  from entry_completed_ok[OF e Cons.prems(2,3)] Cons.IH[OF r] show ?case by simp
qed

lemma initPredictions_ok: "table_ok g (initPredictions g catalogue)"
  by (auto simp: table_ok_def initPredictions_def Prediction_def)

section \<open>Completed segments\<close>

text \<open>
  C8. A progression is seeded with 0 completed segments, a tick adds a whole number of
  loops' worth of segments to the progression of its own action and changes no other,
  and so at the end of every run of \<open>update\<close> that returns, every progression has
  completed a multiple of the segments per loop of its action. The table of predictions
  is one as \<open>initPredictions\<close> builds it.
\<close>

theorem completed_multiple:
  "(loop pr \<noteq> None \<and> progressions st (name pr) = None \<longrightarrow>
      map_option completed (progressions (seed_progress g pr st) (name pr)) = Some 0)
   \<and> (tick g pr st = Some (Inr (st', v)) \<and> progressions st' k = Some p' \<longrightarrow>
      (\<exists>p n. progressions st k = Some p
             \<and> completed p' = completed p + int n * segments (action pr)
             \<and> (k \<noteq> name pr \<longrightarrow> p' = p)))
   \<and> (table_ok g ps \<and> update g ps actions = Some (Inr u) \<and> progressions (u_state u) k = Some q \<longrightarrow>
      segments (translateClassNames g k) dvd completed q)"
proof (intro conjI impI)
  assume "loop pr \<noteq> None \<and> progressions st (name pr) = None"
  then show "map_option completed (progressions (seed_progress g pr st) (name pr)) = Some 0"
    by (simp add: seed_progress_def)
next
  assume h: "tick g pr st = Some (Inr (st', v)) \<and> progressions st' k = Some p'"
  then have t: "tick g pr st = Some (Inr (st', v))" by simp
  from tick_progressions[OF t]
  show "\<exists>p n. progressions st k = Some p
             \<and> completed p' = completed p + int n * segments (action pr)
             \<and> (k \<noteq> name pr \<longrightarrow> p' = p)"
  proof (elim disjE exE conjE)
    assume "progressions st' = progressions st"
    with h have "progressions st k = Some p' \<and> completed p' = completed p' + int 0 * segments (action pr)"
      by simp
    then show ?thesis by blast
  next
    fix p0 p1 and n :: nat
    assume p0: "progressions st (name pr) = Some p0"
      and st': "progressions st' = (progressions st)(name pr \<mapsto> p1)"
      and c: "completed p1 = completed p0 + int n * segments (action pr)"
    show ?thesis
    proof (cases "k = name pr")
      case True
      with h st' have "p' = p1" by simp
      with True p0 c show ?thesis by blast
    next
      case False
      with h st' have "progressions st k = Some p' \<and> completed p' = completed p' + int 0 * segments (action pr)"
        by simp
      then show ?thesis by blast
    qed
  qed
next
  assume h: "table_ok g ps \<and> update g ps actions = Some (Inr u) \<and> progressions (u_state u) k = Some q"
  let ?f = "\<lambda>k. segments (translateClassNames g k)"
  let ?u0 = "\<lparr>u_predictions = ps,
               u_state = (initial_state g)\<lparr>resources := foldl init_resource (resources (initial_state g)) (all_affected ps actions)\<rparr>,
               u_snap_stats = Snapshot (Some (stats (initial_state g))),
               u_snap_skills = Snapshot (Some (skills (initial_state g))),
               u_total = 0,
               u_totalTicks = 0,
               u_reports = []\<rparr>"
  from h obtain u1 where e: "entries g actions ?u0 = Some (Inr u1)"
    and u: "u = u1\<lparr>u_totalTicks := u_totalTicks u1 / 50\<rparr>"
    by (auto simp: update_def Let_def split: option.splits sum.splits)
  have "completed_ok ?f (u_state ?u0)"
    by (simp add: completed_ok_def initial_state_def)
  from entries_completed_ok[OF e _ this] h have "completed_ok ?f (u_state u1)" by simp
  with u h show "segments (translateClassNames g k) dvd completed q"
    by (simp add: completed_ok_def)
qed

section \<open>One tick of a loop\<close>

lemma walk_step_inside:
  assumes "w_segment w < segments a - 1"
  shows "walk_next lp a (walk_body lp a w) =
           \<lparr>w_progress = w_progress w - l_cost lp (w_progression w) a (w_segment w),
            w_segment = w_segment w + 1,
            w_progression = w_progression w,
            w_resources = fst (apply_effect (e_segment lp) (w_resources w, w_skills w)),
            w_skills = snd (apply_effect (e_segment lp) (w_resources w, w_skills w))\<rparr>"
  using assms by (simp add: walk_next_def walk_body_def Let_def)

lemma predict_ticks_numeral:
  "predict_ticks g pr (numeral k) st =
     (case resources st ''mana'' of
        None \<Rightarrow> Some (Inl NotANumber)
      | Some mana \<Rightarrow>
          (case tick g pr (st\<lparr>resources := (resources st)(''mana'' \<mapsto> mana - 1)\<rparr>) of
             None \<Rightarrow> None
           | Some (Inl err) \<Rightarrow> Some (Inl err)
           | Some (Inr (st', continue)) \<Rightarrow>
               if \<not> truthy continue then Some (Inr st') else predict_ticks g pr (pred_numeral k) st'))"
  by (simp add: numeral_eq_Suc)

lemma walk_step_wraps:
  assumes "w_segment w \<ge> segments a - 1"
  shows "walk_next lp a (walk_body lp a w) =
           \<lparr>w_progress = w_progress w
              - l_cost lp ((w_progression w)\<lparr>progress := 0,
                     completed := completed (w_progression w) + segments a,
                     total := total (w_progression w) + 1\<rparr>) a (w_segment w - segments a),
            w_segment = w_segment w - segments a + 1,
            w_progression = (w_progression w)\<lparr>progress := 0,
                     completed := completed (w_progression w) + segments a,
                     total := total (w_progression w) + 1\<rparr>,
            w_resources = fst (apply_effect (e_segment lp) (apply_effect (e_loop lp) (w_resources w, w_skills w))),
            w_skills = snd (apply_effect (e_segment lp) (apply_effect (e_loop lp) (w_resources w, w_skills w)))\<rparr>"
  using assms by (simp add: walk_next_def walk_body_def complete_loop_def Let_def)

lemma tick_of_walk:
  assumes "loop pr = Some lp" and "exp_gain g pr (action pr) (stats st) = Inr s"
    and "progressions st (name pr) = Some p"
    and "before_tick (l_cost lp p (action pr)) (progress p) 0 = Some (x0, s0)"
    and "ticks pr = Inr t"
    and "d = l_tick lp p (action pr) s (skills st) (resources st) s0 * (manaCost (action pr) / real_of_int t)"
    and "after_tick lp (action pr) (max_segments lp (action pr))
           \<lparr>w_progress = x0 + d, w_segment = s0, w_progression = p\<lparr>progress := progress p + d\<rparr>,
            w_resources = resources st, w_skills = skills st\<rparr> = Some w'"
  shows "tick g pr st =
           Some (Inr (st\<lparr>stats := s, resources := w_resources w', skills := w_skills w',
                         progressions := (progressions st)(name pr \<mapsto> w_progression w')\<rparr>,
                      tick_result d (w_segment w') (max_segments lp (action pr))))"
  using assms by (simp add: tick_def tick_loop_def tick_run_def Let_def)

lemma tick_completes_loop:
  assumes "loop pr = Some lp" and "exp_gain g pr (action pr) (stats st) = Inr s"
    and "progressions st (name pr) = Some p"
    and "before_tick (l_cost lp p (action pr)) (progress p) 0 = Some (x0, segments (action pr) - 1)"
    and "ticks pr = Inr t"
    and "d = l_tick lp p (action pr) s (skills st) (resources st) (segments (action pr) - 1)
               * (manaCost (action pr) / real_of_int t)"
    and "l_cost lp (p\<lparr>progress := progress p + d\<rparr>) (action pr) (segments (action pr) - 1) \<le> x0 + d"
    and "below (segments (action pr) - 1) (max_segments lp (action pr))"
    and "p' = p\<lparr>progress := 0, completed := completed p + segments (action pr), total := total p + 1\<rparr>"
    and "\<not> (l_cost lp p' (action pr) 0 \<le> x0 + d - l_cost lp p' (action pr) (- 1)
            \<and> below 0 (max_segments lp (action pr)))"
  shows "tick g pr st =
           Some (Inr (st\<lparr>stats := s,
                         resources := fst (apply_effect (e_segment lp) (apply_effect (e_loop lp) (resources st, skills st))),
                         skills := snd (apply_effect (e_segment lp) (apply_effect (e_loop lp) (resources st, skills st))),
                         progressions := (progressions st)(name pr \<mapsto> p')\<rparr>,
                      tick_result d 0 (max_segments lp (action pr))))"
proof -
  let ?a = "action pr" and ?m = "max_segments lp (action pr)"
  let ?w0 = "\<lparr>w_progress = x0 + d, w_segment = segments ?a - 1, w_progression = p\<lparr>progress := progress p + d\<rparr>,
              w_resources = resources st, w_skills = skills st\<rparr>"
  let ?rk = "apply_effect (e_segment lp) (apply_effect (e_loop lp) (resources st, skills st))"
  let ?w1 = "\<lparr>w_progress = x0 + d - l_cost lp p' ?a (- 1), w_segment = 0, w_progression = p',
              w_resources = fst ?rk, w_skills = snd ?rk\<rparr>"
  from assms(7,8) have c0: "walk_cond lp ?a ?m ?w0"
    by (simp add: walk_cond_def)
  have "walk_next lp ?a (walk_body lp ?a ?w0) = ?w1"
    by (simp add: walk_step_wraps assms(9))
  with c0 have 1: "after_tick lp ?a ?m ?w0 = after_tick lp ?a ?m ?w1"
    by (subst after_tick.simps) simp
  from assms(10) have "\<not> walk_cond lp ?a ?m ?w1"
    by (simp add: walk_cond_def)
  then have "after_tick lp ?a ?m ?w1 = Some ?w1"
    by (subst after_tick.simps) simp
  with 1 have "after_tick lp ?a ?m ?w0 = Some ?w1" by simp
  from tick_of_walk[OF assms(1-6) this] show ?thesis by simp
qed

lemma two_ticks_class:
  assumes lp: "loop pr = Some lp" and c: "\<forall>p s. l_cost lp p (action pr) s = 100"
    and n: "segments (action pr) = 2" and mx: "l_max lp = None" and t: "ticks pr = Inr t"
    and d: "\<forall>p s k r seg. l_tick lp p (action pr) s k r seg * (manaCost (action pr) / real_of_int t) = 50"
    and e: "exp_gain g pr (action pr) (stats st) = Inr s"
    and p: "progressions st (name pr) = Some p"
  shows "progress p = 0 \<Longrightarrow> tick g pr st =
           Some (Inr (st\<lparr>stats := s, progressions := (progressions st)(name pr \<mapsto> p\<lparr>progress := 50\<rparr>)\<rparr>, JBool True))"
    and "progress p = 50 \<Longrightarrow> tick g pr st =
           Some (Inr (st\<lparr>stats := s,
                         resources := fst (apply_effect (e_segment lp) (resources st, skills st)),
                         skills := snd (apply_effect (e_segment lp) (resources st, skills st)),
                         progressions := (progressions st)(name pr \<mapsto> p\<lparr>progress := 100\<rparr>)\<rparr>, JBool True))"
    and "progress p = 100 \<Longrightarrow> tick g pr st =
           Some (Inr (st\<lparr>stats := s, progressions := (progressions st)(name pr \<mapsto> p\<lparr>progress := 150\<rparr>)\<rparr>, JBool True))"
    and "progress p = 150 \<Longrightarrow> tick g pr st =
           Some (Inr (st\<lparr>stats := s,
                         resources := fst (apply_effect (e_segment lp) (apply_effect (e_loop lp) (resources st, skills st))),
                         skills := snd (apply_effect (e_segment lp) (apply_effect (e_loop lp) (resources st, skills st))),
                         progressions := (progressions st)(name pr \<mapsto>
                            p\<lparr>progress := 0, completed := completed p + 2, total := total p + 1\<rparr>)\<rparr>, JBool True))"
proof -
  have m: "max_segments lp (action pr) = None"
    by (simp add: max_segments_def mx)
  note ev = tick_def tick_loop_def tick_run_def tick_result_def before_tick.simps after_tick.simps
    walk_cond_def walk_body_def walk_next_def complete_loop_def below_def Let_def
  show "progress p = 0 \<Longrightarrow> tick g pr st =
           Some (Inr (st\<lparr>stats := s, progressions := (progressions st)(name pr \<mapsto> p\<lparr>progress := 50\<rparr>)\<rparr>, JBool True))"
    using lp c n t d e p by (simp add: m ev)
  show "progress p = 50 \<Longrightarrow> tick g pr st =
           Some (Inr (st\<lparr>stats := s,
                         resources := fst (apply_effect (e_segment lp) (resources st, skills st)),
                         skills := snd (apply_effect (e_segment lp) (resources st, skills st)),
                         progressions := (progressions st)(name pr \<mapsto> p\<lparr>progress := 100\<rparr>)\<rparr>, JBool True))"
    using lp c n t d e p by (simp add: m ev)
  show "progress p = 100 \<Longrightarrow> tick g pr st =
           Some (Inr (st\<lparr>stats := s, progressions := (progressions st)(name pr \<mapsto> p\<lparr>progress := 150\<rparr>)\<rparr>, JBool True))"
    using lp c n t d e p by (simp add: m ev)
  show "progress p = 150 \<Longrightarrow> tick g pr st =
           Some (Inr (st\<lparr>stats := s,
                         resources := fst (apply_effect (e_segment lp) (apply_effect (e_loop lp) (resources st, skills st))),
                         skills := snd (apply_effect (e_segment lp) (apply_effect (e_loop lp) (resources st, skills st))),
                         progressions := (progressions st)(name pr \<mapsto>
                            p\<lparr>progress := 0, completed := completed p + 2, total := total p + 1\<rparr>)\<rparr>, JBool True))"
    using lp c n t d e p by (simp add: m ev)
qed


lemma four_ticks_complete_loop:
  assumes lp: "loop pr = Some lp" and c: "\<forall>p s. l_cost lp p (action pr) s = 100"
    and n: "segments (action pr) = 2" and mx: "l_max lp = None" and t: "ticks pr = Inr t"
    and d: "\<forall>p s k r seg. l_tick lp p (action pr) s k r seg * (manaCost (action pr) / real_of_int t) = 50"
    and e1: "exp_gain g pr (action pr) (stats st) = Inr s1"
    and e2: "exp_gain g pr (action pr) s1 = Inr s2"
    and e3: "exp_gain g pr (action pr) s2 = Inr s3"
    and e4: "exp_gain g pr (action pr) s3 = Inr s4"
    and p: "progressions st (name pr) = Some p" and x: "progress p = 0"
    and m: "resources st ''mana'' = Some m"
    and m': "fst (apply_effect (e_segment lp) ((resources st)(''mana'' \<mapsto> m - 2), skills st)) ''mana'' = Some m'"
  shows "predict_ticks g pr 4 st =
           Some (Inr (st\<lparr>stats := s4,
                  resources := fst (apply_effect (e_segment lp) (apply_effect (e_loop lp)
                     ((fst (apply_effect (e_segment lp) ((resources st)(''mana'' \<mapsto> m - 2), skills st)))
                         (''mana'' \<mapsto> m' - 2),
                      snd (apply_effect (e_segment lp) ((resources st)(''mana'' \<mapsto> m - 2), skills st))))),
                  skills := snd (apply_effect (e_segment lp) (apply_effect (e_loop lp)
                     ((fst (apply_effect (e_segment lp) ((resources st)(''mana'' \<mapsto> m - 2), skills st)))
                         (''mana'' \<mapsto> m' - 2),
                      snd (apply_effect (e_segment lp) ((resources st)(''mana'' \<mapsto> m - 2), skills st))))),
                  progressions := (progressions st)(name pr \<mapsto>
                     p\<lparr>progress := 0, completed := completed p + 2, total := total p + 1\<rparr>)\<rparr>))"
proof -
  let ?seg = "apply_effect (e_segment lp)" and ?loop = "apply_effect (e_loop lp)"
  define p1 where "p1 = p\<lparr>progress := 50\<rparr>"
  define p2 where "p2 = p1\<lparr>progress := 100\<rparr>"
  define p3 where "p3 = p2\<lparr>progress := 150\<rparr>"
  define a1 where "a1 = st\<lparr>resources := (resources st)(''mana'' \<mapsto> m - 1)\<rparr>"
  define b1 where "b1 = a1\<lparr>stats := s1, progressions := (progressions a1)(name pr \<mapsto> p\<lparr>progress := 50\<rparr>)\<rparr>"
  define a2 where "a2 = b1\<lparr>resources := (resources b1)(''mana'' \<mapsto> m - 2)\<rparr>"
  define b2 where "b2 = a2\<lparr>stats := s2, resources := fst (?seg (resources a2, skills a2)),
                          skills := snd (?seg (resources a2, skills a2)),
                          progressions := (progressions a2)(name pr \<mapsto> p1\<lparr>progress := 100\<rparr>)\<rparr>"
  define a3 where "a3 = b2\<lparr>resources := (resources b2)(''mana'' \<mapsto> m' - 1)\<rparr>"
  define b3 where "b3 = a3\<lparr>stats := s3, progressions := (progressions a3)(name pr \<mapsto> p2\<lparr>progress := 150\<rparr>)\<rparr>"
  define a4 where "a4 = b3\<lparr>resources := (resources b3)(''mana'' \<mapsto> m' - 2)\<rparr>"
  define b4 where "b4 = a4\<lparr>stats := s4, resources := fst (?seg (?loop (resources a4, skills a4))),
                          skills := snd (?seg (?loop (resources a4, skills a4))),
                          progressions := (progressions a4)(name pr \<mapsto>
                             p3\<lparr>progress := 0, completed := completed p3 + 2, total := total p3 + 1\<rparr>)\<rparr>"
  note defs = a1_def b1_def a2_def b2_def a3_def b3_def a4_def b4_def p1_def p2_def p3_def
  have t1: "tick g pr a1 = Some (Inr (b1, JBool True))"
    unfolding b1_def
  proof (rule two_ticks_class(1)[OF lp c n mx t d])
    show "exp_gain g pr (action pr) (stats a1) = Inr s1" using e1 by (simp add: a1_def)
    show "progressions a1 (name pr) = Some p" using p by (simp add: a1_def)
    show "progress p = 0" by (rule x)
  qed
  have t2: "tick g pr a2 = Some (Inr (b2, JBool True))"
    unfolding b2_def
  proof (rule two_ticks_class(2)[OF lp c n mx t d])
    show "exp_gain g pr (action pr) (stats a2) = Inr s2" using e2 by (simp add: a2_def b1_def)
    show "progressions a2 (name pr) = Some p1" by (simp add: a2_def b1_def p1_def)
    show "progress p1 = 50" by (simp add: p1_def)
  qed
  have t3: "tick g pr a3 = Some (Inr (b3, JBool True))"
    unfolding b3_def
  proof (rule two_ticks_class(3)[OF lp c n mx t d])
    show "exp_gain g pr (action pr) (stats a3) = Inr s3" using e3 by (simp add: a3_def b2_def)
    show "progressions a3 (name pr) = Some p2" by (simp add: a3_def b2_def p2_def)
    show "progress p2 = 100" by (simp add: p2_def)
  qed
  have t4: "tick g pr a4 = Some (Inr (b4, JBool True))"
    unfolding b4_def
  proof (rule two_ticks_class(4)[OF lp c n mx t d])
    show "exp_gain g pr (action pr) (stats a4) = Inr s4" using e4 by (simp add: a4_def b3_def)
    show "progressions a4 (name pr) = Some p3" by (simp add: a4_def b3_def p3_def)
    show "progress p3 = 150" by (simp add: p3_def)
  qed
  have r1: "resources b1 ''mana'' = Some (m - 1)"
    by (simp add: b1_def a1_def)
  have ra2: "resources a2 = (resources st)(''mana'' \<mapsto> m - 2)" "skills a2 = skills st"
    by (simp_all add: a2_def b1_def a1_def)
  have r2: "resources b2 ''mana'' = Some m'"
    using m' by (simp add: b2_def ra2)
  have r3: "resources b3 ''mana'' = Some (m' - 1)"
    by (simp add: b3_def a3_def)
  have "predict_ticks g pr 4 st = predict_ticks g pr 3 b1"
    by (subst predict_ticks_numeral) (simp add: m t1 flip: a1_def)
  also have "\<dots> = predict_ticks g pr 2 b2"
    by (subst predict_ticks_numeral) (simp add: r1 t2 flip: a2_def)
  also have "\<dots> = predict_ticks g pr 1 b3"
    by (subst predict_ticks_numeral) (simp add: r2 t3 flip: a3_def)
  also have "\<dots> = Some (Inr b4)"
    by (simp add: r3 t4 flip: a4_def)
  finally have "predict_ticks g pr 4 st = Some (Inr b4)" .
  moreover have "b4 = st\<lparr>stats := s4,
                  resources := fst (apply_effect (e_segment lp) (apply_effect (e_loop lp)
                     ((fst (apply_effect (e_segment lp) ((resources st)(''mana'' \<mapsto> m - 2), skills st)))
                         (''mana'' \<mapsto> m' - 2),
                      snd (apply_effect (e_segment lp) ((resources st)(''mana'' \<mapsto> m - 2), skills st))))),
                  skills := snd (apply_effect (e_segment lp) (apply_effect (e_loop lp)
                     ((fst (apply_effect (e_segment lp) ((resources st)(''mana'' \<mapsto> m - 2), skills st)))
                         (''mana'' \<mapsto> m' - 2),
                      snd (apply_effect (e_segment lp) ((resources st)(''mana'' \<mapsto> m - 2), skills st))))),
                  progressions := (progressions st)(name pr \<mapsto>
                     p\<lparr>progress := 0, completed := completed p + 2, total := total p + 1\<rparr>)\<rparr>"
    by (simp add: defs)
  ultimately show ?thesis by simp
qed

text \<open>
  C2. One tick of an action with a loop is the walk of its second loop, started at the
  segment and remainder that the first loop finds plus the progress of the tick, and
  its outcome is what the tick stores in the state. Whenever that walk goes on (the
  remaining progress is at least the cost of the segment, and the segment limit is not
  reached) at a segment index of \<open>segments - 1\<close> or more, a loop is completed: the stored
  progress becomes 0, \<open>completed\<close> grows by the segments per loop, \<open>total\<close> by 1, the
  segment index goes back by the segments per loop (and is then incremented), the loop
  effect is applied once and after it the segment effect once. At an earlier segment
  only the segment effect is applied. Hence a tick that starts in the last segment of
  a loop and reaches its cost returns the state with these changes. With two segments of
  cost 100 and a progress of 50 for each tick, four ticks from a stored progress of 0
  accumulate 200 units: \<open>completed\<close> grows by 2, \<open>total\<close> by 1, the loop effect is
  applied once and the segment effect twice, after the second and after the fourth tick.
\<close>

theorem loop_completes:
  "(loop pr = Some lp \<and> exp_gain g pr (action pr) (stats st) = Inr s
      \<and> progressions st (name pr) = Some p
      \<and> before_tick (l_cost lp p (action pr)) (progress p) 0 = Some (x0, s0)
      \<and> ticks pr = Inr t
      \<and> d = l_tick lp p (action pr) s (skills st) (resources st) s0 * (manaCost (action pr) / real_of_int t)
      \<and> after_tick lp (action pr) (max_segments lp (action pr))
           \<lparr>w_progress = x0 + d, w_segment = s0, w_progression = p\<lparr>progress := progress p + d\<rparr>,
            w_resources = resources st, w_skills = skills st\<rparr> = Some w' \<longrightarrow>
      tick g pr st =
        Some (Inr (st\<lparr>stats := s, resources := w_resources w', skills := w_skills w',
                      progressions := (progressions st)(name pr \<mapsto> w_progression w')\<rparr>,
                   tick_result d (w_segment w') (max_segments lp (action pr)))))
   \<and> (walk_cond lp a maxSegments w \<and> w_segment w \<ge> segments a - 1 \<longrightarrow>
      after_tick lp a maxSegments w =
        after_tick lp a maxSegments
          \<lparr>w_progress = w_progress w
              - l_cost lp ((w_progression w)\<lparr>progress := 0,
                     completed := completed (w_progression w) + segments a,
                     total := total (w_progression w) + 1\<rparr>) a (w_segment w - segments a),
            w_segment = w_segment w - segments a + 1,
            w_progression = (w_progression w)\<lparr>progress := 0,
                     completed := completed (w_progression w) + segments a,
                     total := total (w_progression w) + 1\<rparr>,
            w_resources = fst (apply_effect (e_segment lp) (apply_effect (e_loop lp) (w_resources w, w_skills w))),
            w_skills = snd (apply_effect (e_segment lp) (apply_effect (e_loop lp) (w_resources w, w_skills w)))\<rparr>)
   \<and> (walk_cond lp a maxSegments w \<and> w_segment w < segments a - 1 \<longrightarrow>
      after_tick lp a maxSegments w =
        after_tick lp a maxSegments
          \<lparr>w_progress = w_progress w - l_cost lp (w_progression w) a (w_segment w),
            w_segment = w_segment w + 1,
            w_progression = w_progression w,
            w_resources = fst (apply_effect (e_segment lp) (w_resources w, w_skills w)),
            w_skills = snd (apply_effect (e_segment lp) (w_resources w, w_skills w))\<rparr>)
   \<and> (loop pr = Some lp \<and> exp_gain g pr (action pr) (stats st) = Inr s
      \<and> progressions st (name pr) = Some p
      \<and> before_tick (l_cost lp p (action pr)) (progress p) 0 = Some (x0, segments (action pr) - 1)
      \<and> ticks pr = Inr t
      \<and> d = l_tick lp p (action pr) s (skills st) (resources st) (segments (action pr) - 1)
               * (manaCost (action pr) / real_of_int t)
      \<and> l_cost lp (p\<lparr>progress := progress p + d\<rparr>) (action pr) (segments (action pr) - 1) \<le> x0 + d
      \<and> below (segments (action pr) - 1) (max_segments lp (action pr))
      \<and> p' = p\<lparr>progress := 0, completed := completed p + segments (action pr), total := total p + 1\<rparr>
      \<and> \<not> (l_cost lp p' (action pr) 0 \<le> x0 + d - l_cost lp p' (action pr) (- 1)
            \<and> below 0 (max_segments lp (action pr))) \<longrightarrow>
      tick g pr st =
        Some (Inr (st\<lparr>stats := s,
                      resources := fst (apply_effect (e_segment lp) (apply_effect (e_loop lp) (resources st, skills st))),
                      skills := snd (apply_effect (e_segment lp) (apply_effect (e_loop lp) (resources st, skills st))),
                      progressions := (progressions st)(name pr \<mapsto> p')\<rparr>,
                   tick_result d 0 (max_segments lp (action pr)))))
   \<and> (loop pr = Some lp \<and> (\<forall>p s. l_cost lp p (action pr) s = 100) \<and> segments (action pr) = 2
      \<and> l_max lp = None \<and> ticks pr = Inr t
      \<and> (\<forall>p s k r seg. l_tick lp p (action pr) s k r seg * (manaCost (action pr) / real_of_int t) = 50)
      \<and> exp_gain g pr (action pr) (stats st) = Inr s1 \<and> exp_gain g pr (action pr) s1 = Inr s2
      \<and> exp_gain g pr (action pr) s2 = Inr s3 \<and> exp_gain g pr (action pr) s3 = Inr s4
      \<and> progressions st (name pr) = Some q \<and> progress q = 0
      \<and> resources st ''mana'' = Some m
      \<and> fst (apply_effect (e_segment lp) ((resources st)(''mana'' \<mapsto> m - 2), skills st)) ''mana'' = Some m' \<longrightarrow>
      predict_ticks g pr 4 st =
        Some (Inr (st\<lparr>stats := s4,
               resources := fst (apply_effect (e_segment lp) (apply_effect (e_loop lp)
                  ((fst (apply_effect (e_segment lp) ((resources st)(''mana'' \<mapsto> m - 2), skills st)))
                      (''mana'' \<mapsto> m' - 2),
                   snd (apply_effect (e_segment lp) ((resources st)(''mana'' \<mapsto> m - 2), skills st))))),
               skills := snd (apply_effect (e_segment lp) (apply_effect (e_loop lp)
                  ((fst (apply_effect (e_segment lp) ((resources st)(''mana'' \<mapsto> m - 2), skills st)))
                      (''mana'' \<mapsto> m' - 2),
                   snd (apply_effect (e_segment lp) ((resources st)(''mana'' \<mapsto> m - 2), skills st))))),
               progressions := (progressions st)(name pr \<mapsto>
                  q\<lparr>progress := 0, completed := completed q + 2, total := total q + 1\<rparr>)\<rparr>)))"
proof (intro conjI impI)
  assume h: "loop pr = Some lp \<and> exp_gain g pr (action pr) (stats st) = Inr s
      \<and> progressions st (name pr) = Some p
      \<and> before_tick (l_cost lp p (action pr)) (progress p) 0 = Some (x0, s0)
      \<and> ticks pr = Inr t
      \<and> d = l_tick lp p (action pr) s (skills st) (resources st) s0 * (manaCost (action pr) / real_of_int t)
      \<and> after_tick lp (action pr) (max_segments lp (action pr))
           \<lparr>w_progress = x0 + d, w_segment = s0, w_progression = p\<lparr>progress := progress p + d\<rparr>,
            w_resources = resources st, w_skills = skills st\<rparr> = Some w'"
  then show "tick g pr st =
        Some (Inr (st\<lparr>stats := s, resources := w_resources w', skills := w_skills w',
                      progressions := (progressions st)(name pr \<mapsto> w_progression w')\<rparr>,
                   tick_result d (w_segment w') (max_segments lp (action pr))))"
    by (elim conjE) (rule tick_of_walk; assumption)
next
  assume h: "walk_cond lp a maxSegments w \<and> w_segment w \<ge> segments a - 1"
  then have "after_tick lp a maxSegments w = after_tick lp a maxSegments (walk_next lp a (walk_body lp a w))"
    by (subst after_tick.simps) simp
  with h show "after_tick lp a maxSegments w =
        after_tick lp a maxSegments
          \<lparr>w_progress = w_progress w
              - l_cost lp ((w_progression w)\<lparr>progress := 0,
                     completed := completed (w_progression w) + segments a,
                     total := total (w_progression w) + 1\<rparr>) a (w_segment w - segments a),
            w_segment = w_segment w - segments a + 1,
            w_progression = (w_progression w)\<lparr>progress := 0,
                     completed := completed (w_progression w) + segments a,
                     total := total (w_progression w) + 1\<rparr>,
            w_resources = fst (apply_effect (e_segment lp) (apply_effect (e_loop lp) (w_resources w, w_skills w))),
            w_skills = snd (apply_effect (e_segment lp) (apply_effect (e_loop lp) (w_resources w, w_skills w)))\<rparr>"
    by (simp only: walk_step_wraps)
next
  assume h: "walk_cond lp a maxSegments w \<and> w_segment w < segments a - 1"
  then have "after_tick lp a maxSegments w = after_tick lp a maxSegments (walk_next lp a (walk_body lp a w))"
    by (subst after_tick.simps) simp
  with h show "after_tick lp a maxSegments w =
        after_tick lp a maxSegments
          \<lparr>w_progress = w_progress w - l_cost lp (w_progression w) a (w_segment w),
            w_segment = w_segment w + 1,
            w_progression = w_progression w,
            w_resources = fst (apply_effect (e_segment lp) (w_resources w, w_skills w)),
            w_skills = snd (apply_effect (e_segment lp) (w_resources w, w_skills w))\<rparr>"
    by (simp only: walk_step_inside)
next
  assume h: "loop pr = Some lp \<and> exp_gain g pr (action pr) (stats st) = Inr s
      \<and> progressions st (name pr) = Some p
      \<and> before_tick (l_cost lp p (action pr)) (progress p) 0 = Some (x0, segments (action pr) - 1)
      \<and> ticks pr = Inr t
      \<and> d = l_tick lp p (action pr) s (skills st) (resources st) (segments (action pr) - 1)
               * (manaCost (action pr) / real_of_int t)
      \<and> l_cost lp (p\<lparr>progress := progress p + d\<rparr>) (action pr) (segments (action pr) - 1) \<le> x0 + d
      \<and> below (segments (action pr) - 1) (max_segments lp (action pr))
      \<and> p' = p\<lparr>progress := 0, completed := completed p + segments (action pr), total := total p + 1\<rparr>
      \<and> \<not> (l_cost lp p' (action pr) 0 \<le> x0 + d - l_cost lp p' (action pr) (- 1)
            \<and> below 0 (max_segments lp (action pr)))"
  then show "tick g pr st =
        Some (Inr (st\<lparr>stats := s,
                      resources := fst (apply_effect (e_segment lp) (apply_effect (e_loop lp) (resources st, skills st))),
                      skills := snd (apply_effect (e_segment lp) (apply_effect (e_loop lp) (resources st, skills st))),
                      progressions := (progressions st)(name pr \<mapsto> p')\<rparr>,
                   tick_result d 0 (max_segments lp (action pr))))"
    by (elim conjE) (rule tick_completes_loop; assumption)
next
  assume h: "loop pr = Some lp \<and> (\<forall>p s. l_cost lp p (action pr) s = 100) \<and> segments (action pr) = 2
      \<and> l_max lp = None \<and> ticks pr = Inr t
      \<and> (\<forall>p s k r seg. l_tick lp p (action pr) s k r seg * (manaCost (action pr) / real_of_int t) = 50)
      \<and> exp_gain g pr (action pr) (stats st) = Inr s1 \<and> exp_gain g pr (action pr) s1 = Inr s2
      \<and> exp_gain g pr (action pr) s2 = Inr s3 \<and> exp_gain g pr (action pr) s3 = Inr s4
      \<and> progressions st (name pr) = Some q \<and> progress q = 0
      \<and> resources st ''mana'' = Some m
      \<and> fst (apply_effect (e_segment lp) ((resources st)(''mana'' \<mapsto> m - 2), skills st)) ''mana'' = Some m'"
  then show "predict_ticks g pr 4 st =
        Some (Inr (st\<lparr>stats := s4,
               resources := fst (apply_effect (e_segment lp) (apply_effect (e_loop lp)
                  ((fst (apply_effect (e_segment lp) ((resources st)(''mana'' \<mapsto> m - 2), skills st)))
                      (''mana'' \<mapsto> m' - 2),
                   snd (apply_effect (e_segment lp) ((resources st)(''mana'' \<mapsto> m - 2), skills st))))),
               skills := snd (apply_effect (e_segment lp) (apply_effect (e_loop lp)
                  ((fst (apply_effect (e_segment lp) ((resources st)(''mana'' \<mapsto> m - 2), skills st)))
                      (''mana'' \<mapsto> m' - 2),
                   snd (apply_effect (e_segment lp) ((resources st)(''mana'' \<mapsto> m - 2), skills st))))),
               progressions := (progressions st)(name pr \<mapsto>
                  q\<lparr>progress := 0, completed := completed q + 2, total := total q + 1\<rparr>)\<rparr>))"
    by (elim conjE) (rule four_ticks_complete_loop; assumption)
qed

lemma tick_loop_of_run:
  assumes "tick_run pr lp st = Some (Inr (d, w))"
  shows "tick_loop pr lp st =
           Some (Inr (st\<lparr>resources := w_resources w, skills := w_skills w,
                         progressions := (progressions st)(name pr \<mapsto> w_progression w)\<rparr>,
                      tick_result d (w_segment w) (max_segments lp (action pr))))"
  using assms by (simp add: tick_loop_def)

lemma tick_result_falsy:
  "(\<not> truthy (tick_result d segment maxSegments)) = (d = 0 \<or> \<not> below segment maxSegments)"
  by (simp add: tick_result_def)

lemma before_tick_returns_below:
  assumes "0 < e" and "\<And>s. e \<le> c s"
  shows "x < real n * e \<Longrightarrow> \<exists>y. before_tick c x s = Some y"
proof (induction n arbitrary: x s)
  case 0
  with assms(1) assms(2)[of s] have "\<not> c s \<le> x" by simp
  then show ?case by (subst before_tick.simps) simp
next
  case (Suc n)
  show ?case
  proof (cases "c s \<le> x")
    case True
    from Suc.prems assms(2)[of s] have "x - c s < real n * e"
      by (simp add: algebra_simps)
    from Suc.IH[OF this, of "s + 1"] True show ?thesis
      by (subst before_tick.simps) simp
  next
    case False
    then show ?thesis by (subst before_tick.simps) simp
  qed
qed

lemma before_tick_returns:
  assumes "0 < e" and "\<And>s. e \<le> c s"
  shows "\<exists>y. before_tick c x s = Some y"
proof -
  from assms(1) obtain n :: nat where "x < real n * e"
    using reals_Archimedean3 by blast
  from before_tick_returns_below[OF assms this] show ?thesis .
qed

lemma walk_step_progress:
  "w_progress (walk_next lp a (walk_body lp a w))
     = w_progress w - l_cost lp (w_progression (walk_body lp a w)) a (w_segment (walk_body lp a w))"
  by (simp add: walk_next_def walk_body_def complete_loop_def Let_def)

lemma after_tick_returns_below:
  assumes "0 < e" and "\<And>p s. e \<le> l_cost lp p a s"
  shows "w_progress w < real n * e \<Longrightarrow> \<exists>w'. after_tick lp a m w = Some w'"
proof (induction n arbitrary: w)
  case 0
  with assms(1) assms(2)[of "w_progression w" "w_segment w"] have "\<not> walk_cond lp a m w"
    by (simp add: walk_cond_def)
  then show ?case by (subst after_tick.simps) simp
next
  case (Suc n)
  show ?case
  proof (cases "walk_cond lp a m w")
    case True
    from Suc.prems assms(2)[of "w_progression (walk_body lp a w)" "w_segment (walk_body lp a w)"]
    have "w_progress (walk_next lp a (walk_body lp a w)) < real n * e"
      by (simp add: walk_step_progress algebra_simps)
    from Suc.IH[OF this] True show ?thesis
      by (subst after_tick.simps) simp
  next
    case False
    then show ?thesis by (subst after_tick.simps) simp
  qed
qed

lemma after_tick_returns:
  assumes "0 < e" and "\<And>p s. e \<le> l_cost lp p a s"
  shows "\<exists>w'. after_tick lp a m w = Some w'"
proof -
  from assms(1) obtain n :: nat where "w_progress w < real n * e"
    using reals_Archimedean3 by blast
  from after_tick_returns_below[OF assms this] show ?thesis .
qed

lemma tick_run_returns:
  assumes "0 < e" and "\<And>p s. e \<le> l_cost lp p (action pr) s"
  shows "tick_run pr lp st \<noteq> None"
proof (cases "progressions st (name pr)")
  case None
  then show ?thesis by (simp add: tick_run_def)
next
  case (Some p)
  from before_tick_returns[OF assms(1), of "l_cost lp p (action pr)" "progress p" 0] assms(2)
  obtain x0 s0 where b: "before_tick (l_cost lp p (action pr)) (progress p) 0 = Some (x0, s0)"
    by auto
  show ?thesis
  proof (cases "ticks pr")
    case (Inl err)
    with Some b show ?thesis by (simp add: tick_run_def)
  next
    case (Inr t)
    let ?d = "l_tick lp p (action pr) (stats st) (skills st) (resources st) s0
                * (manaCost (action pr) / real_of_int t)"
    from after_tick_returns[OF assms, of "max_segments lp (action pr)"
        "\<lparr>w_progress = x0 + ?d, w_segment = s0, w_progression = p\<lparr>progress := progress p + ?d\<rparr>,
          w_resources = resources st, w_skills = skills st\<rparr>"]
    obtain w' where "after_tick lp (action pr) (max_segments lp (action pr))
        \<lparr>w_progress = x0 + ?d, w_segment = s0, w_progression = p\<lparr>progress := progress p + ?d\<rparr>,
          w_resources = resources st, w_skills = skills st\<rparr> = Some w'"
      by blast
    with Some b Inr show ?thesis by (simp add: tick_run_def Let_def)
  qed
qed

lemma tick_returns:
  assumes "0 < e" and "\<forall>lp. loop pr = Some lp \<longrightarrow> (\<forall>p s. e \<le> l_cost lp p (action pr) s)"
  shows "tick g pr st \<noteq> None"
proof (cases "exp_gain g pr (action pr) (stats st)")
  case (Inl err)
  then show ?thesis by (simp add: tick_def)
next
  case (Inr s)
  show ?thesis
  proof (cases "loop pr")
    case None
    with Inr show ?thesis by (simp add: tick_def)
  next
    case (Some lp)
    with assms(2) have "\<And>p s. e \<le> l_cost lp p (action pr) s" by simp
    from tick_run_returns[OF assms(1) this, of "st\<lparr>stats := s\<rparr>"]
    have "tick_loop pr lp (st\<lparr>stats := s\<rparr>) \<noteq> None"
      by (auto simp: tick_loop_def split: option.splits sum.splits)
    with Inr Some show ?thesis by (simp add: tick_def)
  qed
qed

text \<open>
  C3, as amended. A tick of an action without loop returns \<open>true\<close>. A tick of an action
  with a loop returns a falsy value if and only if the progress of the tick is zero or
  the segment index has reached \<open>maxSegments\<close>. A negative progress does not stop the
  repetition. The tick does return when the costs of the segments have a positive lower
  bound.
\<close>

theorem tick_stops_iff:
  "(loop pr = None \<and> tick g pr st = Some (Inr (st', v)) \<longrightarrow> v = JBool True)
   \<and> (loop pr = Some lp \<and> exp_gain g pr (action pr) (stats st) = Inr s \<longrightarrow>
        tick g pr st = tick_loop pr lp (st\<lparr>stats := s\<rparr>))
   \<and> (tick_run pr lp st = Some (Inr (d, w)) \<longrightarrow>
        (\<exists>st'. tick_loop pr lp st = Some (Inr (st', tick_result d (w_segment w) (max_segments lp (action pr)))))
        \<and> ((\<not> truthy (tick_result d (w_segment w) (max_segments lp (action pr))))
             = (d = 0 \<or> \<not> below (w_segment w) (max_segments lp (action pr)))))
   \<and> (0 < e \<and> (\<forall>lp. loop pr = Some lp \<longrightarrow> (\<forall>p s. e \<le> l_cost lp p (action pr) s)) \<longrightarrow>
        tick g pr st \<noteq> None)"
proof (intro conjI impI)
  assume "0 < e \<and> (\<forall>lp. loop pr = Some lp \<longrightarrow> (\<forall>p s. e \<le> l_cost lp p (action pr) s))"
  then show "tick g pr st \<noteq> None"
    using tick_returns[of e pr g st] by blast
next
  assume "loop pr = None \<and> tick g pr st = Some (Inr (st', v))"
  then show "v = JBool True"
    by (auto simp: tick_def split: sum.splits)
next
  assume "loop pr = Some lp \<and> exp_gain g pr (action pr) (stats st) = Inr s"
  then show "tick g pr st = tick_loop pr lp (st\<lparr>stats := s\<rparr>)"
    by (simp add: tick_def)
next
  assume "tick_run pr lp st = Some (Inr (d, w))"
  from tick_loop_of_run[OF this]
  show "\<exists>st'. tick_loop pr lp st = Some (Inr (st', tick_result d (w_segment w) (max_segments lp (action pr))))"
    by blast
next
  show "(\<not> truthy (tick_result d (w_segment w) (max_segments lp (action pr))))
             = (d = 0 \<or> \<not> below (w_segment w) (max_segments lp (action pr)))"
    by (rule tick_result_falsy)
qed

lemma before_tick_remainder:
  assumes "before_tick c x s = Some (x', s')"
  shows "x' < c s' \<and> (0 \<le> x \<longrightarrow> 0 \<le> x')"
proof -
  have "fst (x', s') < c (snd (x', s')) \<and> (0 \<le> x \<longrightarrow> 0 \<le> fst (x', s'))"
  proof (rule before_tick.raw_induct[where P = "\<lambda>c x s y. fst y < c (snd y) \<and> (0 \<le> x \<longrightarrow> 0 \<le> fst y)",
        OF _ assms])
    fix f :: "(int \<Rightarrow> real) \<Rightarrow> real \<Rightarrow> int \<Rightarrow> (real \<times> int) option" and c x s y
    assume ih: "\<And>c x s y. f c x s = Some y \<Longrightarrow> fst y < c (snd y) \<and> (0 \<le> x \<longrightarrow> 0 \<le> fst y)"
      and unfold: "(if c s \<le> x then f c (x - c s) (s + 1) else Some (x, s)) = Some y"
    show "fst y < c (snd y) \<and> (0 \<le> x \<longrightarrow> 0 \<le> fst y)"
    proof (cases "c s \<le> x")
      case True
      with unfold have "f c (x - c s) (s + 1) = Some y" by simp
      from ih[OF this] True show ?thesis by simp
    next
      case False
      with unfold have "y = (x, s)" by simp
      with False show ?thesis by simp
    qed
  qed
  then show ?thesis by simp
qed

lemma after_tick_progress:
  assumes "after_tick lp a m w = Some w'"
  shows "progress (w_progression w') = progress (w_progression w) \<or> progress (w_progression w') = 0"
proof -
  let ?I = "\<lambda>v. progress (w_progression v) = progress (w_progression w) \<or> progress (w_progression v) = 0"
  have "?I (walk_next lp a (walk_body lp a v))" if "?I v" for v
    using that by (auto simp: walk_next_def walk_body_def complete_loop_def Let_def)
  with after_tick_invariant[OF assms, of ?I] show ?thesis by simp
qed

text \<open>
  C7, as amended. The stored progress counts from the start of the current loop: a tick
  either adds its progress to it or resets it to 0, so it stays at or above 0 as long as
  the progress of the ticks is not negative. What is below the cost of the current
  segment is the remainder that the first loop of a tick derives from it by subtracting
  the costs of the segments before the current one; that remainder is not negative when
  the stored progress is not.
\<close>

theorem stored_progress_bounds:
  "(before_tick c x 0 = Some (x', s') \<longrightarrow> x' < c s' \<and> (0 \<le> x \<longrightarrow> 0 \<le> x'))
   \<and> (tick_run pr lp st = Some (Inr (d, w)) \<and> progressions st (name pr) = Some p \<longrightarrow>
        (progress (w_progression w) = progress p + d \<or> progress (w_progression w) = 0)
        \<and> (0 \<le> progress p \<and> 0 \<le> d \<longrightarrow> 0 \<le> progress (w_progression w)))"
proof (intro conjI impI)
  assume "before_tick c x 0 = Some (x', s')"
  from before_tick_remainder[OF this] show "x' < c s'"
    by simp
next
  assume "before_tick c x 0 = Some (x', s')" and "0 \<le> x"
  with before_tick_remainder[of c x 0 x' s'] show "0 \<le> x'"
    by simp
next
  assume h: "tick_run pr lp st = Some (Inr (d, w)) \<and> progressions st (name pr) = Some p"
  then obtain q x0 s0 where q: "progressions st (name pr) = Some q"
    and a: "after_tick lp (action pr) (max_segments lp (action pr))
           \<lparr>w_progress = x0 + d, w_segment = s0, w_progression = q\<lparr>progress := progress q + d\<rparr>,
            w_resources = resources st, w_skills = skills st\<rparr> = Some w"
    by (blast elim: tick_runE)
  from after_tick_progress[OF a] q h
  show *: "progress (w_progression w) = progress p + d \<or> progress (w_progression w) = 0"
    by simp
  assume "0 \<le> progress p \<and> 0 \<le> d"
  with * show "0 \<le> progress (w_progression w)" by auto
qed

lemma after_tick_keeps_mana:
  assumes "after_tick lp a m w = Some w'" and "keeps_mana (e_segment lp)" and "keeps_mana (e_loop lp)"
  shows "w_resources w' ''mana'' = w_resources w ''mana''"
proof -
  let ?I = "\<lambda>v. w_resources v ''mana'' = w_resources w ''mana''"
  have "?I (walk_next lp a (walk_body lp a v))" if "?I v" for v
    using that assms(2,3)
    by (simp add: walk_next_def walk_body_def complete_loop_def Let_def keeps_mana_def)
  with after_tick_invariant[OF assms(1), of ?I] show ?thesis by simp
qed

lemma tick_stats:
  assumes "tick g pr st = Some (Inr (st', v))"
  shows "exp_gain g pr (action pr) (stats st) = Inr (stats st')"
proof (cases "exp_gain g pr (action pr) (stats st)")
  case (Inl e)
  with assms show ?thesis by (simp add: tick_def)
next
  case (Inr s)
  show ?thesis
  proof (cases "loop pr")
    case None
    with assms Inr show ?thesis by (auto simp: tick_def)
  next
    case (Some lp)
    with assms Inr have "tick_loop pr lp (st\<lparr>stats := s\<rparr>) = Some (Inr (st', v))"
      by (simp add: tick_def)
    then have "stats st' = s"
      by (auto simp: tick_loop_def split: option.splits sum.splits prod.splits)
    with Inr show ?thesis by simp
  qed
qed

lemma tick_keeps_mana:
  assumes "tick g pr st = Some (Inr (st', v))"
    and "\<forall>lp. loop pr = Some lp \<longrightarrow> keeps_mana (e_segment lp) \<and> keeps_mana (e_loop lp)"
  shows "resources st' ''mana'' = resources st ''mana''"
proof (cases "loop pr")
  case None
  with assms(1) show ?thesis by (auto simp: tick_def split: sum.splits)
next
  case (Some lp)
  with assms(1) obtain s where t: "tick_loop pr lp (st\<lparr>stats := s\<rparr>) = Some (Inr (st', v))"
    by (auto simp: tick_def split: sum.splits)
  then obtain d w where r: "tick_run pr lp (st\<lparr>stats := s\<rparr>) = Some (Inr (d, w))"
    and st': "resources st' = w_resources w"
    by (auto simp: tick_loop_def split: option.splits sum.splits prod.splits)
  from r obtain q x0 s0 where
    a: "after_tick lp (action pr) (max_segments lp (action pr))
           \<lparr>w_progress = x0 + d, w_segment = s0, w_progression = q\<lparr>progress := progress q + d\<rparr>,
            w_resources = resources (st\<lparr>stats := s\<rparr>), w_skills = skills (st\<lparr>stats := s\<rparr>)\<rparr> = Some w"
    by (blast elim: tick_runE)
  from assms(2) Some have "keeps_mana (e_segment lp)" "keeps_mana (e_loop lp)" by simp_all
  from after_tick_keeps_mana[OF a this] st' show ?thesis by simp
qed

text \<open>
  C10. Each tick of a repetition runs on the resources with the mana already reduced by
  1, and its experience is added whether or not the tick stops the repetition. When the
  tick returns a falsy value the repetition ends with the state that this tick left,
  which holds the experience of the tick and, where the effects of the loop leave the
  mana alone, a mana lower by 1.
\<close>

theorem stopping_tick_is_paid:
  assumes "resources st ''mana'' = Some m"
    and "tick g pr (st\<lparr>resources := (resources st)(''mana'' \<mapsto> m - 1)\<rparr>) = Some (Inr (st1, v))"
  shows "(\<not> truthy v \<longrightarrow> predict_ticks g pr (Suc n) st = Some (Inr st1))
         \<and> (truthy v \<longrightarrow> predict_ticks g pr (Suc n) st = predict_ticks g pr n st1)
         \<and> exp_gain g pr (action pr) (stats st) = Inr (stats st1)
         \<and> ((\<forall>lp. loop pr = Some lp \<longrightarrow> keeps_mana (e_segment lp) \<and> keeps_mana (e_loop lp))
              \<longrightarrow> resources st1 ''mana'' = Some (m - 1))"
proof (intro conjI impI)
  assume "\<not> truthy v"
  with assms show "predict_ticks g pr (Suc n) st = Some (Inr st1)" by simp
next
  assume "truthy v"
  with assms show "predict_ticks g pr (Suc n) st = predict_ticks g pr n st1" by simp
next
  from tick_stats[OF assms(2)] show "exp_gain g pr (action pr) (stats st) = Inr (stats st1)" by simp
next
  assume "\<forall>lp. loop pr = Some lp \<longrightarrow> keeps_mana (e_segment lp) \<and> keeps_mana (e_loop lp)"
  from tick_keeps_mana[OF assms(2) this] show "resources st1 ''mana'' = Some (m - 1)" by simp
qed

section \<open>Repetitions and entries\<close>

lemma account_flag:
  "account g lname pr c (rn\<lparr>r_isValid := False\<rparr>) st
     = map_sum id (\<lambda>r. r\<lparr>r_isValid := False\<rparr>) (account g lname pr c rn st)"
  by (simp add: account_def Let_def split: sum.splits)

lemma repetition_flag:
  "repetition g lname pr (rn\<lparr>r_isValid := False\<rparr>) = erase_flag (repetition g lname pr rn)"
  by (simp add: repetition_def erase_flag_def account_flag Let_def split: option.splits sum.splits)

lemma repetitions_flag:
  "repetitions g lname n pr (rn\<lparr>r_isValid := False\<rparr>) = erase_flag (repetitions g lname n pr rn)"
proof (induction n arbitrary: pr rn)
  case 0
  show ?case by (simp add: erase_flag_def)
next
  case (Suc n)
  show ?case
  proof (cases "can_start pr (resources (r_state rn))")
    case False
    then show ?thesis by (simp add: erase_flag_def)
  next
    case True
    show ?thesis
    proof (cases "repetition g lname pr rn")
      case None
      with True show ?thesis by (simp add: repetition_flag erase_flag_def)
    next
      case (Some x)
      show ?thesis
      proof (cases x)
        case (Inl e)
        with True Some show ?thesis by (simp add: repetition_flag erase_flag_def)
      next
        case (Inr y)
        obtain pr1 rn1 where "y = (pr1, rn1)" by (cases y)
        with True Some Inr Suc.IH[of pr1 rn1] show ?thesis
          by (simp add: repetition_flag) (simp add: erase_flag_def)
      qed
    qed
  qed
qed

lemma repetitions_sticky:
  assumes "repetitions g lname n pr rn = Some (Inr (pr', rn'))" and "\<not> r_isValid rn"
  shows "\<not> r_isValid rn'"
proof -
  from assms(2) have "rn\<lparr>r_isValid := False\<rparr> = rn" by simp
  with repetitions_flag[of g lname n pr rn] assms(1)
  have "rn' = rn'\<lparr>r_isValid := False\<rparr>"
    by (simp add: erase_flag_def)
  then have "r_isValid rn' = r_isValid (rn'\<lparr>r_isValid := False\<rparr>)"
    by simp
  then show ?thesis by simp
qed

text \<open>
  C4, as amended. The mana is tested once per repetition, after its ticks and before
  its effects: the flag of the entry stays true only if it was true and the mana is then
  at least 0. Once false, the flag stays false for the remaining repetitions of the
  entry, and these repetitions run exactly as they would with a true flag, so the run
  goes on spending mana.
\<close>

theorem validity_after_repetition:
  "(repetition g lname pr rn = Some (Inr (pr', rn')) \<longrightarrow>
      (\<exists>st. predict g pr (r_state rn) = Some (Inr (pr', st))
            \<and> r_isValid rn' = (r_isValid rn \<and> mana_ok (resources st))))
   \<and> (repetitions g lname n pr rn = Some (Inr (pr', rn')) \<and> \<not> r_isValid rn \<longrightarrow> \<not> r_isValid rn')
   \<and> repetitions g lname n pr (rn\<lparr>r_isValid := False\<rparr>)
        = map_option (map_sum id (\<lambda>y. (fst y, (snd y)\<lparr>r_isValid := False\<rparr>))) (repetitions g lname n pr rn)
   \<and> (entry g u x = Some (Inr u') \<and> u_predictions u (la_name x) = Some pr \<longrightarrow>
        (\<exists>pr' rn'. repetitions g (la_name x) (la_loops x) pr
                      \<lparr>r_state = seed_progress g pr (u_state u), r_total = u_total u,
                       r_totalTicks = u_totalTicks u, r_isValid = True\<rparr> = Some (Inr (pr', rn'))
                  \<and> rp_isValid (last (u_reports u')) = r_isValid rn'))"
proof (intro conjI impI)
  assume "repetition g lname pr rn = Some (Inr (pr', rn'))"
  then obtain st where p: "predict g pr (r_state rn) = Some (Inr (pr', st))"
    and a: "account g lname pr' (resources (r_state rn) ''mana'') rn st = Inr rn'"
    by (rule repetitionE)
  from a have "r_isValid rn' = (r_isValid rn \<and> mana_ok (resources st))"
    by (rule accountE) simp
  with p show "\<exists>st. predict g pr (r_state rn) = Some (Inr (pr', st))
            \<and> r_isValid rn' = (r_isValid rn \<and> mana_ok (resources st))"
    by blast
next
  assume "repetitions g lname n pr rn = Some (Inr (pr', rn')) \<and> \<not> r_isValid rn"
  then show "\<not> r_isValid rn'"
    using repetitions_sticky by blast
next
  show "repetitions g lname n pr (rn\<lparr>r_isValid := False\<rparr>)
        = map_option (map_sum id (\<lambda>y. (fst y, (snd y)\<lparr>r_isValid := False\<rparr>))) (repetitions g lname n pr rn)"
    using repetitions_flag[of g lname n pr rn] by (simp add: erase_flag_def)
next
  assume h: "entry g u x = Some (Inr u') \<and> u_predictions u (la_name x) = Some pr"
  then have "entry g u x = Some (Inr u')" by simp
  then show "\<exists>pr' rn'. repetitions g (la_name x) (la_loops x) pr
                      \<lparr>r_state = seed_progress g pr (u_state u), r_total = u_total u,
                       r_totalTicks = u_totalTicks u, r_isValid = True\<rparr> = Some (Inr (pr', rn'))
                  \<and> rp_isValid (last (u_reports u')) = r_isValid rn'"
  proof (cases rule: entryE)
    case skip
    with h show ?thesis by simp
  next
    case (run pr0 pr' rn')
    with h have "pr0 = pr" by simp
    with run show ?thesis by auto
  qed
qed

text \<open>
  C5. For the entry named "Adventure Guild" the amount added to the total is the mana
  before the repetition minus the mana after it lowered by \<open>adventures * 200\<close>. The mana
  is raised again by the same amount before the time is computed and the effects run,
  so the resources are those that the ticks left. For every other entry the amount is
  the plain difference.
\<close>

theorem guild_accounting:
  assumes "resources st ''mana'' = Some m" and "resources st ''adventures'' = Some adv"
  shows "account g ''Adventure Guild'' pr (Some c) rn st =
           Inr \<lparr>r_state = st\<lparr>resources := fst (run_effects pr (resources st, skills st)),
                             skills := snd (run_effects pr (resources st, skills st))\<rparr>,
                r_total = r_total rn + (c - (m - adv * 200)),
                r_totalTicks = r_totalTicks rn + time_spent g (resources st) (c - m),
                r_isValid = (r_isValid rn \<and> 0 \<le> m)\<rparr>
         \<and> (lname \<noteq> ''Adventure Guild'' \<longrightarrow>
              account g lname pr (Some c) rn st =
                Inr \<lparr>r_state = st\<lparr>resources := fst (run_effects pr (resources st, skills st)),
                                  skills := snd (run_effects pr (resources st, skills st))\<rparr>,
                     r_total = r_total rn + (c - m),
                     r_totalTicks = r_totalTicks rn + time_spent g (resources st) (c - m),
                     r_isValid = (r_isValid rn \<and> 0 \<le> m)\<rparr>)"
proof -
  have "(resources st)(''mana'' \<mapsto> m) = resources st"
    using assms(1) by (simp add: map_upd_triv)
  with assms show ?thesis
    by (simp add: account_def guild_minus_def guild_plus_def mana_used_def mana_ok_def Let_def)
qed

text \<open>
  C6. \<open>canStart\<close> is tested on the current resources before each repetition. When it is
  false no repetition of the entry runs any more, and the next test is made on the
  resources that the repetition before it left. When it is false before the first
  repetition, the entry leaves resources, stats, skills and totals as they were, reports
  the unchanged resources with a true validity flag, and the list goes on with the next
  entry.
\<close>

theorem canStart_gates_repetitions:
  "(\<not> can_start pr (resources (r_state rn)) \<longrightarrow> repetitions g lname n pr rn = Some (Inr (pr, rn)))
   \<and> (can_start pr (resources (r_state rn)) \<and> repetition g lname pr rn = Some (Inr (pr', rn')) \<longrightarrow>
        repetitions g lname (Suc n) pr rn = repetitions g lname n pr' rn'
        \<and> can_start pr' = can_start pr)
   \<and> (u_predictions u (la_name x) = Some pr \<and> \<not> can_start pr (resources (u_state u)) \<longrightarrow>
        (\<exists>u'. entry g u x = Some (Inr u')
           \<and> entries g (x # xs) u = entries g xs u'
           \<and> resources (u_state u') = resources (u_state u)
           \<and> stats (u_state u') = stats (u_state u)
           \<and> skills (u_state u') = skills (u_state u)
           \<and> u_total u' = u_total u
           \<and> u_totalTicks u' = u_totalTicks u
           \<and> rp_resources (last (u_reports u')) = resources (u_state u)
           \<and> rp_isValid (last (u_reports u'))))"
proof (intro conjI impI)
  assume "\<not> can_start pr (resources (r_state rn))"
  then show "repetitions g lname n pr rn = Some (Inr (pr, rn))"
    by (cases n) simp_all
next
  assume h: "can_start pr (resources (r_state rn)) \<and> repetition g lname pr rn = Some (Inr (pr', rn'))"
  then show "repetitions g lname (Suc n) pr rn = repetitions g lname n pr' rn'"
    by simp
  from h obtain st where "predict g pr (r_state rn) = Some (Inr (pr', st))"
    by (blast elim: repetitionE)
  then have "canStart pr' = canStart pr"
    by (rule predictE) simp
  then show "can_start pr' = can_start pr"
    by (simp add: can_start_def fun_eq_iff)
next
  assume h: "u_predictions u (la_name x) = Some pr \<and> \<not> can_start pr (resources (u_state u))"
  let ?rn = "\<lparr>r_state = seed_progress g pr (u_state u), r_total = u_total u,
              r_totalTicks = u_totalTicks u, r_isValid = True\<rparr>"
  have res: "resources (seed_progress g pr (u_state u)) = resources (u_state u)"
    "stats (seed_progress g pr (u_state u)) = stats (u_state u)"
    "skills (seed_progress g pr (u_state u)) = skills (u_state u)"
    by (simp_all add: seed_progress_def)
  with h have "repetitions g (la_name x) (la_loops x) pr ?rn = Some (Inr (pr, ?rn))"
    by (cases "la_loops x") simp_all
  with h res show "\<exists>u'. entry g u x = Some (Inr u')
           \<and> entries g (x # xs) u = entries g xs u'
           \<and> resources (u_state u') = resources (u_state u)
           \<and> stats (u_state u') = stats (u_state u)
           \<and> skills (u_state u') = skills (u_state u)
           \<and> u_total u' = u_total u
           \<and> u_totalTicks u' = u_totalTicks u
           \<and> rp_resources (last (u_reports u')) = resources (u_state u)
           \<and> rp_isValid (last (u_reports u'))"
    by (simp add: entry_def Let_def)
qed

section \<open>The example rules evaluated\<close>

lemma repetitions_numeral:
  "repetitions g lname (numeral k) pr rn =
     (if \<not> can_start pr (resources (r_state rn)) then Some (Inr (pr, rn))
      else case repetition g lname pr rn of
             None \<Rightarrow> None
           | Some (Inl err) \<Rightarrow> Some (Inl err)
           | Some (Inr (pr', rn')) \<Rightarrow> repetitions g lname (pred_numeral k) pr' rn')"
  by (simp add: numeral_eq_Suc)

lemmas tick_eval = tick_def tick_loop_def tick_run_def tick_result_def max_segments_def before_tick.simps
  after_tick.simps walk_cond_def walk_body_def walk_next_def complete_loop_def apply_effect_def below_def
  exp_gain_def exp_step_def ticks_def bump_def Let_def

lemma ps0_simps:
  "ps0 ''Wander'' = Some (Prediction g0 ''Wander'' no_params)"
  "ps0 ''Adventure Guild'' = Some (Prediction g0 ''Adventure Guild'' adventure_guild)"
  "ps0 ''Two Segments'' = Some (Prediction g0 ''Two Segments'' two_segments)"
  "ps0 ''Get Drunk'' = Some (Prediction g0 ''Get Drunk'' get_drunk)"
  "ps0 ''Haggle'' = Some (Prediction g0 ''Haggle'' haggle)"
  "ps0 ''Backslide'' = Some (Prediction g0 ''Backslide'' backslide)"
  "ps0 ''Imbue Mind'' = Some (Prediction g0 ''Imbue Mind'' imbue_mind)"
  by (simp_all add: ps0_def initPredictions_def catalogue_def)

lemma init0: "initial_state g0 = \<lparr>resources = [''mana'' \<mapsto> 250, ''town'' \<mapsto> 0],
      stats = [''dexterity'' \<mapsto> 0, ''strength'' \<mapsto> 0], skills = [''magic'' \<mapsto> 0], progressions = Map.empty\<rparr>"
  by (simp add: initial_state_def g0_def toLowerCase_def)

lemma time0: "time_spent g0 r x = x"
  by (simp add: time_spent_def g0_def)

lemma two_simps:
  "loop (Prediction g0 ''Two Segments'' two_segments) = Some two_loop"
  "effect (Prediction g0 ''Two Segments'' two_segments) = None"
  "canStart (Prediction g0 ''Two Segments'' two_segments) = CSTrue"
  "affected (Prediction g0 ''Two Segments'' two_segments) = [''gold'', ''rep'']"
  "name (Prediction g0 ''Two Segments'' two_segments) = ''Two Segments''"
  "action (Prediction g0 ''Two Segments'' two_segments) = loop_action 2 1 4"
  by (simp_all add: Prediction_def two_segments_def g0_def example_actions_def)

lemma g0_simps: "towns_total g0 = (\<lambda>_ _. 0)" "statList g0 = [''dexterity'', ''strength'']"
  "getTotalBonusXP g0 = (\<lambda>_. 1)" "getLevelFromExp g0 = example_level"
  by (simp_all add: g0_def)

lemmas update_eval = update_def all_affected_def init_resource_def entry_def seed_progress_def can_start_def
  repetition_def Let_def


lemma updateTicks_g0:
  assumes "astats a = [''strength'' \<mapsto> w]" and "s ''strength'' = Some e" and "0 \<le> e" and "e < 1000"
  shows "updateTicks g0 a s = \<lceil>manaCost a * w - 1 / 1000000\<rceil>"
proof -
  from assms(3,4) have "\<lfloor>e / 1000\<rfloor> = 0" by (simp add: floor_eq_iff)
  with assms(1,2) show ?thesis
    by (simp add: updateTicks_def g0_def cost_step_def example_level_def)
qed

lemma loop_action_simps:
  "astats (loop_action n w c) = [''strength'' \<mapsto> w]" "manaCost (loop_action n w c) = c"
  "expMult (loop_action n w c) = 1" "segments (loop_action n w c) = n"
  by (simp_all add: loop_action_def)

lemma guild_simps:
  "loop (Prediction g0 ''Adventure Guild'' adventure_guild) = Some guild_loop"
  "effect (Prediction g0 ''Adventure Guild'' adventure_guild) = None"
  "canStart (Prediction g0 ''Adventure Guild'' adventure_guild) = CSTrue"
  "affected (Prediction g0 ''Adventure Guild'' adventure_guild) = [''gold'', ''adventures'']"
  "name (Prediction g0 ''Adventure Guild'' adventure_guild) = ''Adventure Guild''"
  "action (Prediction g0 ''Adventure Guild'' adventure_guild) = loop_action 3 4 1"
  by (simp_all add: Prediction_def adventure_guild_def g0_def example_actions_def)

lemma exp_gain_g0:
  assumes "astats a = [''strength'' \<mapsto> w]" and "s ''strength'' = Some e" and "p_ticks pr \<noteq> 0"
  shows "exp_gain g0 pr a s
           = Inr (s(''strength'' \<mapsto> e + w * expMult a * (manaCost a / real_of_int (p_ticks pr))))"
  using assms by (simp add: exp_gain_def g0_def exp_step_def ticks_def)

lemma predict_ticks_plain:
  assumes "loop pr = None" and "astats (action pr) = [''strength'' \<mapsto> w]" and "p_ticks pr \<noteq> 0"
    and "resources st ''mana'' = Some m" and "stats st ''strength'' = Some e"
  shows "predict_ticks g0 pr n st =
           Some (Inr (st\<lparr>resources := (resources st)(''mana'' \<mapsto> m - real n),
                         stats := (stats st)(''strength'' \<mapsto>
                            e + real n * (w * expMult (action pr) * (manaCost (action pr) / real_of_int (p_ticks pr))))\<rparr>))"
proof -
  define d where "d = w * expMult (action pr) * (manaCost (action pr) / real_of_int (p_ticks pr))"
  have "predict_ticks g0 pr n st =
           Some (Inr (st\<lparr>resources := (resources st)(''mana'' \<mapsto> m - real n),
                         stats := (stats st)(''strength'' \<mapsto> e + real n * d)\<rparr>))"
    using assms(4,5)
  proof (induction n arbitrary: st m e)
    case 0
    then show ?case by (simp add: map_upd_triv)
  next
    case (Suc n)
    let ?st1 = "st\<lparr>resources := (resources st)(''mana'' \<mapsto> m - 1)\<rparr>"
    let ?st2 = "?st1\<lparr>stats := (stats st)(''strength'' \<mapsto> e + d)\<rparr>"
    have t: "tick g0 pr ?st1 = Some (Inr (?st2, JBool True))"
      using assms(1) exp_gain_g0[of "action pr" w "stats st" e pr, OF assms(2) Suc.prems(2) assms(3)]
      by (simp add: tick_def d_def)
    have "predict_ticks g0 pr (Suc n) st = predict_ticks g0 pr n ?st2"
      using Suc.prems(1) t by simp
    also have "\<dots> = Some (Inr (?st2\<lparr>resources := (resources ?st2)(''mana'' \<mapsto> m - 1 - real n),
                         stats := (stats ?st2)(''strength'' \<mapsto> e + d + real n * d)\<rparr>))"
      by (rule Suc.IH) simp_all
    also have "\<dots> = Some (Inr (st\<lparr>resources := (resources st)(''mana'' \<mapsto> m - real (Suc n)),
                         stats := (stats st)(''strength'' \<mapsto> e + real (Suc n) * d)\<rparr>))"
      by (simp add: algebra_simps)
    finally show ?case .
  qed
  then show ?thesis by (simp add: d_def)
qed

lemma predict_plain:
  assumes "loop pr = None" and "astats (action pr) = [''strength'' \<mapsto> w]"
    and "resources st ''mana'' = Some m" and "stats st ''strength'' = Some e"
    and "updateTicks g0 (action pr) (stats st) = t" and "0 < t"
  shows "predict g0 pr st =
           Some (Inr (pr\<lparr>p_ticks := t\<rparr>,
                      st\<lparr>resources := (resources st)(''mana'' \<mapsto> m - real_of_int t),
                         stats := (stats st)(''strength'' \<mapsto>
                            e + w * expMult (action pr) * manaCost (action pr))\<rparr>))"
proof -
  let ?pr = "pr\<lparr>p_ticks := t\<rparr>"
  have "predict_ticks g0 ?pr (nat t) st =
           Some (Inr (st\<lparr>resources := (resources st)(''mana'' \<mapsto> m - real (nat t)),
                         stats := (stats st)(''strength'' \<mapsto>
                            e + real (nat t) * (w * expMult (action ?pr) * (manaCost (action ?pr) / real_of_int (p_ticks ?pr))))\<rparr>))"
    using assms by (intro predict_ticks_plain) simp_all
  moreover have "real (nat t) = real_of_int t" using assms(6) by simp
  ultimately show ?thesis
    using assms(5,6) by (simp add: predict_def ticks_def)
qed

lemma wander_simps:
  "loop (Prediction g0 ''Wander'' no_params) = None"
  "effect (Prediction g0 ''Wander'' no_params) = None"
  "canStart (Prediction g0 ''Wander'' no_params) = CSTrue"
  "affected (Prediction g0 ''Wander'' no_params) = []"
  "name (Prediction g0 ''Wander'' no_params) = ''Wander''"
  "action (Prediction g0 ''Wander'' no_params) = plain_action 124 2"
  by (simp_all add: Prediction_def no_params_def g0_def example_actions_def)

lemma plain_action_simps:
  "astats (plain_action w c) = [''strength'' \<mapsto> w]" "manaCost (plain_action w c) = c" "expMult (plain_action w c) = 1"
  by (simp_all add: plain_action_def)


lemma predict_looping:
  "loop pr = Some lp \<Longrightarrow>
   predict g pr st =
     (case ticks (pr\<lparr>p_ticks := updateTicks g (action pr) (stats st)\<rparr>) of
        Inl err \<Rightarrow> Some (Inl err)
      | Inr n \<Rightarrow>
          (case predict_ticks g (pr\<lparr>p_ticks := updateTicks g (action pr) (stats st)\<rparr>) (nat n) st of
             None \<Rightarrow> None
           | Some (Inl err) \<Rightarrow> Some (Inl err)
           | Some (Inr st') \<Rightarrow> Some (Inr (pr\<lparr>p_ticks := updateTicks g (action pr) (stats st)\<rparr>, st'))))"
  by (simp add: predict_def Let_def)

lemmas engine_eval = update_def all_affected_def init_resource_def entry_def seed_progress_def can_start_def
  repetition_def account_def guild_minus_def guild_plus_def mana_used_def mana_ok_def run_effects_def
  time0 predict_looping Snapshot_def snap_def init_def compare_def Let_def
  repetitions_numeral predict_ticks_numeral tick_eval


lemma backslide_simps:
  "loop (Prediction g0 ''Backslide'' backslide) = Some backslide_loop"
  "name (Prediction g0 ''Backslide'' backslide) = ''Backslide''"
  "action (Prediction g0 ''Backslide'' backslide) = loop_action 2 1 4"
  by (simp_all add: Prediction_def backslide_def g0_def example_actions_def)

lemma imbue_simps:
  "loop (Prediction g0 ''Imbue Mind'' imbue_mind) = Some imbue_loop"
  "name (Prediction g0 ''Imbue Mind'' imbue_mind) = ''Imbue Mind''"
  "action (Prediction g0 ''Imbue Mind'' imbue_mind) = loop_action 3 1 4"
  by (simp_all add: Prediction_def imbue_mind_def g0_def example_actions_def)

lemma drunk_simps:
  "loop (Prediction g0 ''Get Drunk'' get_drunk) = None"
  "effect (Prediction g0 ''Get Drunk'' get_drunk) = Some (\<lambda>r k. (bump ''rep'' (- 1) r, k))"
  "canStart (Prediction g0 ''Get Drunk'' get_drunk)
     = CSFun (\<lambda>input. case input ''rep'' of None \<Rightarrow> False | Some v \<Rightarrow> v \<ge> - 3)"
  "affected (Prediction g0 ''Get Drunk'' get_drunk) = [''rep'']"
  "name (Prediction g0 ''Get Drunk'' get_drunk) = ''Get Drunk''"
  "action (Prediction g0 ''Get Drunk'' get_drunk) = plain_action 10 1"
  by (simp_all add: Prediction_def get_drunk_def g0_def example_actions_def)

lemma haggle_simps:
  "loop (Prediction g0 ''Haggle'' haggle) = None"
  "canStart (Prediction g0 ''Haggle'' haggle)
     = CSFun (\<lambda>input. case input ''rep'' of None \<Rightarrow> False | Some v \<Rightarrow> v > 0)"
  "affected (Prediction g0 ''Haggle'' haggle) = [''rep'']"
  "name (Prediction g0 ''Haggle'' haggle) = ''Haggle''"
  "action (Prediction g0 ''Haggle'' haggle) = plain_action 10 1"
  by (simp_all add: Prediction_def haggle_def g0_def example_actions_def)


lemma two_predict:
  "map_option (map_sum id (\<lambda>x. (progressions (snd x) ''Two Segments'',
                                  resources (snd x) ''gold'', resources (snd x) ''rep'', resources (snd x) ''mana'')))
     (predict g0 (Prediction g0 ''Two Segments'' two_segments)
        (seed_progress g0 (Prediction g0 ''Two Segments'' two_segments) (start_state [''gold'', ''rep''])))
   = Some (Inr (Some \<lparr>progress = 0, completed = 2, total = 1\<rparr>, Some 40, Some 3, Some 246))"
  by (simp add: start_state_def init0 init_resource_def seed_progress_def predict_looping two_simps g0_simps
        loop_action_simps two_loop_def updateTicks_g0[where w=1 and e=0] ceiling_eq_iff
        predict_ticks_numeral tick_eval)

text \<open>
  "Two Segments" with four ticks for each repetition: the second tick crosses the first
  segment (20 gold), the fourth tick crosses the second segment and completes the loop
  (3 rep, 20 gold), and the four ticks together complete one loop out of 200 units.
  These four ticks are the repetition that \<open>predict\<close> runs from the seeded start state.
\<close>

theorem loop_completes_witness:
  "loop (Prediction g0 ''Two Segments'' two_segments\<lparr>p_ticks := 4\<rparr>) = Some two_loop
   \<and> after_tick two_loop (loop_action 2 1 4) None
        \<lparr>w_progress = 100, w_segment = 0, w_progression = \<lparr>progress = 100, completed = 0, total = 0\<rparr>,
         w_resources = [''town'' \<mapsto> 0, ''rep'' \<mapsto> 0, ''gold'' \<mapsto> 0, ''mana'' \<mapsto> 248],
         w_skills = [''magic'' \<mapsto> 0]\<rparr>
     = after_tick two_loop (loop_action 2 1 4) None
        \<lparr>w_progress = 0, w_segment = 1, w_progression = \<lparr>progress = 100, completed = 0, total = 0\<rparr>,
         w_resources = [''town'' \<mapsto> 0, ''rep'' \<mapsto> 0, ''mana'' \<mapsto> 248, ''gold'' \<mapsto> 20],
         w_skills = [''magic'' \<mapsto> 0]\<rparr>
   \<and> tick g0 (Prediction g0 ''Two Segments'' two_segments\<lparr>p_ticks := 4\<rparr>)
        \<lparr>resources = [''town'' \<mapsto> 0, ''rep'' \<mapsto> 0, ''gold'' \<mapsto> 0, ''mana'' \<mapsto> 248],
         stats = [''dexterity'' \<mapsto> 0, ''strength'' \<mapsto> 1], skills = [''magic'' \<mapsto> 0],
         progressions = [''Two Segments'' \<mapsto> \<lparr>progress = 50, completed = 0, total = 0\<rparr>]\<rparr>
     = Some (Inr (\<lparr>resources = [''town'' \<mapsto> 0, ''rep'' \<mapsto> 0, ''mana'' \<mapsto> 248, ''gold'' \<mapsto> 20],
                   stats = [''dexterity'' \<mapsto> 0, ''strength'' \<mapsto> 2], skills = [''magic'' \<mapsto> 0],
                   progressions = [''Two Segments'' \<mapsto> \<lparr>progress = 100, completed = 0, total = 0\<rparr>]\<rparr>,
                  JBool True))
   \<and> after_tick two_loop (loop_action 2 1 4) None
        \<lparr>w_progress = 100, w_segment = 1, w_progression = \<lparr>progress = 200, completed = 0, total = 0\<rparr>,
         w_resources = [''town'' \<mapsto> 0, ''rep'' \<mapsto> 0, ''gold'' \<mapsto> 20, ''mana'' \<mapsto> 246],
         w_skills = [''magic'' \<mapsto> 0]\<rparr>
     = after_tick two_loop (loop_action 2 1 4) None
        \<lparr>w_progress = 0, w_segment = 0, w_progression = \<lparr>progress = 0, completed = 2, total = 1\<rparr>,
         w_resources = [''town'' \<mapsto> 0, ''mana'' \<mapsto> 246, ''rep'' \<mapsto> 3, ''gold'' \<mapsto> 40],
         w_skills = [''magic'' \<mapsto> 0]\<rparr>
   \<and> tick g0 (Prediction g0 ''Two Segments'' two_segments\<lparr>p_ticks := 4\<rparr>)
        \<lparr>resources = [''town'' \<mapsto> 0, ''rep'' \<mapsto> 0, ''gold'' \<mapsto> 20, ''mana'' \<mapsto> 246],
         stats = [''dexterity'' \<mapsto> 0, ''strength'' \<mapsto> 3], skills = [''magic'' \<mapsto> 0],
         progressions = [''Two Segments'' \<mapsto> \<lparr>progress = 150, completed = 0, total = 0\<rparr>]\<rparr>
     = Some (Inr (\<lparr>resources = [''town'' \<mapsto> 0, ''mana'' \<mapsto> 246, ''rep'' \<mapsto> 3, ''gold'' \<mapsto> 40],
                   stats = [''dexterity'' \<mapsto> 0, ''strength'' \<mapsto> 4], skills = [''magic'' \<mapsto> 0],
                   progressions = [''Two Segments'' \<mapsto> \<lparr>progress = 0, completed = 2, total = 1\<rparr>]\<rparr>,
                  JBool True))
   \<and> predict_ticks g0 (Prediction g0 ''Two Segments'' two_segments\<lparr>p_ticks := 4\<rparr>) 4
        \<lparr>resources = [''town'' \<mapsto> 0, ''rep'' \<mapsto> 0, ''gold'' \<mapsto> 0, ''mana'' \<mapsto> 250],
         stats = [''dexterity'' \<mapsto> 0, ''strength'' \<mapsto> 0], skills = [''magic'' \<mapsto> 0],
         progressions = [''Two Segments'' \<mapsto> \<lparr>progress = 0, completed = 0, total = 0\<rparr>]\<rparr>
     = Some (Inr \<lparr>resources = [''town'' \<mapsto> 0, ''mana'' \<mapsto> 246, ''rep'' \<mapsto> 3, ''gold'' \<mapsto> 40],
                  stats = [''dexterity'' \<mapsto> 0, ''strength'' \<mapsto> 4], skills = [''magic'' \<mapsto> 0],
                  progressions = [''Two Segments'' \<mapsto> \<lparr>progress = 0, completed = 2, total = 1\<rparr>]\<rparr>)
   \<and> map_option (map_sum id (\<lambda>x. (progressions (snd x) ''Two Segments'',
                                  resources (snd x) ''gold'', resources (snd x) ''rep'', resources (snd x) ''mana'')))
        (predict g0 (Prediction g0 ''Two Segments'' two_segments)
           (seed_progress g0 (Prediction g0 ''Two Segments'' two_segments) (start_state [''gold'', ''rep''])))
     = Some (Inr (Some \<lparr>progress = 0, completed = 2, total = 1\<rparr>, Some 40, Some 3, Some 246))"
proof -
  let ?pr = "Prediction g0 ''Two Segments'' two_segments\<lparr>p_ticks := 4\<rparr>"
  let ?a = "loop_action 2 1 4"
  let ?st0 = "\<lparr>resources = [''town'' \<mapsto> 0, ''rep'' \<mapsto> 0, ''gold'' \<mapsto> 0, ''mana'' \<mapsto> 250],
         stats = [''dexterity'' \<mapsto> 0, ''strength'' \<mapsto> 0], skills = [''magic'' \<mapsto> 0],
         progressions = [''Two Segments'' \<mapsto> \<lparr>progress = 0, completed = 0, total = 0\<rparr>]\<rparr>"
  let ?st2 = "\<lparr>resources = [''town'' \<mapsto> 0, ''rep'' \<mapsto> 0, ''gold'' \<mapsto> 0, ''mana'' \<mapsto> 248],
         stats = [''dexterity'' \<mapsto> 0, ''strength'' \<mapsto> 1], skills = [''magic'' \<mapsto> 0],
         progressions = [''Two Segments'' \<mapsto> \<lparr>progress = 50, completed = 0, total = 0\<rparr>]\<rparr>"
  let ?st4 = "\<lparr>resources = [''town'' \<mapsto> 0, ''rep'' \<mapsto> 0, ''gold'' \<mapsto> 20, ''mana'' \<mapsto> 246],
         stats = [''dexterity'' \<mapsto> 0, ''strength'' \<mapsto> 3], skills = [''magic'' \<mapsto> 0],
         progressions = [''Two Segments'' \<mapsto> \<lparr>progress = 150, completed = 0, total = 0\<rparr>]\<rparr>"
  let ?w2 = "\<lparr>w_progress = 100, w_segment = 0, w_progression = \<lparr>progress = 100, completed = 0, total = 0\<rparr>,
         w_resources = [''town'' \<mapsto> 0, ''rep'' \<mapsto> 0, ''gold'' \<mapsto> 0, ''mana'' \<mapsto> 248],
         w_skills = [''magic'' \<mapsto> 0]\<rparr>"
  let ?w2' = "\<lparr>w_progress = 0, w_segment = 1, w_progression = \<lparr>progress = 100, completed = 0, total = 0\<rparr>,
         w_resources = [''town'' \<mapsto> 0, ''rep'' \<mapsto> 0, ''mana'' \<mapsto> 248, ''gold'' \<mapsto> 20],
         w_skills = [''magic'' \<mapsto> 0]\<rparr>"
  let ?w4 = "\<lparr>w_progress = 100, w_segment = 1, w_progression = \<lparr>progress = 200, completed = 0, total = 0\<rparr>,
         w_resources = [''town'' \<mapsto> 0, ''rep'' \<mapsto> 0, ''gold'' \<mapsto> 20, ''mana'' \<mapsto> 246],
         w_skills = [''magic'' \<mapsto> 0]\<rparr>"
  have l: "loop ?pr = Some two_loop" and a: "action ?pr = ?a" and nm: "name ?pr = ''Two Segments''"
    and t: "ticks ?pr = Inr 4"
    by (simp_all add: two_simps ticks_def)
  have e: "exp_gain g0 ?pr ?a [''dexterity'' \<mapsto> 0, ''strength'' \<mapsto> 0] = Inr [''dexterity'' \<mapsto> 0, ''strength'' \<mapsto> 1]"
    "exp_gain g0 ?pr ?a [''dexterity'' \<mapsto> 0, ''strength'' \<mapsto> 1] = Inr [''dexterity'' \<mapsto> 0, ''strength'' \<mapsto> 2]"
    "exp_gain g0 ?pr ?a [''dexterity'' \<mapsto> 0, ''strength'' \<mapsto> 2] = Inr [''dexterity'' \<mapsto> 0, ''strength'' \<mapsto> 3]"
    "exp_gain g0 ?pr ?a [''dexterity'' \<mapsto> 0, ''strength'' \<mapsto> 3] = Inr [''dexterity'' \<mapsto> 0, ''strength'' \<mapsto> 4]"
    by (simp_all add: exp_gain_def exp_step_def ticks_def loop_action_simps g0_simps)
  have c2: "walk_cond two_loop ?a None ?w2" and c4: "walk_cond two_loop ?a None ?w4"
    by (simp_all add: walk_cond_def below_def two_loop_def)
  from loop_completes[where lp = two_loop and a = ?a and maxSegments = None and w = ?w2, THEN conjunct2, THEN conjunct2, THEN conjunct1] c2
  have 1: "after_tick two_loop ?a None ?w2 = after_tick two_loop ?a None ?w2'"
    by (simp add: loop_action_simps two_loop_def apply_effect_def bump_def)
  have s2: "after_tick two_loop ?a None ?w2' = Some ?w2'"
    by (simp add: after_tick.simps walk_cond_def two_loop_def)
  have b2: "before_tick (l_cost two_loop \<lparr>progress = 50, completed = 0, total = 0\<rparr> ?a) 50 0 = Some (50, 0)"
    by (simp add: before_tick.simps two_loop_def)
  from loop_completes[where pr = ?pr and lp = two_loop and g = g0 and st = ?st2
      and s = "[''dexterity'' \<mapsto> 0, ''strength'' \<mapsto> 2]"
      and p = "\<lparr>progress = 50, completed = 0, total = 0\<rparr>" and ?x0.0 = 50 and ?s0.0 = 0 and t = 4
      and d = 50 and w' = ?w2', THEN conjunct1] l e(2) b2 t 1 s2
  have 2: "tick g0 ?pr ?st2
     = Some (Inr (\<lparr>resources = [''town'' \<mapsto> 0, ''rep'' \<mapsto> 0, ''mana'' \<mapsto> 248, ''gold'' \<mapsto> 20],
                   stats = [''dexterity'' \<mapsto> 0, ''strength'' \<mapsto> 2], skills = [''magic'' \<mapsto> 0],
                   progressions = [''Two Segments'' \<mapsto> \<lparr>progress = 100, completed = 0, total = 0\<rparr>]\<rparr>,
                  JBool True))"
    by (simp add: a nm loop_action_simps two_loop_def tick_result_def max_segments_def below_def)
  from loop_completes[where lp = two_loop and a = ?a and maxSegments = None and w = ?w4, THEN conjunct2, THEN conjunct1] c4
  have 3: "after_tick two_loop ?a None ?w4 = after_tick two_loop ?a None
        \<lparr>w_progress = 0, w_segment = 0, w_progression = \<lparr>progress = 0, completed = 2, total = 1\<rparr>,
         w_resources = [''town'' \<mapsto> 0, ''mana'' \<mapsto> 246, ''rep'' \<mapsto> 3, ''gold'' \<mapsto> 40],
         w_skills = [''magic'' \<mapsto> 0]\<rparr>"
    by (simp add: loop_action_simps two_loop_def apply_effect_def bump_def)
  have b4: "before_tick (l_cost two_loop \<lparr>progress = 150, completed = 0, total = 0\<rparr> ?a) 150 0
              = Some (50, segments ?a - 1)"
    by (simp add: before_tick.simps two_loop_def loop_action_simps)
  from loop_completes[where pr = ?pr and lp = two_loop and g = g0 and st = ?st4
      and s = "[''dexterity'' \<mapsto> 0, ''strength'' \<mapsto> 4]"
      and p = "\<lparr>progress = 150, completed = 0, total = 0\<rparr>" and ?x0.0 = 50 and t = 4
      and d = 50 and p' = "\<lparr>progress = 0, completed = 2, total = 1\<rparr>", THEN conjunct2, THEN conjunct2, THEN conjunct2, THEN conjunct1] l e(4) b4 t
  have 4: "tick g0 ?pr ?st4
     = Some (Inr (\<lparr>resources = [''town'' \<mapsto> 0, ''mana'' \<mapsto> 246, ''rep'' \<mapsto> 3, ''gold'' \<mapsto> 40],
                   stats = [''dexterity'' \<mapsto> 0, ''strength'' \<mapsto> 4], skills = [''magic'' \<mapsto> 0],
                   progressions = [''Two Segments'' \<mapsto> \<lparr>progress = 0, completed = 2, total = 1\<rparr>]\<rparr>,
                  JBool True))"
    by (simp add: a nm loop_action_simps two_loop_def tick_result_def max_segments_def below_def
          apply_effect_def bump_def)
  from loop_completes[where pr = ?pr and lp = two_loop and g = g0 and st = ?st0 and t = 4
      and ?s1.0 = "[''dexterity'' \<mapsto> 0, ''strength'' \<mapsto> 1]"
      and ?s2.0 = "[''dexterity'' \<mapsto> 0, ''strength'' \<mapsto> 2]"
      and ?s3.0 = "[''dexterity'' \<mapsto> 0, ''strength'' \<mapsto> 3]"
      and ?s4.0 = "[''dexterity'' \<mapsto> 0, ''strength'' \<mapsto> 4]"
      and q = "\<lparr>progress = 0, completed = 0, total = 0\<rparr>" and m = 250 and m' = 248, THEN conjunct2, THEN conjunct2, THEN conjunct2, THEN conjunct2] l e t
  have 5: "predict_ticks g0 ?pr 4 ?st0
     = Some (Inr \<lparr>resources = [''town'' \<mapsto> 0, ''mana'' \<mapsto> 246, ''rep'' \<mapsto> 3, ''gold'' \<mapsto> 40],
                  stats = [''dexterity'' \<mapsto> 0, ''strength'' \<mapsto> 4], skills = [''magic'' \<mapsto> 0],
                  progressions = [''Two Segments'' \<mapsto> \<lparr>progress = 0, completed = 2, total = 1\<rparr>]\<rparr>)"
    by (simp add: a nm loop_action_simps two_loop_def apply_effect_def bump_def)
  from l 1 2 3 4 5 two_predict show ?thesis
    by (intro conjI)
qed


text \<open>
  C3 as stated fails for a negative progress: the first tick of "Backslide" has a
  progress of \<open>-50\<close>, its segment index is below the limit, and it returns \<open>true\<close>.
\<close>

theorem negative_progress_continues:
  "loop (Prediction g0 ''Backslide'' backslide\<lparr>p_ticks := 4\<rparr>) = Some backslide_loop
   \<and> map_option (map_sum id fst)
        (tick_run (Prediction g0 ''Backslide'' backslide\<lparr>p_ticks := 4\<rparr>) backslide_loop
           (seed_progress g0 (Prediction g0 ''Backslide'' backslide) (start_state [])))
      = Some (Inr (- 50))
   \<and> map_option (map_sum id (\<lambda>x. below (w_segment (snd x))
                      (max_segments backslide_loop (action (Prediction g0 ''Backslide'' backslide)))))
        (tick_run (Prediction g0 ''Backslide'' backslide\<lparr>p_ticks := 4\<rparr>) backslide_loop
           (seed_progress g0 (Prediction g0 ''Backslide'' backslide) (start_state [])))
      = Some (Inr True)
   \<and> map_option (map_sum id snd)
        (tick g0 (Prediction g0 ''Backslide'' backslide\<lparr>p_ticks := 4\<rparr>)
           (seed_progress g0 (Prediction g0 ''Backslide'' backslide) (start_state [])))
      = Some (Inr (JBool True))"
  by (simp add: start_state_def init0 seed_progress_def backslide_simps g0_simps
        loop_action_simps backslide_loop_def tick_eval)


lemma imbue_tick_run:
  "tick_run (Prediction g0 ''Imbue Mind'' imbue_mind\<lparr>p_ticks := 4\<rparr>) imbue_loop
     \<lparr>resources = [''town'' \<mapsto> 0, ''mind'' \<mapsto> 0, ''mana'' \<mapsto> 249],
      stats = [''dexterity'' \<mapsto> 0, ''strength'' \<mapsto> 1], skills = [''magic'' \<mapsto> 0],
      progressions = [''Imbue Mind'' \<mapsto> fresh]\<rparr>
   = Some (Inr (0, \<lparr>w_progress = 0, w_segment = 0, w_progression = fresh,
                     w_resources = [''town'' \<mapsto> 0, ''mind'' \<mapsto> 0, ''mana'' \<mapsto> 249],
                     w_skills = [''magic'' \<mapsto> 0]\<rparr>))"
  by (simp add: fresh_def imbue_simps loop_action_simps imbue_loop_def example_level_def tick_run_def
        before_tick.simps after_tick.simps walk_cond_def max_segments_def below_def ticks_def)

lemma imbue_tick:
  "tick g0 (Prediction g0 ''Imbue Mind'' imbue_mind\<lparr>p_ticks := 4\<rparr>)
     \<lparr>resources = [''town'' \<mapsto> 0, ''mind'' \<mapsto> 0, ''mana'' \<mapsto> 249],
      stats = [''dexterity'' \<mapsto> 0, ''strength'' \<mapsto> 0], skills = [''magic'' \<mapsto> 0],
      progressions = [''Imbue Mind'' \<mapsto> fresh]\<rparr>
   = Some (Inr (\<lparr>resources = [''town'' \<mapsto> 0, ''mind'' \<mapsto> 0, ''mana'' \<mapsto> 249],
                 stats = [''dexterity'' \<mapsto> 0, ''strength'' \<mapsto> 1], skills = [''magic'' \<mapsto> 0],
                 progressions = [''Imbue Mind'' \<mapsto> fresh]\<rparr>, JNum 0))"
  by (simp add: tick_def tick_loop_def imbue_tick_run tick_result_def exp_gain_def exp_step_def ticks_def
        imbue_simps loop_action_simps g0_simps)

lemma wander_tick:
  "tick g0 (Prediction g0 ''Wander'' no_params\<lparr>p_ticks := 248\<rparr>) (start_state [])
   = Some (Inr ((start_state [])\<lparr>stats := [''dexterity'' \<mapsto> 0, ''strength'' \<mapsto> 1]\<rparr>, JBool True))"
  by (simp add: tick_def exp_gain_def exp_step_def ticks_def wander_simps plain_action_simps g0_simps
        start_state_def init0)

text \<open>
  A tick of "Wander", which has no loop, returns \<open>true\<close>; the first tick of
  "Imbue Mind" has progress 0 and returns the falsy 0.
\<close>

theorem tick_stops_iff_witness:
  "loop (Prediction g0 ''Wander'' no_params\<lparr>p_ticks := 248\<rparr>) = None
   \<and> tick g0 (Prediction g0 ''Wander'' no_params\<lparr>p_ticks := 248\<rparr>) (start_state [])
       = Some (Inr ((start_state [])\<lparr>stats := [''dexterity'' \<mapsto> 0, ''strength'' \<mapsto> 1]\<rparr>, JBool True))
   \<and> tick_run (Prediction g0 ''Imbue Mind'' imbue_mind\<lparr>p_ticks := 4\<rparr>) imbue_loop
        \<lparr>resources = [''town'' \<mapsto> 0, ''mind'' \<mapsto> 0, ''mana'' \<mapsto> 249],
         stats = [''dexterity'' \<mapsto> 0, ''strength'' \<mapsto> 1], skills = [''magic'' \<mapsto> 0],
         progressions = [''Imbue Mind'' \<mapsto> fresh]\<rparr>
       = Some (Inr (0, \<lparr>w_progress = 0, w_segment = 0, w_progression = fresh,
                         w_resources = [''town'' \<mapsto> 0, ''mind'' \<mapsto> 0, ''mana'' \<mapsto> 249],
                         w_skills = [''magic'' \<mapsto> 0]\<rparr>))
   \<and> \<not> truthy (tick_result 0 0 (max_segments imbue_loop (action (Prediction g0 ''Imbue Mind'' imbue_mind\<lparr>p_ticks := 4\<rparr>))))
   \<and> tick g0 (Prediction g0 ''Imbue Mind'' imbue_mind\<lparr>p_ticks := 4\<rparr>)
        \<lparr>resources = [''town'' \<mapsto> 0, ''mind'' \<mapsto> 0, ''mana'' \<mapsto> 249],
         stats = [''dexterity'' \<mapsto> 0, ''strength'' \<mapsto> 0], skills = [''magic'' \<mapsto> 0],
         progressions = [''Imbue Mind'' \<mapsto> fresh]\<rparr>
       = tick_loop (Prediction g0 ''Imbue Mind'' imbue_mind\<lparr>p_ticks := 4\<rparr>) imbue_loop
        \<lparr>resources = [''town'' \<mapsto> 0, ''mind'' \<mapsto> 0, ''mana'' \<mapsto> 249],
         stats = [''dexterity'' \<mapsto> 0, ''strength'' \<mapsto> 1], skills = [''magic'' \<mapsto> 0],
         progressions = [''Imbue Mind'' \<mapsto> fresh]\<rparr>
   \<and> (0::real) < 100
   \<and> loop (Prediction g0 ''Two Segments'' two_segments\<lparr>p_ticks := 4\<rparr>) = Some two_loop
   \<and> l_cost two_loop = (\<lambda>p a segment. 100)
   \<and> tick g0 (Prediction g0 ''Two Segments'' two_segments\<lparr>p_ticks := 4\<rparr>)
        (seed_progress g0 (Prediction g0 ''Two Segments'' two_segments) (start_state [''gold'', ''rep''])) \<noteq> None"
proof -
  let ?t = "Prediction g0 ''Two Segments'' two_segments\<lparr>p_ticks := 4\<rparr>"
  have c: "\<forall>lp. loop ?t = Some lp \<longrightarrow> (\<forall>p s. 100 \<le> l_cost lp p (action ?t) s)"
    by (simp add: two_simps two_loop_def)
  from tick_stops_iff[where pr = ?t and e = 100 and g = g0
      and st = "seed_progress g0 (Prediction g0 ''Two Segments'' two_segments) (start_state [''gold'', ''rep''])"] c
  have r: "tick g0 ?t (seed_progress g0 (Prediction g0 ''Two Segments'' two_segments) (start_state [''gold'', ''rep''])) \<noteq> None"
    by simp
  let ?w = "Prediction g0 ''Wander'' no_params\<lparr>p_ticks := 248\<rparr>"
  let ?i = "Prediction g0 ''Imbue Mind'' imbue_mind\<lparr>p_ticks := 4\<rparr>"
  let ?st = "\<lparr>resources = [''town'' \<mapsto> 0, ''mind'' \<mapsto> 0, ''mana'' \<mapsto> 249],
         stats = [''dexterity'' \<mapsto> 0, ''strength'' \<mapsto> 0], skills = [''magic'' \<mapsto> 0],
         progressions = [''Imbue Mind'' \<mapsto> fresh]\<rparr>"
  let ?st1 = "\<lparr>resources = [''town'' \<mapsto> 0, ''mind'' \<mapsto> 0, ''mana'' \<mapsto> 249],
         stats = [''dexterity'' \<mapsto> 0, ''strength'' \<mapsto> 1], skills = [''magic'' \<mapsto> 0],
         progressions = [''Imbue Mind'' \<mapsto> fresh]\<rparr>"
  let ?wk = "\<lparr>w_progress = 0, w_segment = 0, w_progression = fresh,
             w_resources = [''town'' \<mapsto> 0, ''mind'' \<mapsto> 0, ''mana'' \<mapsto> 249],
             w_skills = [''magic'' \<mapsto> 0]\<rparr>"
  have l: "loop ?w = None" "loop ?i = Some imbue_loop"
    by (simp_all add: wander_simps imbue_simps)
  have e: "exp_gain g0 ?i (action ?i) (stats ?st) = Inr [''dexterity'' \<mapsto> 0, ''strength'' \<mapsto> 1]"
    by (simp add: exp_gain_def exp_step_def ticks_def imbue_simps loop_action_simps g0_simps)
  from tick_stops_iff[where pr = ?i and lp = imbue_loop and g = g0 and st = ?st
      and s = "[''dexterity'' \<mapsto> 0, ''strength'' \<mapsto> 1]"] l(2) e
  have a: "tick g0 ?i ?st = tick_loop ?i imbue_loop ?st1"
    by simp
  from tick_stops_iff[where pr = ?i and lp = imbue_loop and st = ?st1 and d = 0 and w = ?wk] imbue_tick_run
  have b: "\<not> truthy (tick_result 0 0 (max_segments imbue_loop (action ?i)))"
    by simp
  have k: "loop ?t = Some two_loop" "l_cost two_loop = (\<lambda>p a segment. 100)"
    by (simp_all add: two_simps two_loop_def)
  from a b l(1) wander_tick imbue_tick_run k r show ?thesis
    by simp
qed


text \<open>
  C7 as stated fails: after three ticks of "Two Segments" the stored progress is 150,
  the current segment is the second one and its cost is 100.
\<close>

theorem stored_progress_exceeds_segment:
  "map_option (map_sum id (\<lambda>st. map_option progress (progressions st ''Two Segments'')))
     (predict_ticks g0 (Prediction g0 ''Two Segments'' two_segments\<lparr>p_ticks := 4\<rparr>) 3
        (seed_progress g0 (Prediction g0 ''Two Segments'' two_segments) (start_state [''gold'', ''rep''])))
     = Some (Inr (Some 150))
   \<and> before_tick (l_cost two_loop \<lparr>progress = 150, completed = 0, total = 0\<rparr> (loop_action 2 1 4)) 150 0
     = Some (50, 1)
   \<and> l_cost two_loop \<lparr>progress = 150, completed = 0, total = 0\<rparr> (loop_action 2 1 4) 1 = 100"
  by (simp add: start_state_def init0 init_resource_def seed_progress_def two_simps g0_simps
        loop_action_simps two_loop_def predict_ticks_numeral tick_eval)

lemma two_tick_run:
  "tick_run (Prediction g0 ''Two Segments'' two_segments\<lparr>p_ticks := 4\<rparr>) two_loop
     \<lparr>resources = [''town'' \<mapsto> 0, ''rep'' \<mapsto> 0, ''gold'' \<mapsto> 20, ''mana'' \<mapsto> 247],
      stats = [''dexterity'' \<mapsto> 0, ''strength'' \<mapsto> 3], skills = [''magic'' \<mapsto> 0],
      progressions = [''Two Segments'' \<mapsto> \<lparr>progress = 100, completed = 0, total = 0\<rparr>]\<rparr>
   = Some (Inr (50, \<lparr>w_progress = 50, w_segment = 1,
                      w_progression = \<lparr>progress = 150, completed = 0, total = 0\<rparr>,
                      w_resources = [''town'' \<mapsto> 0, ''rep'' \<mapsto> 0, ''gold'' \<mapsto> 20, ''mana'' \<mapsto> 247],
                      w_skills = [''magic'' \<mapsto> 0]\<rparr>))"
  by (simp add: two_simps loop_action_simps two_loop_def tick_run_def
        before_tick.simps after_tick.simps walk_cond_def max_segments_def below_def ticks_def)

text \<open>
  The third tick of "Two Segments": the stored progress goes from 100 to 150, and the
  remainder within the second segment is 50, below its cost of 100.
\<close>

theorem stored_progress_bounds_witness:
  "before_tick (\<lambda>segment. 100) 150 0 = Some (50, 1)
   \<and> (50::real) < (\<lambda>segment::int. 100) 1 \<and> (0::real) \<le> 150 \<and> (0::real) \<le> 50
   \<and> tick_run (Prediction g0 ''Two Segments'' two_segments\<lparr>p_ticks := 4\<rparr>) two_loop
     \<lparr>resources = [''town'' \<mapsto> 0, ''rep'' \<mapsto> 0, ''gold'' \<mapsto> 20, ''mana'' \<mapsto> 247],
      stats = [''dexterity'' \<mapsto> 0, ''strength'' \<mapsto> 3], skills = [''magic'' \<mapsto> 0],
      progressions = [''Two Segments'' \<mapsto> \<lparr>progress = 100, completed = 0, total = 0\<rparr>]\<rparr>
     = Some (Inr (50, \<lparr>w_progress = 50, w_segment = 1,
                      w_progression = \<lparr>progress = 150, completed = 0, total = 0\<rparr>,
                      w_resources = [''town'' \<mapsto> 0, ''rep'' \<mapsto> 0, ''gold'' \<mapsto> 20, ''mana'' \<mapsto> 247],
                      w_skills = [''magic'' \<mapsto> 0]\<rparr>))
   \<and> progress \<lparr>progress = 150, completed = 0, total = 0\<rparr>
       = progress \<lparr>progress = 100, completed = 0, total = 0\<rparr> + 50
   \<and> 0 \<le> progress \<lparr>progress = 150, completed = 0, total = 0\<rparr>"
proof -
  let ?pr = "Prediction g0 ''Two Segments'' two_segments\<lparr>p_ticks := 4\<rparr>"
  let ?st = "\<lparr>resources = [''town'' \<mapsto> 0, ''rep'' \<mapsto> 0, ''gold'' \<mapsto> 20, ''mana'' \<mapsto> 247],
      stats = [''dexterity'' \<mapsto> 0, ''strength'' \<mapsto> 3], skills = [''magic'' \<mapsto> 0],
      progressions = [''Two Segments'' \<mapsto> \<lparr>progress = 100, completed = 0, total = 0\<rparr>]\<rparr>"
  let ?w = "\<lparr>w_progress = 50, w_segment = 1,
                      w_progression = \<lparr>progress = 150, completed = 0, total = 0\<rparr>,
                      w_resources = [''town'' \<mapsto> 0, ''rep'' \<mapsto> 0, ''gold'' \<mapsto> 20, ''mana'' \<mapsto> 247],
                      w_skills = [''magic'' \<mapsto> 0]\<rparr>"
  have b: "before_tick (\<lambda>segment. 100) 150 0 = Some (50, 1)"
    by (simp add: before_tick.simps)
  from stored_progress_bounds[where c = "\<lambda>segment. 100" and x = 150 and x' = 50 and s' = 1] b
  have 1: "(50::real) < (\<lambda>segment::int. 100) 1 \<and> (0::real) \<le> 50"
    by simp
  have p: "progressions ?st (name ?pr) = Some \<lparr>progress = 100, completed = 0, total = 0\<rparr>"
    by (simp add: two_simps)
  from stored_progress_bounds[where pr = ?pr and lp = two_loop and st = ?st and d = 50 and w = ?w
      and p = "\<lparr>progress = 100, completed = 0, total = 0\<rparr>"] two_tick_run p
  have 2: "0 \<le> progress (w_progression ?w)"
    by simp
  from b 1 2 two_tick_run show ?thesis
    by simp
qed

text \<open>
  "Imbue Mind" is scheduled for four ticks. The first one stops the repetition, which
  ends with one mana spent and one point of strength experience gained.
\<close>

theorem stopping_tick_is_paid_witness:
  "resources \<lparr>resources = [''town'' \<mapsto> 0, ''mind'' \<mapsto> 0, ''mana'' \<mapsto> 250],
      stats = [''dexterity'' \<mapsto> 0, ''strength'' \<mapsto> 0], skills = [''magic'' \<mapsto> 0],
      progressions = [''Imbue Mind'' \<mapsto> fresh]\<rparr> ''mana'' = Some 250
   \<and> tick g0 (Prediction g0 ''Imbue Mind'' imbue_mind\<lparr>p_ticks := 4\<rparr>)
        \<lparr>resources = [''town'' \<mapsto> 0, ''mind'' \<mapsto> 0, ''mana'' \<mapsto> 249],
         stats = [''dexterity'' \<mapsto> 0, ''strength'' \<mapsto> 0], skills = [''magic'' \<mapsto> 0],
         progressions = [''Imbue Mind'' \<mapsto> fresh]\<rparr>
       = Some (Inr (\<lparr>resources = [''town'' \<mapsto> 0, ''mind'' \<mapsto> 0, ''mana'' \<mapsto> 249],
                     stats = [''dexterity'' \<mapsto> 0, ''strength'' \<mapsto> 1], skills = [''magic'' \<mapsto> 0],
                     progressions = [''Imbue Mind'' \<mapsto> fresh]\<rparr>, JNum 0))
   \<and> \<not> truthy (JNum 0)
   \<and> keeps_mana (e_segment imbue_loop) \<and> keeps_mana (e_loop imbue_loop)
   \<and> predict_ticks g0 (Prediction g0 ''Imbue Mind'' imbue_mind\<lparr>p_ticks := 4\<rparr>) (Suc 3)
        \<lparr>resources = [''town'' \<mapsto> 0, ''mind'' \<mapsto> 0, ''mana'' \<mapsto> 250],
         stats = [''dexterity'' \<mapsto> 0, ''strength'' \<mapsto> 0], skills = [''magic'' \<mapsto> 0],
         progressions = [''Imbue Mind'' \<mapsto> fresh]\<rparr>
       = Some (Inr \<lparr>resources = [''town'' \<mapsto> 0, ''mind'' \<mapsto> 0, ''mana'' \<mapsto> 249],
                     stats = [''dexterity'' \<mapsto> 0, ''strength'' \<mapsto> 1], skills = [''magic'' \<mapsto> 0],
                     progressions = [''Imbue Mind'' \<mapsto> fresh]\<rparr>)"
proof -
  let ?pr = "Prediction g0 ''Imbue Mind'' imbue_mind\<lparr>p_ticks := 4\<rparr>"
  let ?st = "\<lparr>resources = [''town'' \<mapsto> 0, ''mind'' \<mapsto> 0, ''mana'' \<mapsto> 250],
      stats = [''dexterity'' \<mapsto> 0, ''strength'' \<mapsto> 0], skills = [''magic'' \<mapsto> 0],
      progressions = [''Imbue Mind'' \<mapsto> fresh]\<rparr>"
  let ?st1 = "\<lparr>resources = [''town'' \<mapsto> 0, ''mind'' \<mapsto> 0, ''mana'' \<mapsto> 249],
                     stats = [''dexterity'' \<mapsto> 0, ''strength'' \<mapsto> 1], skills = [''magic'' \<mapsto> 0],
                     progressions = [''Imbue Mind'' \<mapsto> fresh]\<rparr>"
  have m: "resources ?st ''mana'' = Some 250"
    by simp
  have t: "tick g0 ?pr (?st\<lparr>resources := (resources ?st)(''mana'' \<mapsto> 250 - 1)\<rparr>) = Some (Inr (?st1, JNum 0))"
    using imbue_tick by simp
  have k: "keeps_mana (e_segment imbue_loop)" "keeps_mana (e_loop imbue_loop)"
    by (simp_all add: keeps_mana_def imbue_loop_def apply_effect_def bump_def)
  from stopping_tick_is_paid[OF m t, of 3]
  have "predict_ticks g0 ?pr (Suc 3) ?st = Some (Inr ?st1)"
    by simp
  with m imbue_tick k show ?thesis
    by simp
qed



lemma two_update:
  "map_option (map_sum id (\<lambda>u. progressions (u_state u) ''Two Segments''))
     (update g0 ps0 [\<lparr>la_name = ''Two Segments'', la_loops = 1\<rparr>])
   = Some (Inr (Some \<lparr>progress = 0, completed = 2, total = 1\<rparr>))"
  by (simp add: engine_eval ps0_simps init0 two_simps g0_simps loop_action_simps two_loop_def
        updateTicks_g0[where w=1 and e=0] ceiling_eq_iff)

lemma two_tick_completes:
  "map_option (map_sum id (\<lambda>x. progressions (fst x) ''Two Segments''))
     (tick g0 (Prediction g0 ''Two Segments'' two_segments\<lparr>p_ticks := 4\<rparr>)
        \<lparr>resources = [''town'' \<mapsto> 0, ''rep'' \<mapsto> 0, ''gold'' \<mapsto> 20, ''mana'' \<mapsto> 246],
         stats = [''dexterity'' \<mapsto> 0, ''strength'' \<mapsto> 3], skills = [''magic'' \<mapsto> 0],
         progressions = [''Two Segments'' \<mapsto> \<lparr>progress = 150, completed = 0, total = 0\<rparr>]\<rparr>)
   = Some (Inr (Some \<lparr>progress = 0, completed = 2, total = 1\<rparr>))"
  by (simp add: two_simps g0_simps loop_action_simps two_loop_def tick_eval)

lemma projected:
  assumes "map_option (map_sum id f) x = Some (Inr y)"
  obtains z where "x = Some (Inr z)" and "f z = y"
proof (cases x)
  case None
  with assms show ?thesis by simp
next
  case (Some s)
  with assms that show ?thesis by (cases s) auto
qed

lemma table_ok_ps0: "table_ok g0 ps0"
  unfolding ps0_def by (rule initPredictions_ok)

text \<open>
  One repetition of "Two Segments" completes one loop: 2 segments, a multiple of 2.
\<close>

theorem completed_multiple_witness:
  "table_ok g0 ps0
   \<and> map_option (map_sum id (\<lambda>u. progressions (u_state u) ''Two Segments''))
        (update g0 ps0 [\<lparr>la_name = ''Two Segments'', la_loops = 1\<rparr>])
      = Some (Inr (Some \<lparr>progress = 0, completed = 2, total = 1\<rparr>))
   \<and> segments (translateClassNames g0 ''Two Segments'') dvd completed \<lparr>progress = 0, completed = 2, total = 1\<rparr>
   \<and> loop (Prediction g0 ''Two Segments'' two_segments) \<noteq> None
   \<and> progressions (start_state [''gold'', ''rep'']) (name (Prediction g0 ''Two Segments'' two_segments)) = None
   \<and> map_option completed
        (progressions (seed_progress g0 (Prediction g0 ''Two Segments'' two_segments) (start_state [''gold'', ''rep'']))
           (name (Prediction g0 ''Two Segments'' two_segments))) = Some 0
   \<and> map_option (map_sum id (\<lambda>x. progressions (fst x) ''Two Segments''))
        (tick g0 (Prediction g0 ''Two Segments'' two_segments\<lparr>p_ticks := 4\<rparr>)
           \<lparr>resources = [''town'' \<mapsto> 0, ''rep'' \<mapsto> 0, ''gold'' \<mapsto> 20, ''mana'' \<mapsto> 246],
            stats = [''dexterity'' \<mapsto> 0, ''strength'' \<mapsto> 3], skills = [''magic'' \<mapsto> 0],
            progressions = [''Two Segments'' \<mapsto> \<lparr>progress = 150, completed = 0, total = 0\<rparr>]\<rparr>)
      = Some (Inr (Some \<lparr>progress = 0, completed = 2, total = 1\<rparr>))
   \<and> (\<exists>n::nat. completed \<lparr>progress = 0, completed = 2, total = 1\<rparr>
          = completed \<lparr>progress = 150, completed = 0, total = 0\<rparr>
            + int n * segments (action (Prediction g0 ''Two Segments'' two_segments\<lparr>p_ticks := 4\<rparr>)))"
proof -
  let ?pr = "Prediction g0 ''Two Segments'' two_segments"
  let ?st = "\<lparr>resources = [''town'' \<mapsto> 0, ''rep'' \<mapsto> 0, ''gold'' \<mapsto> 20, ''mana'' \<mapsto> 246],
            stats = [''dexterity'' \<mapsto> 0, ''strength'' \<mapsto> 3], skills = [''magic'' \<mapsto> 0],
            progressions = [''Two Segments'' \<mapsto> \<lparr>progress = 150, completed = 0, total = 0\<rparr>]\<rparr>"
  let ?q = "\<lparr>progress = 0, completed = 2, total = 1\<rparr>"
  from two_update obtain u where u: "update g0 ps0 [\<lparr>la_name = ''Two Segments'', la_loops = 1\<rparr>] = Some (Inr u)"
    and q: "progressions (u_state u) ''Two Segments'' = Some ?q"
    by (rule projected)
  from completed_multiple[where g = g0 and ps = ps0 and u = u and k = "''Two Segments''" and q = ?q
      and actions = "[\<lparr>la_name = ''Two Segments'', la_loops = 1\<rparr>]"] table_ok_ps0 u q
  have 1: "segments (translateClassNames g0 ''Two Segments'') dvd completed ?q"
    by blast
  have s: "loop ?pr \<noteq> None" "progressions (start_state [''gold'', ''rep'']) (name ?pr) = None"
    by (simp_all add: two_simps start_state_def init0)
  from completed_multiple[where pr = ?pr and st = "start_state [''gold'', ''rep'']" and g = g0] s
  have 2: "map_option completed (progressions (seed_progress g0 ?pr (start_state [''gold'', ''rep''])) (name ?pr)) = Some 0"
    by blast
  from two_tick_completes obtain x where t: "tick g0 (?pr\<lparr>p_ticks := 4\<rparr>) ?st = Some (Inr x)"
    and x: "progressions (fst x) ''Two Segments'' = Some ?q"
    by (rule projected)
  from t have t': "tick g0 (?pr\<lparr>p_ticks := 4\<rparr>) ?st = Some (Inr (fst x, snd x))"
    by simp
  from completed_multiple[where g = g0 and pr = "?pr\<lparr>p_ticks := 4\<rparr>" and st = ?st and st' = "fst x"
      and v = "snd x" and k = "''Two Segments''" and p' = ?q] t' x
  obtain p and n :: nat where "progressions ?st ''Two Segments'' = Some p"
    and "completed ?q = completed p + int n * segments (action (?pr\<lparr>p_ticks := 4\<rparr>))"
    by blast
  then have 3: "\<exists>n::nat. completed ?q = completed \<lparr>progress = 150, completed = 0, total = 0\<rparr>
            + int n * segments (action (?pr\<lparr>p_ticks := 4\<rparr>))"
    by auto
  from table_ok_ps0 two_update 1 s 2 two_tick_completes 3 show ?thesis
    by blast
qed

lemma guild_update:
  "map_option (map_sum id (\<lambda>u. (map rp_isValid (u_reports u), resources (u_state u) ''mana'',
                                  resources (u_state u) ''adventures'', u_total u)))
     (update g0 ps0 [\<lparr>la_name = ''Wander'', la_loops = 1\<rparr>, \<lparr>la_name = ''Adventure Guild'', la_loops = 1\<rparr>])
   = Some (Inr ([True, True], Some 198, Some 1, 252))"
  by (simp add: engine_eval ps0_simps init0 guild_simps wander_simps g0_simps loop_action_simps
        plain_action_simps guild_loop_def predict_plain[where w=124 and t=248]
        updateTicks_g0[where w=124 and e=0] updateTicks_g0[where w=4 and e=248] ceiling_eq_iff)

lemma guild_start:
  "map_option (map_sum id (\<lambda>u. seed_progress g0 (Prediction g0 ''Adventure Guild'' adventure_guild) (u_state u)))
     (entries g0 [\<lparr>la_name = ''Wander'', la_loops = 1\<rparr>]
        \<lparr>u_predictions = ps0, u_state = start_state [''gold'', ''adventures''],
         u_snap_stats = Snapshot (Some (stats (initial_state g0))),
         u_snap_skills = Snapshot (Some (skills (initial_state g0))),
         u_total = 0, u_totalTicks = 0, u_reports = []\<rparr>)
   = Some (Inr \<lparr>resources = [''town'' \<mapsto> 0, ''gold'' \<mapsto> 0, ''adventures'' \<mapsto> 0, ''mana'' \<mapsto> 2],
                stats = [''dexterity'' \<mapsto> 0, ''strength'' \<mapsto> 248], skills = [''magic'' \<mapsto> 0],
                progressions = [''Adventure Guild'' \<mapsto> fresh]\<rparr>)"
  by (simp add: engine_eval start_state_def fresh_def ps0_simps init0 guild_simps wander_simps g0_simps
        plain_action_simps predict_plain[where w=124 and t=248]
        updateTicks_g0[where w=124 and e=0] ceiling_eq_iff)

lemma guild_three_ticks:
  "map_option (map_sum id (\<lambda>st. resources st ''mana''))
     (predict_ticks g0 (Prediction g0 ''Adventure Guild'' adventure_guild\<lparr>p_ticks := 4\<rparr>) 3
        \<lparr>resources = [''town'' \<mapsto> 0, ''gold'' \<mapsto> 0, ''adventures'' \<mapsto> 0, ''mana'' \<mapsto> 2],
         stats = [''dexterity'' \<mapsto> 0, ''strength'' \<mapsto> 248], skills = [''magic'' \<mapsto> 0],
         progressions = [''Adventure Guild'' \<mapsto> fresh]\<rparr>)
   = Some (Inr (Some (- 1)))"
  by (simp add: fresh_def guild_simps g0_simps loop_action_simps guild_loop_def predict_ticks_numeral tick_eval)

lemma guild_predict:
  "predict g0 (Prediction g0 ''Adventure Guild'' adventure_guild)
        \<lparr>resources = [''town'' \<mapsto> 0, ''gold'' \<mapsto> 0, ''adventures'' \<mapsto> 0, ''mana'' \<mapsto> 2],
         stats = [''dexterity'' \<mapsto> 0, ''strength'' \<mapsto> 248], skills = [''magic'' \<mapsto> 0],
         progressions = [''Adventure Guild'' \<mapsto> fresh]\<rparr>
   = Some (Inr (Prediction g0 ''Adventure Guild'' adventure_guild\<lparr>p_ticks := 4\<rparr>,
        \<lparr>resources = [''town'' \<mapsto> 0, ''gold'' \<mapsto> 0, ''mana'' \<mapsto> 198, ''adventures'' \<mapsto> 1],
         stats = [''dexterity'' \<mapsto> 0, ''strength'' \<mapsto> 252], skills = [''magic'' \<mapsto> 0],
         progressions = [''Adventure Guild'' \<mapsto> \<lparr>progress = 25, completed = 0, total = 0\<rparr>]\<rparr>))"
  by (simp add: fresh_def predict_looping guild_simps g0_simps loop_action_simps guild_loop_def
        updateTicks_g0[where w=4 and e=248] ceiling_eq_iff predict_ticks_numeral tick_eval)


text \<open>
  C4 as stated fails. In the list "Wander", "Adventure Guild" the guild starts its
  repetition with 2 mana; after three of its four ticks the mana is \<open>-1\<close>, the fourth
  tick completes a segment, whose effect adds 200 mana, and both entries are reported
  valid.
\<close>

theorem mana_negative_within_valid_entry:
  "map_option (map_sum id (\<lambda>u. seed_progress g0 (Prediction g0 ''Adventure Guild'' adventure_guild) (u_state u)))
     (entries g0 [\<lparr>la_name = ''Wander'', la_loops = 1\<rparr>]
        \<lparr>u_predictions = ps0, u_state = start_state [''gold'', ''adventures''],
         u_snap_stats = Snapshot (Some (stats (initial_state g0))),
         u_snap_skills = Snapshot (Some (skills (initial_state g0))),
         u_total = 0, u_totalTicks = 0, u_reports = []\<rparr>)
     = Some (Inr \<lparr>resources = [''town'' \<mapsto> 0, ''gold'' \<mapsto> 0, ''adventures'' \<mapsto> 0, ''mana'' \<mapsto> 2],
                  stats = [''dexterity'' \<mapsto> 0, ''strength'' \<mapsto> 248], skills = [''magic'' \<mapsto> 0],
                  progressions = [''Adventure Guild'' \<mapsto> fresh]\<rparr>)
   \<and> map_option (map_sum id (\<lambda>st. resources st ''mana''))
       (predict_ticks g0 (Prediction g0 ''Adventure Guild'' adventure_guild\<lparr>p_ticks := 4\<rparr>) 3
          \<lparr>resources = [''town'' \<mapsto> 0, ''gold'' \<mapsto> 0, ''adventures'' \<mapsto> 0, ''mana'' \<mapsto> 2],
           stats = [''dexterity'' \<mapsto> 0, ''strength'' \<mapsto> 248], skills = [''magic'' \<mapsto> 0],
           progressions = [''Adventure Guild'' \<mapsto> fresh]\<rparr>)
     = Some (Inr (Some (- 1)))
   \<and> map_option (map_sum id (\<lambda>u. (map rp_isValid (u_reports u), resources (u_state u) ''mana'',
                                  resources (u_state u) ''adventures'', u_total u)))
       (update g0 ps0 [\<lparr>la_name = ''Wander'', la_loops = 1\<rparr>, \<lparr>la_name = ''Adventure Guild'', la_loops = 1\<rparr>])
     = Some (Inr ([True, True], Some 198, Some 1, 252))"
  using guild_start guild_three_ticks guild_update by simp

lemma wander_second:
  "repetition g0 ''Wander'' (Prediction g0 ''Wander'' no_params\<lparr>p_ticks := 248\<rparr>)
     \<lparr>r_state = \<lparr>resources = [''town'' \<mapsto> 0, ''mana'' \<mapsto> 2],
                  stats = [''dexterity'' \<mapsto> 0, ''strength'' \<mapsto> 248], skills = [''magic'' \<mapsto> 0],
                  progressions = Map.empty\<rparr>,
      r_total = 248, r_totalTicks = 248, r_isValid = True\<rparr>
   = Some (Inr (Prediction g0 ''Wander'' no_params\<lparr>p_ticks := 248\<rparr>,
        \<lparr>r_state = \<lparr>resources = [''town'' \<mapsto> 0, ''mana'' \<mapsto> - 246],
                     stats = [''dexterity'' \<mapsto> 0, ''strength'' \<mapsto> 496], skills = [''magic'' \<mapsto> 0],
                     progressions = Map.empty\<rparr>,
         r_total = 496, r_totalTicks = 496, r_isValid = False\<rparr>))"
  by (simp add: repetition_def account_def guild_minus_def guild_plus_def mana_used_def mana_ok_def
        run_effects_def apply_effect_def time0 wander_simps plain_action_simps
        predict_plain[where w=124 and t=248] updateTicks_g0[where w=124 and e=248] ceiling_eq_iff)

lemma wander_third:
  "repetitions g0 ''Wander'' 1 (Prediction g0 ''Wander'' no_params\<lparr>p_ticks := 248\<rparr>)
     \<lparr>r_state = \<lparr>resources = [''town'' \<mapsto> 0, ''mana'' \<mapsto> - 246],
                  stats = [''dexterity'' \<mapsto> 0, ''strength'' \<mapsto> 496], skills = [''magic'' \<mapsto> 0],
                  progressions = Map.empty\<rparr>,
      r_total = 496, r_totalTicks = 496, r_isValid = False\<rparr>
   = Some (Inr (Prediction g0 ''Wander'' no_params\<lparr>p_ticks := 248\<rparr>,
        \<lparr>r_state = \<lparr>resources = [''town'' \<mapsto> 0, ''mana'' \<mapsto> - 494],
                     stats = [''dexterity'' \<mapsto> 0, ''strength'' \<mapsto> 744], skills = [''magic'' \<mapsto> 0],
                     progressions = Map.empty\<rparr>,
         r_total = 744, r_totalTicks = 744, r_isValid = False\<rparr>))"
  by (simp add: can_start_def repetition_def account_def guild_minus_def guild_plus_def mana_used_def mana_ok_def
        run_effects_def apply_effect_def time0 wander_simps plain_action_simps
        predict_plain[where w=124 and t=248] updateTicks_g0[where w=124 and e=496] ceiling_eq_iff)

lemma wander_update:
  "map_option (map_sum id (\<lambda>u. (map rp_isValid (u_reports u), resources (u_state u) ''mana'', u_total u)))
     (update g0 ps0 [\<lparr>la_name = ''Wander'', la_loops = 3\<rparr>])
   = Some (Inr ([False], Some (- 494), 744))"
  by (simp add: engine_eval ps0_simps init0 wander_simps g0_simps plain_action_simps
        predict_plain[where w=124 and t=248] updateTicks_g0[where w=124] ceiling_eq_iff)

text \<open>
  Three repetitions of "Wander" cost 248 mana each: the second one ends at \<open>-246\<close>
  and clears the flag, the third one runs all the same and ends at \<open>-494\<close>.
\<close>

theorem validity_after_repetition_witness:
  "repetition g0 ''Wander'' (Prediction g0 ''Wander'' no_params\<lparr>p_ticks := 248\<rparr>)
     \<lparr>r_state = \<lparr>resources = [''town'' \<mapsto> 0, ''mana'' \<mapsto> 2],
                  stats = [''dexterity'' \<mapsto> 0, ''strength'' \<mapsto> 248], skills = [''magic'' \<mapsto> 0],
                  progressions = Map.empty\<rparr>,
      r_total = 248, r_totalTicks = 248, r_isValid = True\<rparr>
   = Some (Inr (Prediction g0 ''Wander'' no_params\<lparr>p_ticks := 248\<rparr>,
        \<lparr>r_state = \<lparr>resources = [''town'' \<mapsto> 0, ''mana'' \<mapsto> - 246],
                     stats = [''dexterity'' \<mapsto> 0, ''strength'' \<mapsto> 496], skills = [''magic'' \<mapsto> 0],
                     progressions = Map.empty\<rparr>,
         r_total = 496, r_totalTicks = 496, r_isValid = False\<rparr>))
   \<and> repetitions g0 ''Wander'' 1 (Prediction g0 ''Wander'' no_params\<lparr>p_ticks := 248\<rparr>)
     \<lparr>r_state = \<lparr>resources = [''town'' \<mapsto> 0, ''mana'' \<mapsto> - 246],
                  stats = [''dexterity'' \<mapsto> 0, ''strength'' \<mapsto> 496], skills = [''magic'' \<mapsto> 0],
                  progressions = Map.empty\<rparr>,
      r_total = 496, r_totalTicks = 496, r_isValid = False\<rparr>
   = Some (Inr (Prediction g0 ''Wander'' no_params\<lparr>p_ticks := 248\<rparr>,
        \<lparr>r_state = \<lparr>resources = [''town'' \<mapsto> 0, ''mana'' \<mapsto> - 494],
                     stats = [''dexterity'' \<mapsto> 0, ''strength'' \<mapsto> 744], skills = [''magic'' \<mapsto> 0],
                     progressions = Map.empty\<rparr>,
         r_total = 744, r_totalTicks = 744, r_isValid = False\<rparr>))
   \<and> \<not> r_isValid \<lparr>r_state = \<lparr>resources = [''town'' \<mapsto> 0, ''mana'' \<mapsto> - 494],
                     stats = [''dexterity'' \<mapsto> 0, ''strength'' \<mapsto> 744], skills = [''magic'' \<mapsto> 0],
                     progressions = Map.empty\<rparr>,
         r_total = 744, r_totalTicks = 744, r_isValid = False\<rparr>
   \<and> (\<exists>st. predict g0 (Prediction g0 ''Wander'' no_params\<lparr>p_ticks := 248\<rparr>)
               \<lparr>resources = [''town'' \<mapsto> 0, ''mana'' \<mapsto> 2],
                stats = [''dexterity'' \<mapsto> 0, ''strength'' \<mapsto> 248], skills = [''magic'' \<mapsto> 0],
                progressions = Map.empty\<rparr>
             = Some (Inr (Prediction g0 ''Wander'' no_params\<lparr>p_ticks := 248\<rparr>, st))
           \<and> \<not> mana_ok (resources st))
   \<and> map_option (map_sum id (\<lambda>u. (map rp_isValid (u_reports u), resources (u_state u) ''mana'', u_total u)))
       (update g0 ps0 [\<lparr>la_name = ''Wander'', la_loops = 3\<rparr>])
     = Some (Inr ([False], Some (- 494), 744))"
proof -
  let ?pr = "Prediction g0 ''Wander'' no_params\<lparr>p_ticks := 248\<rparr>"
  let ?st2 = "\<lparr>resources = [''town'' \<mapsto> 0, ''mana'' \<mapsto> 2],
                  stats = [''dexterity'' \<mapsto> 0, ''strength'' \<mapsto> 248], skills = [''magic'' \<mapsto> 0],
                  progressions = Map.empty\<rparr>"
  let ?rn2 = "\<lparr>r_state = ?st2, r_total = 248, r_totalTicks = 248, r_isValid = True\<rparr>"
  let ?rn3 = "\<lparr>r_state = \<lparr>resources = [''town'' \<mapsto> 0, ''mana'' \<mapsto> - 246],
                  stats = [''dexterity'' \<mapsto> 0, ''strength'' \<mapsto> 496], skills = [''magic'' \<mapsto> 0],
                  progressions = Map.empty\<rparr>,
      r_total = 496, r_totalTicks = 496, r_isValid = False\<rparr>"
  let ?rn4 = "\<lparr>r_state = \<lparr>resources = [''town'' \<mapsto> 0, ''mana'' \<mapsto> - 494],
                     stats = [''dexterity'' \<mapsto> 0, ''strength'' \<mapsto> 744], skills = [''magic'' \<mapsto> 0],
                     progressions = Map.empty\<rparr>,
         r_total = 744, r_totalTicks = 744, r_isValid = False\<rparr>"
  from validity_after_repetition[where g = g0 and lname = "''Wander''" and pr = ?pr and rn = ?rn2
      and pr' = ?pr and rn' = ?rn3] wander_second
  have 1: "\<exists>st. predict g0 ?pr ?st2 = Some (Inr (?pr, st)) \<and> \<not> mana_ok (resources st)"
    by simp
  from validity_after_repetition[where g = g0 and lname = "''Wander''" and n = 1 and pr = ?pr and rn = ?rn3
      and pr' = ?pr and rn' = ?rn4] wander_third
  have 2: "\<not> r_isValid ?rn4"
    by simp
  from wander_second wander_third 1 2 wander_update show ?thesis
    by blast
qed


text \<open>
  The repetition of the guild above started with 2 mana and ended with 198 mana and one
  adventure: 4 is added to the total, and the mana stays 198. Under any other name the
  same repetition would add \<open>-196\<close>.
\<close>

theorem guild_accounting_witness:
  "resources \<lparr>resources = [''town'' \<mapsto> 0, ''gold'' \<mapsto> 0, ''mana'' \<mapsto> 198, ''adventures'' \<mapsto> 1],
         stats = [''dexterity'' \<mapsto> 0, ''strength'' \<mapsto> 252], skills = [''magic'' \<mapsto> 0],
         progressions = [''Adventure Guild'' \<mapsto> \<lparr>progress = 25, completed = 0, total = 0\<rparr>]\<rparr> ''mana'' = Some 198
   \<and> resources \<lparr>resources = [''town'' \<mapsto> 0, ''gold'' \<mapsto> 0, ''mana'' \<mapsto> 198, ''adventures'' \<mapsto> 1],
         stats = [''dexterity'' \<mapsto> 0, ''strength'' \<mapsto> 252], skills = [''magic'' \<mapsto> 0],
         progressions = [''Adventure Guild'' \<mapsto> \<lparr>progress = 25, completed = 0, total = 0\<rparr>]\<rparr> ''adventures'' = Some 1
   \<and> account g0 ''Adventure Guild'' (Prediction g0 ''Adventure Guild'' adventure_guild\<lparr>p_ticks := 4\<rparr>) (Some 2)
       \<lparr>r_state = \<lparr>resources = [''town'' \<mapsto> 0, ''gold'' \<mapsto> 0, ''adventures'' \<mapsto> 0, ''mana'' \<mapsto> 2],
                    stats = [''dexterity'' \<mapsto> 0, ''strength'' \<mapsto> 248], skills = [''magic'' \<mapsto> 0],
                    progressions = [''Adventure Guild'' \<mapsto> fresh]\<rparr>,
        r_total = 248, r_totalTicks = 248, r_isValid = True\<rparr>
       \<lparr>resources = [''town'' \<mapsto> 0, ''gold'' \<mapsto> 0, ''mana'' \<mapsto> 198, ''adventures'' \<mapsto> 1],
        stats = [''dexterity'' \<mapsto> 0, ''strength'' \<mapsto> 252], skills = [''magic'' \<mapsto> 0],
        progressions = [''Adventure Guild'' \<mapsto> \<lparr>progress = 25, completed = 0, total = 0\<rparr>]\<rparr>
     = Inr \<lparr>r_state = \<lparr>resources = [''town'' \<mapsto> 0, ''gold'' \<mapsto> 0, ''mana'' \<mapsto> 198, ''adventures'' \<mapsto> 1],
                       stats = [''dexterity'' \<mapsto> 0, ''strength'' \<mapsto> 252], skills = [''magic'' \<mapsto> 0],
                       progressions = [''Adventure Guild'' \<mapsto> \<lparr>progress = 25, completed = 0, total = 0\<rparr>]\<rparr>,
            r_total = 252, r_totalTicks = 52, r_isValid = True\<rparr>
   \<and> ''Wander'' \<noteq> ''Adventure Guild''
   \<and> account g0 ''Wander'' (Prediction g0 ''Adventure Guild'' adventure_guild\<lparr>p_ticks := 4\<rparr>) (Some 2)
       \<lparr>r_state = \<lparr>resources = [''town'' \<mapsto> 0, ''gold'' \<mapsto> 0, ''adventures'' \<mapsto> 0, ''mana'' \<mapsto> 2],
                    stats = [''dexterity'' \<mapsto> 0, ''strength'' \<mapsto> 248], skills = [''magic'' \<mapsto> 0],
                    progressions = [''Adventure Guild'' \<mapsto> fresh]\<rparr>,
        r_total = 248, r_totalTicks = 248, r_isValid = True\<rparr>
       \<lparr>resources = [''town'' \<mapsto> 0, ''gold'' \<mapsto> 0, ''mana'' \<mapsto> 198, ''adventures'' \<mapsto> 1],
        stats = [''dexterity'' \<mapsto> 0, ''strength'' \<mapsto> 252], skills = [''magic'' \<mapsto> 0],
        progressions = [''Adventure Guild'' \<mapsto> \<lparr>progress = 25, completed = 0, total = 0\<rparr>]\<rparr>
     = Inr \<lparr>r_state = \<lparr>resources = [''town'' \<mapsto> 0, ''gold'' \<mapsto> 0, ''mana'' \<mapsto> 198, ''adventures'' \<mapsto> 1],
                       stats = [''dexterity'' \<mapsto> 0, ''strength'' \<mapsto> 252], skills = [''magic'' \<mapsto> 0],
                       progressions = [''Adventure Guild'' \<mapsto> \<lparr>progress = 25, completed = 0, total = 0\<rparr>]\<rparr>,
            r_total = 52, r_totalTicks = 52, r_isValid = True\<rparr>
   \<and> map_option (map_sum id (\<lambda>u. (map rp_isValid (u_reports u), resources (u_state u) ''mana'',
                                  resources (u_state u) ''adventures'', u_total u)))
       (update g0 ps0 [\<lparr>la_name = ''Wander'', la_loops = 1\<rparr>, \<lparr>la_name = ''Adventure Guild'', la_loops = 1\<rparr>])
     = Some (Inr ([True, True], Some 198, Some 1, 252))"
proof -
  let ?pr = "Prediction g0 ''Adventure Guild'' adventure_guild\<lparr>p_ticks := 4\<rparr>"
  let ?st = "\<lparr>resources = [''town'' \<mapsto> 0, ''gold'' \<mapsto> 0, ''mana'' \<mapsto> 198, ''adventures'' \<mapsto> 1],
         stats = [''dexterity'' \<mapsto> 0, ''strength'' \<mapsto> 252], skills = [''magic'' \<mapsto> 0],
         progressions = [''Adventure Guild'' \<mapsto> \<lparr>progress = 25, completed = 0, total = 0\<rparr>]\<rparr>"
  let ?rn = "\<lparr>r_state = \<lparr>resources = [''town'' \<mapsto> 0, ''gold'' \<mapsto> 0, ''adventures'' \<mapsto> 0, ''mana'' \<mapsto> 2],
                    stats = [''dexterity'' \<mapsto> 0, ''strength'' \<mapsto> 248], skills = [''magic'' \<mapsto> 0],
                    progressions = [''Adventure Guild'' \<mapsto> fresh]\<rparr>,
        r_total = 248, r_totalTicks = 248, r_isValid = True\<rparr>"
  have m: "resources ?st ''mana'' = Some 198" and a: "resources ?st ''adventures'' = Some 1"
    by simp_all
  have e: "run_effects ?pr (resources ?st, skills ?st) = (resources ?st, skills ?st)"
    by (simp add: run_effects_def apply_effect_def guild_simps guild_loop_def)
  have n: "''Wander'' \<noteq> ''Adventure Guild''"
    by simp
  from guild_accounting[OF m a, where g = g0 and pr = ?pr and c = 2 and rn = ?rn and lname = "''Wander''"] e n
  have "account g0 ''Adventure Guild'' ?pr (Some 2) ?rn ?st
          = Inr \<lparr>r_state = ?st, r_total = 252, r_totalTicks = 52, r_isValid = True\<rparr>"
    and "account g0 ''Wander'' ?pr (Some 2) ?rn ?st
          = Inr \<lparr>r_state = ?st, r_total = 52, r_totalTicks = 52, r_isValid = True\<rparr>"
    by (simp_all add: time0)
  with m a n guild_update show ?thesis
    by simp
qed


lemma haggle_update:
  "map_option (map_sum id (\<lambda>u. (resources (u_state u), map rp_resources (u_reports u),
                                  map rp_isValid (u_reports u), u_total u)))
     (update g0 ps0 [\<lparr>la_name = ''Haggle'', la_loops = 5\<rparr>])
   = Some (Inr (resources (start_state [''rep'']), [resources (start_state [''rep''])], [True], 0))"
  by (simp add: update_def all_affected_def init_resource_def entry_def seed_progress_def can_start_def
        start_state_def Let_def repetitions_numeral ps0_simps init0 haggle_simps)

lemma drunk_update:
  "map_option (map_sum id (\<lambda>u. (resources (u_state u) ''rep'', resources (u_state u) ''mana'',
                                  map rp_isValid (u_reports u), u_total u)))
     (update g0 ps0 [\<lparr>la_name = ''Get Drunk'', la_loops = 10\<rparr>])
   = Some (Inr (Some (- 4), Some 210, [True], 40))"
  by (simp add: engine_eval ps0_simps init0 drunk_simps g0_simps plain_action_simps
        predict_plain[where w=10 and t=10] updateTicks_g0[where w=10] ceiling_eq_iff)

lemma drunk_first:
  "repetition g0 ''Get Drunk'' (Prediction g0 ''Get Drunk'' get_drunk)
     \<lparr>r_state = start_state [''rep''], r_total = 0, r_totalTicks = 0, r_isValid = True\<rparr>
   = Some (Inr (Prediction g0 ''Get Drunk'' get_drunk\<lparr>p_ticks := 10\<rparr>,
        \<lparr>r_state = \<lparr>resources = [''town'' \<mapsto> 0, ''mana'' \<mapsto> 240, ''rep'' \<mapsto> - 1],
                     stats = [''dexterity'' \<mapsto> 0, ''strength'' \<mapsto> 10], skills = [''magic'' \<mapsto> 0],
                     progressions = Map.empty\<rparr>,
         r_total = 10, r_totalTicks = 10, r_isValid = True\<rparr>))"
  by (simp add: repetition_def account_def guild_minus_def guild_plus_def mana_used_def mana_ok_def
        run_effects_def apply_effect_def bump_def time0 drunk_simps plain_action_simps start_state_def init0
        init_resource_def predict_plain[where w=10 and t=10] updateTicks_g0[where w=10 and e=0] ceiling_eq_iff)

text \<open>
  "Haggle" needs a positive \<open>rep\<close> and never starts. "Get Drunk" lowers \<open>rep\<close> by 1 and
  needs it to be at least \<open>-3\<close>: of ten repetitions four run.
\<close>

theorem canStart_gates_repetitions_witness:
  "\<not> can_start (Prediction g0 ''Haggle'' haggle) (resources (start_state [''rep'']))
   \<and> repetitions g0 ''Haggle'' 5 (Prediction g0 ''Haggle'' haggle)
        \<lparr>r_state = start_state [''rep''], r_total = 0, r_totalTicks = 0, r_isValid = True\<rparr>
      = Some (Inr (Prediction g0 ''Haggle'' haggle,
                   \<lparr>r_state = start_state [''rep''], r_total = 0, r_totalTicks = 0, r_isValid = True\<rparr>))
   \<and> map_option (map_sum id (\<lambda>u. (resources (u_state u), map rp_resources (u_reports u),
                                  map rp_isValid (u_reports u), u_total u)))
       (update g0 ps0 [\<lparr>la_name = ''Haggle'', la_loops = 5\<rparr>])
     = Some (Inr (resources (start_state [''rep'']), [resources (start_state [''rep''])], [True], 0))
   \<and> can_start (Prediction g0 ''Get Drunk'' get_drunk) (resources (start_state [''rep'']))
   \<and> repetitions g0 ''Get Drunk'' (Suc 9) (Prediction g0 ''Get Drunk'' get_drunk)
        \<lparr>r_state = start_state [''rep''], r_total = 0, r_totalTicks = 0, r_isValid = True\<rparr>
      = repetitions g0 ''Get Drunk'' 9 (Prediction g0 ''Get Drunk'' get_drunk\<lparr>p_ticks := 10\<rparr>)
        \<lparr>r_state = \<lparr>resources = [''town'' \<mapsto> 0, ''mana'' \<mapsto> 240, ''rep'' \<mapsto> - 1],
                     stats = [''dexterity'' \<mapsto> 0, ''strength'' \<mapsto> 10], skills = [''magic'' \<mapsto> 0],
                     progressions = Map.empty\<rparr>,
         r_total = 10, r_totalTicks = 10, r_isValid = True\<rparr>
   \<and> map_option (map_sum id (\<lambda>u. (resources (u_state u) ''rep'', resources (u_state u) ''mana'',
                                  map rp_isValid (u_reports u), u_total u)))
       (update g0 ps0 [\<lparr>la_name = ''Get Drunk'', la_loops = 10\<rparr>])
     = Some (Inr (Some (- 4), Some 210, [True], 40))
   \<and> (\<exists>u'. entry g0 \<lparr>u_predictions = ps0, u_state = start_state [''rep''],
                        u_snap_stats = Snapshot (Some (stats (initial_state g0))),
                        u_snap_skills = Snapshot (Some (skills (initial_state g0))),
                        u_total = 0, u_totalTicks = 0, u_reports = []\<rparr>
                     \<lparr>la_name = ''Haggle'', la_loops = 5\<rparr> = Some (Inr u')
            \<and> resources (u_state u') = resources (start_state [''rep''])
            \<and> u_total u' = 0
            \<and> rp_resources (last (u_reports u')) = resources (start_state [''rep''])
            \<and> rp_isValid (last (u_reports u')))"
proof -
  let ?h = "Prediction g0 ''Haggle'' haggle"
  let ?d = "Prediction g0 ''Get Drunk'' get_drunk"
  let ?rn = "\<lparr>r_state = start_state [''rep''], r_total = 0, r_totalTicks = 0, r_isValid = True\<rparr>"
  let ?u = "\<lparr>u_predictions = ps0, u_state = start_state [''rep''],
             u_snap_stats = Snapshot (Some (stats (initial_state g0))),
             u_snap_skills = Snapshot (Some (skills (initial_state g0))),
             u_total = 0, u_totalTicks = 0, u_reports = []\<rparr>"
  have no: "\<not> can_start ?h (resources (start_state [''rep'']))"
    by (simp add: can_start_def haggle_simps start_state_def init0 init_resource_def)
  have yes: "can_start ?d (resources (start_state [''rep'']))"
    by (simp add: can_start_def drunk_simps start_state_def init0 init_resource_def)
  from canStart_gates_repetitions[where pr = ?h and rn = ?rn and g = g0 and lname = "''Haggle''" and n = 5] no
  have 1: "repetitions g0 ''Haggle'' 5 ?h ?rn = Some (Inr (?h, ?rn))"
    by simp
  from canStart_gates_repetitions[where pr = ?d and rn = ?rn and g = g0 and lname = "''Get Drunk''" and n = 9
      and pr' = "?d\<lparr>p_ticks := 10\<rparr>"
      and rn' = "\<lparr>r_state = \<lparr>resources = [''town'' \<mapsto> 0, ''mana'' \<mapsto> 240, ''rep'' \<mapsto> - 1],
                     stats = [''dexterity'' \<mapsto> 0, ''strength'' \<mapsto> 10], skills = [''magic'' \<mapsto> 0],
                     progressions = Map.empty\<rparr>,
         r_total = 10, r_totalTicks = 10, r_isValid = True\<rparr>"] yes drunk_first
  have 2: "repetitions g0 ''Get Drunk'' (Suc 9) ?d ?rn
      = repetitions g0 ''Get Drunk'' 9 (?d\<lparr>p_ticks := 10\<rparr>)
        \<lparr>r_state = \<lparr>resources = [''town'' \<mapsto> 0, ''mana'' \<mapsto> 240, ''rep'' \<mapsto> - 1],
                     stats = [''dexterity'' \<mapsto> 0, ''strength'' \<mapsto> 10], skills = [''magic'' \<mapsto> 0],
                     progressions = Map.empty\<rparr>,
         r_total = 10, r_totalTicks = 10, r_isValid = True\<rparr>"
    by simp
  have p: "u_predictions ?u (la_name \<lparr>la_name = ''Haggle'', la_loops = 5\<rparr>) = Some ?h"
    by (simp add: ps0_simps)
  have no': "\<not> can_start ?h (resources (u_state ?u))"
    using no by simp
  note c3 = canStart_gates_repetitions[where u = ?u and x = "\<lparr>la_name = ''Haggle'', la_loops = 5\<rparr>"
      and pr = ?h and g = g0 and xs = "[]" and rn = ?rn and lname = "''Haggle''" and n = 0
      and pr' = ?h and rn' = ?rn, THEN conjunct2, THEN conjunct2]
  from c3 p no' obtain u' where "entry g0 ?u \<lparr>la_name = ''Haggle'', la_loops = 5\<rparr> = Some (Inr u')"
    and "resources (u_state u') = resources (u_state ?u)"
    and "u_total u' = u_total ?u"
    and "rp_resources (last (u_reports u')) = resources (u_state ?u)"
    and "rp_isValid (last (u_reports u'))"
    by blast
  then have 3: "\<exists>u'. entry g0 ?u \<lparr>la_name = ''Haggle'', la_loops = 5\<rparr> = Some (Inr u')
            \<and> resources (u_state u') = resources (start_state [''rep''])
            \<and> u_total u' = 0
            \<and> rp_resources (last (u_reports u')) = resources (start_state [''rep''])
            \<and> rp_isValid (last (u_reports u'))"
    by simp
  from no 1 haggle_update yes 2 drunk_update 3 show ?thesis
    by blast
qed

end
